theory Spec2Isabelle
  imports Main "HOL-Library.Word"
begin

section \<open>The IR the TPU rewrite pass works on\<close>

text \<open>
  The pass of \<^verbatim>\<open>tpu_rewrite_pass.cc\<close> mutates an MLIR module in place through
  \<^verbatim>\<open>Operation*\<close> handles. The model keeps that shape: every operation lives in an arena
  (\<open>ops\<close>, a list indexed by the operation's handle; a destroyed operation leaves
  \<open>None\<close> behind), and the nesting of operations in regions and blocks is a tree of
  handles (\<open>root\<close>, the module operation at its top). Every region holds one block, as the
  regions of \<^verbatim>\<open>tf_device.launch\<close>, \<^verbatim>\<open>tf_device.replicate\<close>,
  \<^verbatim>\<open>tf_device.parallel_execute\<close> and the module do. Source locations are left out.
\<close>

type_synonym elem_type = string

datatype mtype =
    RankedTensorType "int list" elem_type
  | UnrankedTensorType elem_type
  | OtherType elem_type

text \<open>A value is a result of an operation or a block argument; it carries its type.\<close>

datatype val =
    OpResult nat nat mtype
  | BlockArgument nat nat mtype

fun val_type :: "val \<Rightarrow> mtype" where
  "val_type (OpResult owner idx t) = t"
| "val_type (BlockArgument owner idx t) = t"

datatype attr =
    StringAttr string
  | IntegerAttr int
  | ArrayAttr "attr list"
  | FlatSymbolRefAttr string
  | DictionaryAttr "(string \<times> attr) list"

record op_data =
  op_name :: string
  op_operands :: "val list"
  op_result_types :: "mtype list"
  op_attrs :: "(string \<times> attr) list"

datatype optree = OpNode (node_id: nat) (node_regions: "optree list list")

text \<open>The insertion point of the \<^verbatim>\<open>OpBuilder\<close>: before an operation, or at the end of
  the block of a region of an operation.\<close>

datatype insert_point = BeforeOp nat | EndOfBlock nat nat

record state =
  ops :: "op_data option list"
  root :: optree
  ip :: insert_point

datatype error =
    MissingAttribute string
  | BadStringArrayElement string nat
  | BadArrayElement string nat string string
  | BadArrayAttrLength string nat nat
  | BadAttributeValue string string
  | OperandTypeError nat string
  | NoFuncAttribute
  | DeviceFetchError string
  | GetDevicesFailed
  | InvalidResultNumber nat nat
  | Undefined string

text \<open>
  The constructors of \<open>error\<close> are the diagnostics of the source with the arguments of
  their format strings: \<open>MissingAttribute a\<close> is \<^verbatim>\<open>requires attribute '{0}'\<close>,
  \<open>BadStringArrayElement a i\<close> is \<^verbatim>\<open>kBadStringArrayElementMsg\<close>,
  \<open>BadArrayElement a i v k\<close> is \<^verbatim>\<open>kBadArrayElementMsg\<close>,
  \<open>BadArrayAttrLength a expected got\<close> is \<^verbatim>\<open>kBadArrayAttrLengthMsg\<close>,
  \<open>BadAttributeValue a v\<close> is \<^verbatim>\<open>bad '{0}' attribute with value '{1}'\<close>,
  \<open>OperandTypeError i msg\<close> is \<^verbatim>\<open>failed to determine operand type at index {0}: {1}\<close>,
  \<open>DeviceFetchError msg\<close> is \<^verbatim>\<open>error in fetching TPU compilation/execution devices\<close>.
  \<open>InvalidResultNumber op i\<close> is the assertion of \<^verbatim>\<open>Operation::getResult\<close> on a result
  number the operation does not have, and \<open>Undefined\<close> stands for the other places where
  the C++ has no defined behaviour (a null handle, \<^verbatim>\<open>front()\<close> of an empty vector, a
  failed \<^verbatim>\<open>assert\<close>).
\<close>

definition kNumCoresPerReplicaAttr :: string where
  "kNumCoresPerReplicaAttr = ''num_cores_per_replica''"

definition kStepMarkerLocationAttr :: string where
  "kStepMarkerLocationAttr = ''step_marker_location''"

definition kPaddingMapAttr :: string where
  "kPaddingMapAttr = ''padding_map''"

definition kDeviceAttr :: string where
  "kDeviceAttr = ''device''"

definition kDevicesAttr :: string where
  "kDevicesAttr = ''devices''"

definition kVersionsAttr :: string where
  "kVersionsAttr = ''tf.versions''"

definition kTpuReplicateAttr :: string where
  "kTpuReplicateAttr = ''_tpu_replicate''"

definition kSymNameAttr :: string where
  "kSymNameAttr = ''sym_name''"

definition kFuncAttr :: string where
  "kFuncAttr = ''func''"

definition kMetadataAttr :: string where
  "kMetadataAttr = ''metadata''"

definition kNumDynamicShapesAttr :: string where
  "kNumDynamicShapesAttr = ''NumDynamicShapes''"

definition kMlirModuleAttr :: string where
  "kMlirModuleAttr = ''mlir_module''"

definition kReplicateNAttr :: string where
  "kReplicateNAttr = ''n''"

definition kLaunchFuncOp :: string where
  "kLaunchFuncOp = ''tf_device.launch_func''"

definition kLaunchOp :: string where
  "kLaunchOp = ''tf_device.launch''"

definition kReturnOp :: string where
  "kReturnOp = ''tf_device.return''"

definition kReplicateOp :: string where
  "kReplicateOp = ''tf_device.replicate''"

definition kParallelExecuteOp :: string where
  "kParallelExecuteOp = ''tf_device.parallel_execute''"

definition kShapeOp :: string where
  "kShapeOp = ''tf.Shape''"

definition kCompileOp :: string where
  "kCompileOp = ''tf._TPUCompileMlir''"

definition kCompileSucceededAssertOp :: string where
  "kCompileSucceededAssertOp = ''tf.TPUCompileSucceededAssert''"

definition kExecuteOp :: string where
  "kExecuteOp = ''tf.TPUExecute''"

definition kCompilationResultOp :: string where
  "kCompilationResultOp = ''tf.TPUCompilationResult''"

definition kFuncOp :: string where
  "kFuncOp = ''func''"

definition kModuleOp :: string where
  "kModuleOp = ''module''"

subsection \<open>Attributes\<close>

definition getStringAttr :: "op_data \<Rightarrow> string \<Rightarrow> string option" where
  "getStringAttr d n = (case map_of (op_attrs d) n of Some (StringAttr v) \<Rightarrow> Some v | _ \<Rightarrow> None)"

definition getArrayAttr :: "op_data \<Rightarrow> string \<Rightarrow> attr list option" where
  "getArrayAttr d n = (case map_of (op_attrs d) n of Some (ArrayAttr v) \<Rightarrow> Some v | _ \<Rightarrow> None)"

definition getIntegerAttr :: "op_data \<Rightarrow> string \<Rightarrow> int option" where
  "getIntegerAttr d n = (case map_of (op_attrs d) n of Some (IntegerAttr v) \<Rightarrow> Some v | _ \<Rightarrow> None)"

definition getFlatSymbolRefAttr :: "op_data \<Rightarrow> string \<Rightarrow> string option" where
  "getFlatSymbolRefAttr d n =
     (case map_of (op_attrs d) n of Some (FlatSymbolRefAttr v) \<Rightarrow> Some v | _ \<Rightarrow> None)"

fun setAttr_list :: "string \<Rightarrow> attr \<Rightarrow> (string \<times> attr) list \<Rightarrow> (string \<times> attr) list" where
  "setAttr_list n a [] = [(n, a)]"
| "setAttr_list n a (kv # kvs) =
     (if fst kv = n then (n, a) # kvs else kv # setAttr_list n a kvs)"

text \<open>The symbol references held by an attribute, also inside arrays and dictionaries.\<close>

fun attr_symbol_refs :: "attr \<Rightarrow> string list" where
  "attr_symbol_refs (FlatSymbolRefAttr n) = [n]"
| "attr_symbol_refs (ArrayAttr xs) = concat (map attr_symbol_refs xs)"
| "attr_symbol_refs (DictionaryAttr kvs) = concat (map (\<lambda>kv. attr_symbol_refs (snd kv)) kvs)"
| "attr_symbol_refs (StringAttr v) = []"
| "attr_symbol_refs (IntegerAttr v) = []"

text \<open>A 64-bit attribute value read into a C++ \<^verbatim>\<open>int\<close>.\<close>

definition to_int32 :: "int \<Rightarrow> int" where
  "to_int32 v = sint (word_of_int v :: 32 word)"

subsection \<open>The tree of operations\<close>

fun first_some :: "'a option list \<Rightarrow> 'a option" where
  "first_some [] = None"
| "first_some (None # xs) = first_some xs"
| "first_some (Some x # xs) = Some x"

text \<open>\<^verbatim>\<open>walk\<close> visits the operations nested in an operation before the operation itself.\<close>

fun walk :: "optree \<Rightarrow> nat list" where
  "walk (OpNode i rs) = concat (map (\<lambda>b. concat (map walk b)) rs) @ [i]"

fun tree_ids :: "optree \<Rightarrow> nat list" where
  "tree_ids (OpNode i rs) = i # concat (map (\<lambda>b. concat (map tree_ids b)) rs)"

fun find_subtree :: "nat \<Rightarrow> optree \<Rightarrow> optree option" where
  "find_subtree k (OpNode i rs) =
     (if i = k then Some (OpNode i rs)
      else first_some (map (\<lambda>b. first_some (map (find_subtree k) b)) rs))"

fun parent_of :: "nat \<Rightarrow> optree \<Rightarrow> nat option" where
  "parent_of k (OpNode i rs) =
     (if list_ex (\<lambda>b. k \<in> set (map node_id b)) rs then Some i
      else first_some (map (\<lambda>b. first_some (map (parent_of k) b)) rs))"

fun block_of :: "nat \<Rightarrow> optree \<Rightarrow> nat list option" where
  "block_of k (OpNode i rs) =
     (case find (\<lambda>b. k \<in> set (map node_id b)) rs of
        Some b \<Rightarrow> Some (map node_id b)
      | None \<Rightarrow> first_some (map (\<lambda>b. first_some (map (block_of k) b)) rs))"

fun insert_before_in_block :: "nat \<Rightarrow> optree \<Rightarrow> optree list \<Rightarrow> optree list" where
  "insert_before_in_block k n [] = []"
| "insert_before_in_block k n (t # ts) =
     (if node_id t = k then n # t # ts else t # insert_before_in_block k n ts)"

fun insert_before :: "nat \<Rightarrow> optree \<Rightarrow> optree \<Rightarrow> optree" where
  "insert_before k n (OpNode i rs) =
     OpNode i (map (\<lambda>b. insert_before_in_block k n (map (insert_before k n) b)) rs)"

definition append_in_region :: "nat \<Rightarrow> optree \<Rightarrow> optree list list \<Rightarrow> optree list list" where
  "append_in_region r n rs = (if r < length rs then rs[r := rs ! r @ [n]] else rs)"

fun append_to_block :: "nat \<Rightarrow> nat \<Rightarrow> optree \<Rightarrow> optree \<Rightarrow> optree" where
  "append_to_block p r n (OpNode i rs) =
     (if i = p then OpNode i (append_in_region r n (map (map (append_to_block p r n)) rs))
      else OpNode i (map (map (append_to_block p r n)) rs))"

fun remove_node :: "nat \<Rightarrow> optree \<Rightarrow> optree" where
  "remove_node k (OpNode i rs) =
     OpNode i (map (\<lambda>b. map (remove_node k) (filter (\<lambda>t. node_id t \<noteq> k) b)) rs)"

fun insert_at :: "insert_point \<Rightarrow> optree \<Rightarrow> optree \<Rightarrow> optree" where
  "insert_at (BeforeOp k) n t = insert_before k n t"
| "insert_at (EndOfBlock p r) n t = append_to_block p r n t"

subsection \<open>Operations on the program\<close>

definition get_op :: "state \<Rightarrow> nat \<Rightarrow> op_data option" where
  "get_op s i = (if i < length (ops s) then ops s ! i else None)"

definition has_name :: "state \<Rightarrow> string \<Rightarrow> nat \<Rightarrow> bool" where
  "has_name s n i = (case get_op s i of None \<Rightarrow> False | Some d \<Rightarrow> op_name d = n)"

definition getResultTypes :: "state \<Rightarrow> nat \<Rightarrow> mtype list" where
  "getResultTypes s i = (case get_op s i of None \<Rightarrow> [] | Some d \<Rightarrow> op_result_types d)"

definition results_of :: "nat \<Rightarrow> mtype list \<Rightarrow> val list" where
  "results_of i ts = map (\<lambda>(k, t). OpResult i k t) (enumerate 0 ts)"

definition getResults :: "state \<Rightarrow> nat \<Rightarrow> val list" where
  "getResults s i = results_of i (getResultTypes s i)"

text \<open>\<^verbatim>\<open>Operation::getResult(idx)\<close> asserts that the operation has that result.\<close>

definition getResult :: "state \<Rightarrow> nat \<Rightarrow> nat \<Rightarrow> error + val" where
  "getResult s i idx =
     (if idx < length (getResultTypes s i) then Inr (OpResult i idx (getResultTypes s i ! idx))
      else Inl (InvalidResultNumber i idx))"

text \<open>\<^verbatim>\<open>OpBuilder::create\<close>: a new operation with empty regions, at the insertion point.\<close>

definition create_op :: "op_data \<Rightarrow> nat \<Rightarrow> state \<Rightarrow> nat \<times> state" where
  "create_op d nregions s =
     (length (ops s),
      s\<lparr>ops := ops s @ [Some d],
        root := insert_at (ip s) (OpNode (length (ops s)) (replicate nregions [])) (root s)\<rparr>)"

definition subst_val :: "val \<Rightarrow> val \<Rightarrow> val \<Rightarrow> val" where
  "subst_val old new v = (if v = old then new else v)"

definition map_operands :: "(val \<Rightarrow> val) \<Rightarrow> op_data \<Rightarrow> op_data" where
  "map_operands f d = d\<lparr>op_operands := map f (op_operands d)\<rparr>"

text \<open>\<^verbatim>\<open>Value::replaceAllUsesWith\<close>: every operand of every operation that is the old value
  becomes the new one.\<close>

definition replaceAllUsesWith :: "val \<Rightarrow> val \<Rightarrow> state \<Rightarrow> state" where
  "replaceAllUsesWith old new s =
     s\<lparr>ops := map (map_option (map_operands (subst_val old new))) (ops s)\<rparr>"

text \<open>\<^verbatim>\<open>Operation::replaceAllUsesWith(Operation*)\<close> and the zip of
  \<^verbatim>\<open>RemapOutputsOfParallelExecute\<close>: result by result.\<close>

definition replaceAllUsesWithOp :: "nat \<Rightarrow> nat \<Rightarrow> state \<Rightarrow> state" where
  "replaceAllUsesWithOp a b s =
     fold (\<lambda>(x, y). replaceAllUsesWith x y) (zip (getResults s a) (getResults s b)) s"

definition setAttr :: "nat \<Rightarrow> string \<Rightarrow> attr \<Rightarrow> state \<Rightarrow> state" where
  "setAttr i n a s =
     s\<lparr>ops := (ops s)[i := map_option (\<lambda>d. d\<lparr>op_attrs := setAttr_list n a (op_attrs d)\<rparr>)
                              (get_op s i)]\<rparr>"

text \<open>\<^verbatim>\<open>Operation::erase\<close>. The two kinds of operation the pass erases hold no region, so
  no nested operation is destroyed with them.\<close>

definition erase :: "nat \<Rightarrow> state \<Rightarrow> state" where
  "erase k s = s\<lparr>ops := (ops s)[k := None], root := remove_node k (root s)\<rparr>"

definition moveBefore :: "nat \<Rightarrow> nat \<Rightarrow> state \<Rightarrow> state" where
  "moveBefore k target s =
     (case find_subtree k (root s) of
        None \<Rightarrow> s
      | Some t \<Rightarrow> s\<lparr>root := insert_before target t (remove_node k (root s))\<rparr>)"

definition getParentOp :: "state \<Rightarrow> nat \<Rightarrow> nat option" where
  "getParentOp s k = parent_of k (root s)"

definition getBlock :: "state \<Rightarrow> nat \<Rightarrow> nat list option" where
  "getBlock s k = block_of k (root s)"

section \<open>The compile descriptor\<close>

text \<open>
  The protocol-buffer messages the pass fills in, with the fields it sets. The messages
  parsed from attribute strings (\<open>OpSharding\<close>, \<open>PaddingMap\<close>) and the device assignment
  are kept as opaque payloads. \<open>DT_VALUE\<close> stands for every data type other than
  \<^verbatim>\<open>DT_RESOURCE\<close>, \<open>STEP_MARK_OTHER\<close> for every step-marker location other than
  \<^verbatim>\<open>STEP_MARK_AT_ENTRY\<close>, by enumerator number.
\<close>

datatype DataType = DT_RESOURCE | DT_VALUE nat

datatype ArgKind = PARAMETER | VARIABLE

datatype StepMarkerLocation = STEP_MARK_AT_ENTRY | STEP_MARK_OTHER nat

datatype OpSharding = OpSharding string

datatype PaddingMap = PaddingMap string

datatype DeviceAssignmentProto = DeviceAssignmentProto string

record TensorShapeProto =
  shape_dim :: "int list"
  unknown_rank :: bool

record Arg =
  arg_dtype :: DataType
  arg_kind :: ArgKind
  arg_shape :: TensorShapeProto
  arg_sharding :: OpSharding

record Retval =
  retval_sharding :: OpSharding

record TPUCompileMetadataProto =
  md_num_replicas :: int
  md_num_cores_per_replica :: int
  md_step_marker_location :: StepMarkerLocation
  md_padding_maps :: "PaddingMap list"
  md_device_assignment :: "DeviceAssignmentProto option"
  md_args :: "Arg list"
  md_retvals :: "Retval list"

text \<open>A default-constructed \<^verbatim>\<open>TPUCompileMetadataProto\<close>.\<close>

definition empty_metadata :: TPUCompileMetadataProto where
  "empty_metadata =
     \<lparr>md_num_replicas = 0, md_num_cores_per_replica = 0,
      md_step_marker_location = STEP_MARK_AT_ENTRY, md_padding_maps = [],
      md_device_assignment = None, md_args = [], md_retvals = []\<rparr>"

text \<open>
  Modelled from the spec: \<^verbatim>\<open>PartialTensorShape::IsFullyDefined\<close>
  (\<^verbatim>\<open>tensorflow/core/framework/tensor_shape.h\<close>) is not part of the sources at hand. A
  shape is statically fully known when its rank is known and none of its dimensions
  is the unknown dimension, which is negative.
\<close>

definition IsFullyDefined :: "TensorShapeProto \<Rightarrow> bool" where
  "IsFullyDefined shape = (\<not> unknown_rank shape \<and> list_all (\<lambda>d. 0 \<le> d) (shape_dim shape))"

record TPUDeviceAssignment =
  da_compilation_device :: string
  da_execution_devices :: "string list list"
  da_xla_device_assignment :: "DeviceAssignmentProto option"

type_synonym ParsedName = string

text \<open>A cloned function: a copy of the operation with everything nested in it.\<close>

datatype operation = Operation nat "op_data option" "operation list list"

record dest_module =
  dm_attrs :: "(string \<times> attr) list"
  dm_funcs :: "operation list"

text \<open>
  What the pass calls and the sources at hand do not define is a parameter of the model:
  the two attribute names of \<^verbatim>\<open>xla_sharding_util.h\<close>, the command-line flag, the
  conversion of a type to a data type, the parsers and printers of the protocol buffers,
  the printer of a module, the device assignment, the per-core inputs and the alias of a
  logical core.
\<close>

record externals =
  kInputShardingAttr :: string
  kOutputShardingAttr :: string
  tpu_compile_metadata_debug :: bool
  ConvertToDataType :: "mtype \<Rightarrow> string + DataType"
  StepMarkerLocation_Parse :: "string \<Rightarrow> StepMarkerLocation option"
  PaddingMap_ParseFromString :: "string \<Rightarrow> PaddingMap option"
  OpSharding_ParseFromString :: "string \<Rightarrow> OpSharding option"
  DebugString :: "TPUCompileMetadataProto \<Rightarrow> string"
  SerializeToString :: "TPUCompileMetadataProto \<Rightarrow> string"
  print_module :: "dest_module \<Rightarrow> string"
  GetDevicesFromOp :: "state \<Rightarrow> ParsedName list option"
  GetTPUCompilationAndExecutionDevices ::
    "ParsedName list \<Rightarrow> int \<Rightarrow> int \<Rightarrow> string + TPUDeviceAssignment"
  ExtractInputsForLogicalDevices :: "int \<Rightarrow> state \<Rightarrow> nat \<Rightarrow> val list list"
  GetDeviceAliasForLogicalCore :: "int \<Rightarrow> string"

subsection \<open>\<^verbatim>\<open>SetMetadataProtoStepMarkerLocation\<close>\<close>

definition SetMetadataProtoStepMarkerLocation ::
  "externals \<Rightarrow> op_data \<Rightarrow> TPUCompileMetadataProto \<Rightarrow> error + TPUCompileMetadataProto" where
  "SetMetadataProtoStepMarkerLocation ext op metadata =
     (case getStringAttr op kStepMarkerLocationAttr of
        None \<Rightarrow> Inl (MissingAttribute kStepMarkerLocationAttr)
      | Some step_marker_location \<Rightarrow>
          if step_marker_location \<noteq> [] then
            (case StepMarkerLocation_Parse ext step_marker_location of
               None \<Rightarrow> Inl (BadAttributeValue kStepMarkerLocationAttr step_marker_location)
             | Some location \<Rightarrow> Inr (metadata\<lparr>md_step_marker_location := location\<rparr>))
          else Inr (metadata\<lparr>md_step_marker_location := STEP_MARK_AT_ENTRY\<rparr>))"

subsection \<open>\<^verbatim>\<open>SetMetadataProtoPaddingMap\<close>\<close>

fun padding_map_loop ::
  "externals \<Rightarrow> nat \<Rightarrow> attr list \<Rightarrow> PaddingMap list \<Rightarrow> error + PaddingMap list" where
  "padding_map_loop ext idx [] padding_maps = Inr padding_maps"
| "padding_map_loop ext idx (padding_attr # rest) padding_maps =
     (case padding_attr of
        StringAttr padding_attr_str \<Rightarrow>
          (case PaddingMap_ParseFromString ext padding_attr_str of
             None \<Rightarrow> Inl (BadArrayElement kPaddingMapAttr idx padding_attr_str ''tpu::PaddingMap'')
           | Some padding \<Rightarrow> padding_map_loop ext (Suc idx) rest (padding_maps @ [padding]))
      | _ \<Rightarrow> Inl (BadStringArrayElement kPaddingMapAttr idx))"

definition SetMetadataProtoPaddingMap ::
  "externals \<Rightarrow> op_data \<Rightarrow> TPUCompileMetadataProto \<Rightarrow> error + TPUCompileMetadataProto" where
  "SetMetadataProtoPaddingMap ext op metadata =
     (case getArrayAttr op kPaddingMapAttr of
        None \<Rightarrow> Inl (MissingAttribute kPaddingMapAttr)
      | Some padding_map \<Rightarrow>
          (case padding_map_loop ext 0 padding_map (md_padding_maps metadata) of
             Inl e \<Rightarrow> Inl e
           | Inr padding_maps \<Rightarrow> Inr (metadata\<lparr>md_padding_maps := padding_maps\<rparr>)))"

subsection \<open>\<^verbatim>\<open>SetOpSharding\<close>, \<^verbatim>\<open>SetMetadataProtoArgs\<close>, \<^verbatim>\<open>SetMetadataProtoRetvals\<close>\<close>

definition SetOpSharding :: "externals \<Rightarrow> attr \<Rightarrow> string \<Rightarrow> nat \<Rightarrow> error + OpSharding" where
  "SetOpSharding ext a name index =
     (case a of
        StringAttr sharding_str \<Rightarrow>
          (case OpSharding_ParseFromString ext sharding_str of
             None \<Rightarrow> Inl (BadArrayElement name index sharding_str ''xla::OpSharding'')
           | Some sharding \<Rightarrow> Inr sharding)
      | _ \<Rightarrow> Inl (BadStringArrayElement name index))"

definition arg_shape_of :: "mtype \<Rightarrow> TensorShapeProto" where
  "arg_shape_of operand_type =
     (case operand_type of
        RankedTensorType shape e \<Rightarrow> \<lparr>shape_dim = shape, unknown_rank = False\<rparr>
      | _ \<Rightarrow> \<lparr>shape_dim = [], unknown_rank = True\<rparr>)"

definition arg_kind_of :: "DataType \<Rightarrow> ArgKind" where
  "arg_kind_of dtype = (if dtype = DT_RESOURCE then VARIABLE else PARAMETER)"

fun args_loop ::
  "externals \<Rightarrow> attr list \<Rightarrow> nat \<Rightarrow> mtype list \<Rightarrow> Arg list \<Rightarrow> error + Arg list" where
  "args_loop ext input_shardings index [] args = Inr args"
| "args_loop ext input_shardings index (operand_type # rest) args =
     (case ConvertToDataType ext operand_type of
        Inl msg \<Rightarrow> Inl (OperandTypeError index msg)
      | Inr dtype \<Rightarrow>
          if index < length input_shardings then
            (case SetOpSharding ext (input_shardings ! index) (kInputShardingAttr ext) index of
               Inl e \<Rightarrow> Inl e
             | Inr sharding \<Rightarrow>
                 args_loop ext input_shardings (Suc index) rest
                   (args @ [\<lparr>arg_dtype = dtype, arg_kind = arg_kind_of dtype,
                             arg_shape = arg_shape_of operand_type, arg_sharding = sharding\<rparr>]))
          else Inl (Undefined ''input_shardings index''))"

definition SetMetadataProtoArgs ::
  "externals \<Rightarrow> op_data \<Rightarrow> TPUCompileMetadataProto \<Rightarrow> error + TPUCompileMetadataProto" where
  "SetMetadataProtoArgs ext op metadata =
     (case getArrayAttr op (kInputShardingAttr ext) of
        None \<Rightarrow> Inl (MissingAttribute (kInputShardingAttr ext))
      | Some input_shardings \<Rightarrow>
          if length input_shardings \<noteq> length (op_operands op) then
            Inl (BadArrayAttrLength (kInputShardingAttr ext) (length (op_operands op))
                   (length input_shardings))
          else
            (case args_loop ext input_shardings 0 (map val_type (op_operands op))
                    (md_args metadata) of
               Inl e \<Rightarrow> Inl e
             | Inr args \<Rightarrow> Inr (metadata\<lparr>md_args := args\<rparr>)))"

fun retvals_loop ::
  "externals \<Rightarrow> nat \<Rightarrow> attr list \<Rightarrow> Retval list \<Rightarrow> error + Retval list" where
  "retvals_loop ext index [] retvals = Inr retvals"
| "retvals_loop ext index (output_sharding # rest) retvals =
     (case SetOpSharding ext output_sharding (kOutputShardingAttr ext) index of
        Inl e \<Rightarrow> Inl e
      | Inr sharding \<Rightarrow>
          retvals_loop ext (Suc index) rest (retvals @ [\<lparr>retval_sharding = sharding\<rparr>]))"

definition SetMetadataProtoRetvals ::
  "externals \<Rightarrow> op_data \<Rightarrow> TPUCompileMetadataProto \<Rightarrow> error + TPUCompileMetadataProto" where
  "SetMetadataProtoRetvals ext op metadata =
     (case getArrayAttr op (kOutputShardingAttr ext) of
        None \<Rightarrow> Inl (MissingAttribute (kOutputShardingAttr ext))
      | Some output_shardings \<Rightarrow>
          if length output_shardings \<noteq> length (op_result_types op) then
            Inl (BadArrayAttrLength (kOutputShardingAttr ext) (length (op_result_types op))
                   (length output_shardings))
          else
            (case retvals_loop ext 0 output_shardings (md_retvals metadata) of
               Inl e \<Rightarrow> Inl e
             | Inr retvals \<Rightarrow> Inr (metadata\<lparr>md_retvals := retvals\<rparr>)))"

subsection \<open>\<^verbatim>\<open>SetMetadataProtoFromLaunchFuncOp\<close>\<close>

definition SetMetadataProtoFromLaunchFuncOp ::
  "externals \<Rightarrow> op_data \<Rightarrow> int \<Rightarrow> int \<Rightarrow> DeviceAssignmentProto option \<Rightarrow>
   TPUCompileMetadataProto \<Rightarrow> error + TPUCompileMetadataProto" where
  "SetMetadataProtoFromLaunchFuncOp ext op num_replicas num_cores_per_replica
       xla_device_assignment metadata =
     (case SetMetadataProtoStepMarkerLocation ext op
             (metadata\<lparr>md_num_replicas := num_replicas,
                       md_num_cores_per_replica := num_cores_per_replica\<rparr>) of
        Inl e \<Rightarrow> Inl e
      | Inr m1 \<Rightarrow>
          (case SetMetadataProtoPaddingMap ext op m1 of
             Inl e \<Rightarrow> Inl e
           | Inr m2 \<Rightarrow>
               (case SetMetadataProtoArgs ext op
                       (case xla_device_assignment of
                          None \<Rightarrow> m2
                        | Some a \<Rightarrow> m2\<lparr>md_device_assignment := Some a\<rparr>) of
                  Inl e \<Rightarrow> Inl e
                | Inr m3 \<Rightarrow> SetMetadataProtoRetvals ext op m3)))"

section \<open>\<^verbatim>\<open>EncapsulateFuncAndSerialize\<close>\<close>

text \<open>\<^verbatim>\<open>FuncOp::clone\<close>: a copy of the function and of everything nested in it.\<close>

fun clone :: "op_data option list \<Rightarrow> optree \<Rightarrow> operation" where
  "clone os (OpNode i rs) =
     Operation i (if i < length os then os ! i else None) (map (map (clone os)) rs)"

fun cloned_name :: "operation \<Rightarrow> string" where
  "cloned_name (Operation i d rs) =
     (case d of
        None \<Rightarrow> []
      | Some d' \<Rightarrow> (case getStringAttr d' kSymNameAttr of None \<Rightarrow> [] | Some n \<Rightarrow> n))"

fun setName :: "string \<Rightarrow> operation \<Rightarrow> operation" where
  "setName n (Operation i d rs) =
     Operation i
       (map_option (\<lambda>d'. d'\<lparr>op_attrs := setAttr_list kSymNameAttr (StringAttr n) (op_attrs d')\<rparr>) d)
       rs"

definition getName :: "state \<Rightarrow> nat \<Rightarrow> string" where
  "getName s f =
     (case get_op s f of
        None \<Rightarrow> []
      | Some d \<Rightarrow> (case getStringAttr d kSymNameAttr of None \<Rightarrow> [] | Some n \<Rightarrow> n))"

text \<open>The operations of the body of the module.\<close>

definition module_body :: "state \<Rightarrow> optree list" where
  "module_body s = (case node_regions (root s) of [] \<Rightarrow> [] | b # bs \<Rightarrow> b)"

text \<open>\<^verbatim>\<open>SymbolTable::lookup<FuncOp>\<close> on the module: the operation of the body that
  defines the symbol, when it is a function.\<close>

definition lookupFunc :: "state \<Rightarrow> string \<Rightarrow> optree option" where
  "lookupFunc s name =
     (case find (\<lambda>t. (case get_op s (node_id t) of
                         None \<Rightarrow> False
                       | Some d \<Rightarrow> getStringAttr d kSymNameAttr = Some name))
                (module_body s) of
        None \<Rightarrow> None
      | Some t \<Rightarrow> if has_name s kFuncOp (node_id t) then Some t else None)"

text \<open>\<^verbatim>\<open>SymbolTable::getSymbolUses\<close>: the symbol references in the attributes of the
  function and of the operations nested in it.\<close>

definition getSymbolUses :: "state \<Rightarrow> optree \<Rightarrow> string list" where
  "getSymbolUses s func =
     concat (map (\<lambda>i. case get_op s i of
                         None \<Rightarrow> []
                       | Some d \<Rightarrow> concat (map (\<lambda>kv. attr_symbol_refs (snd kv)) (op_attrs d)))
                 (tree_ids func))"

definition referenced_funcs :: "state \<Rightarrow> optree \<Rightarrow> optree list" where
  "referenced_funcs s func = List.map_filter (lookupFunc s) (getSymbolUses s func)"

text \<open>\<^verbatim>\<open>std::to_string\<close> of an unsigned number.\<close>

fun to_string :: "nat \<Rightarrow> string" where
  "to_string n =
     (if n < 10 then [''0123456789'' ! n]
      else to_string (n div 10) @ [''0123456789'' ! (n mod 10)])"

declare to_string.simps [simp del]

text \<open>
  \<^verbatim>\<open>SymbolTable::insert\<close> of MLIR appends the symbol to the module and, when its name is
  taken, renames it: it tries the name followed by \<open>_\<close> and the table's counter,
  counting up, until a name is free.
\<close>

partial_function (option) unique_symbol_name ::
  "string \<Rightarrow> string list \<Rightarrow> nat \<Rightarrow> (string \<times> nat) option" where
  "unique_symbol_name name taken counter =
     (if (name @ ''_'' @ to_string counter) \<in> set taken
      then unique_symbol_name name taken (Suc counter)
      else Some (name @ ''_'' @ to_string counter, Suc counter))"

declare unique_symbol_name.simps [code]

definition symbol_table_insert ::
  "operation \<Rightarrow> operation list \<Rightarrow> nat \<Rightarrow> (operation list \<times> nat) option" where
  "symbol_table_insert symbol funcs counter =
     (if cloned_name symbol \<in> set (map cloned_name funcs) then
        (case unique_symbol_name (cloned_name symbol) (map cloned_name funcs) counter of
           None \<Rightarrow> None
         | Some (name, counter') \<Rightarrow> Some (funcs @ [setName name symbol], counter'))
      else Some (funcs @ [symbol], counter))"

definition rename_entry :: "string \<Rightarrow> operation \<Rightarrow> operation" where
  "rename_entry entry_name c = (if cloned_name c = entry_name then setName ''main'' c else c)"

text \<open>
  The loop over \<^verbatim>\<open>referenced\<close>. The head of the list is the back of the vector. The
  loop need not end, so the result is optional; the source module is handed through.
\<close>

partial_function (option) clone_referenced ::
  "state \<Rightarrow> string \<Rightarrow> optree list \<Rightarrow> operation list \<Rightarrow> nat \<Rightarrow> (state \<times> operation list) option"
  where
  "clone_referenced s entry_name referenced funcs counter =
     (case referenced of
        [] \<Rightarrow> Some (s, funcs)
      | func # rest \<Rightarrow>
          if getName s (node_id func) \<in> set (map cloned_name funcs)
          then clone_referenced s entry_name rest funcs counter
          else
            (case symbol_table_insert (rename_entry entry_name (clone (ops s) func))
                    funcs counter of
               None \<Rightarrow> None
             | Some (funcs', counter') \<Rightarrow>
                 clone_referenced s entry_name (rev (referenced_funcs s func) @ rest)
                   funcs' counter'))"

declare clone_referenced.simps [code]

definition EncapsulateFunc :: "state \<Rightarrow> optree \<Rightarrow> ((error + dest_module) \<times> state) option" where
  "EncapsulateFunc s entry_func =
     (case get_op s (node_id (root s)) of
        None \<Rightarrow> Some (Inl (Undefined ''module''), s)
      | Some parent_module \<Rightarrow>
          (case map_of (op_attrs parent_module) kVersionsAttr of
             None \<Rightarrow> Some (Inl (MissingAttribute kVersionsAttr), s)
           | Some versions_attr \<Rightarrow>
               (case clone_referenced s (getName s (node_id entry_func)) [entry_func] [] 0 of
                  None \<Rightarrow> None
                | Some (s', funcs) \<Rightarrow>
                    Some (Inr \<lparr>dm_attrs = [(kVersionsAttr, versions_attr)], dm_funcs = funcs\<rparr>,
                          s'))))"

definition EncapsulateFuncAndSerialize ::
  "externals \<Rightarrow> state \<Rightarrow> optree \<Rightarrow> ((error + string) \<times> state) option" where
  "EncapsulateFuncAndSerialize ext s entry_func =
     (case EncapsulateFunc s entry_func of
        None \<Rightarrow> None
      | Some (Inl e, s') \<Rightarrow> Some (Inl e, s')
      | Some (Inr module_for_func, s') \<Rightarrow> Some (Inr (print_module ext module_for_func), s'))"

section \<open>The node builders\<close>

subsection \<open>\<^verbatim>\<open>WrapOpInLaunch\<close>\<close>

definition WrapOpInLaunch :: "nat \<Rightarrow> string \<Rightarrow> state \<Rightarrow> nat \<times> state" where
  "WrapOpInLaunch op device s =
     (case create_op \<lparr>op_name = kLaunchOp, op_operands = [],
                      op_result_types = getResultTypes s op,
                      op_attrs = [(kDeviceAttr, StringAttr device)]\<rparr> 1 s of
        (launch, s1) \<Rightarrow>
          (case create_op \<lparr>op_name = kReturnOp, op_operands = getResults s1 op,
                           op_result_types = [], op_attrs = []\<rparr> 0
                  (s1\<lparr>ip := EndOfBlock launch 0\<rparr>) of
             (ret, s2) \<Rightarrow> (launch, (moveBefore op ret s2)\<lparr>ip := ip s\<rparr>)))"

subsection \<open>\<^verbatim>\<open>BuildCompileOp\<close>\<close>

definition shape_op_type :: mtype where
  "shape_op_type = RankedTensorType [- 1] ''i64''"

definition string_tensor_type :: mtype where
  "string_tensor_type = RankedTensorType [] ''!tf.string''"

fun shape_ops_loop ::
  "TPUCompileMetadataProto \<Rightarrow> nat \<Rightarrow> val list \<Rightarrow> val list \<Rightarrow> state \<Rightarrow> (error + val list) \<times> state"
  where
  "shape_ops_loop metadata idx [] compile_op_operands s = (Inr compile_op_operands, s)"
| "shape_ops_loop metadata idx (operand # rest) compile_op_operands s =
     (if idx < length (md_args metadata) then
        if IsFullyDefined (arg_shape (md_args metadata ! idx))
        then shape_ops_loop metadata (Suc idx) rest compile_op_operands s
        else
          (case create_op \<lparr>op_name = kShapeOp, op_operands = [operand],
                           op_result_types = [shape_op_type], op_attrs = []\<rparr> 0 s of
             (shape_op, s') \<Rightarrow>
               shape_ops_loop metadata (Suc idx) rest
                 (compile_op_operands @ [OpResult shape_op 0 shape_op_type]) s')
      else (Inl (Undefined ''args index''), s))"

definition BuildCompileOp ::
  "externals \<Rightarrow> nat \<Rightarrow> int \<Rightarrow> int \<Rightarrow> string \<Rightarrow> DeviceAssignmentProto option \<Rightarrow> state \<Rightarrow>
   ((error + nat) \<times> state) option" where
  "BuildCompileOp ext launch_func num_replicas num_cores_per_replica compilation_device
       xla_device_assignment s =
     (case get_op s launch_func of
        None \<Rightarrow> Some (Inl (Undefined ''launch_func''), s)
      | Some lf \<Rightarrow>
     (case SetMetadataProtoFromLaunchFuncOp ext lf num_replicas num_cores_per_replica
             xla_device_assignment empty_metadata of
        Inl e \<Rightarrow> Some (Inl e, s)
      | Inr metadata \<Rightarrow>
     (case shape_ops_loop metadata 0 (op_operands lf) [] s of
        (Inl e, s1) \<Rightarrow> Some (Inl e, s1)
      | (Inr compile_op_operands, s1) \<Rightarrow>
     (case getFlatSymbolRefAttr lf kFuncAttr of
        None \<Rightarrow> Some (Inl NoFuncAttribute, s1)
      | Some func_attr \<Rightarrow>
     (case lookupFunc s1 func_attr of
        None \<Rightarrow> Some (Inl (Undefined ''func''), s1)
      | Some func \<Rightarrow>
     (case EncapsulateFuncAndSerialize ext s1 func of
        None \<Rightarrow> None
      | Some (Inl e, s2) \<Rightarrow> Some (Inl e, s2)
      | Some (Inr txt_module, s2) \<Rightarrow>
     (case create_op
             \<lparr>op_name = kCompileOp, op_operands = compile_op_operands,
              op_result_types = [string_tensor_type, string_tensor_type],
              op_attrs =
                [(kMetadataAttr,
                  StringAttr (if tpu_compile_metadata_debug ext then DebugString ext metadata
                              else SerializeToString ext metadata)),
                 (kNumDynamicShapesAttr, IntegerAttr (int (length compile_op_operands))),
                 (kMlirModuleAttr, StringAttr txt_module)]\<rparr> 0 s2 of
        (compile_op, s3) \<Rightarrow>
     (case WrapOpInLaunch compile_op compilation_device s3 of
        (launch, s4) \<Rightarrow> Some (Inr launch, s4)))))))))"

subsection \<open>\<^verbatim>\<open>BuildExecuteOp\<close> and \<^verbatim>\<open>BuildParallelExecuteOp\<close>\<close>

definition BuildExecuteOp :: "val list \<Rightarrow> nat \<Rightarrow> state \<Rightarrow> nat \<times> state" where
  "BuildExecuteOp inputs launch_func s =
     create_op \<lparr>op_name = kExecuteOp, op_operands = inputs,
                op_result_types = getResultTypes s launch_func, op_attrs = []\<rparr> 0 s"

fun parallel_regions_loop ::
  "nat list \<Rightarrow> nat \<Rightarrow> nat \<Rightarrow> nat \<Rightarrow> val list list \<Rightarrow> state \<Rightarrow> (error + unit) \<times> state" where
  "parallel_regions_loop [] parallel_execute_op compile_op launch_func input_list s = (Inr (), s)"
| "parallel_regions_loop (core_id # cores) parallel_execute_op compile_op launch_func
       input_list s =
     (case getResult s compile_op (1 + core_id) of
        Inl e \<Rightarrow> (Inl e, s\<lparr>ip := EndOfBlock parallel_execute_op core_id\<rparr>)
      | Inr program \<Rightarrow>
     (case BuildExecuteOp (input_list ! core_id @ [program]) launch_func
             (s\<lparr>ip := EndOfBlock parallel_execute_op core_id\<rparr>) of
        (execute, s1) \<Rightarrow>
     (case WrapOpInLaunch execute [] s1 of
        (region_launch_op, s2) \<Rightarrow>
     (case create_op \<lparr>op_name = kReturnOp, op_operands = getResults s2 region_launch_op,
                      op_result_types = [], op_attrs = []\<rparr> 0 s2 of
        (ret, s3) \<Rightarrow>
          parallel_regions_loop cores parallel_execute_op compile_op launch_func
            input_list s3))))"

definition BuildParallelExecuteOp ::
  "externals \<Rightarrow> int \<Rightarrow> nat \<Rightarrow> nat \<Rightarrow> state \<Rightarrow> (error + nat) \<times> state" where
  "BuildParallelExecuteOp ext num_logical_cores compile_op launch_func s =
     (case create_op
             \<lparr>op_name = kParallelExecuteOp, op_operands = [],
              op_result_types =
                concat (replicate (nat num_logical_cores) (getResultTypes s launch_func)),
              op_attrs = []\<rparr> (nat num_logical_cores) s of
        (parallel_execute_op, s1) \<Rightarrow>
          if length (ExtractInputsForLogicalDevices ext num_logical_cores s1 launch_func)
               \<noteq> nat num_logical_cores
          then (Inl (Undefined ''input_list.size() == num_logical_cores''), s1)
          else
            (case parallel_regions_loop [0..<nat num_logical_cores] parallel_execute_op
                    compile_op launch_func
                    (ExtractInputsForLogicalDevices ext num_logical_cores s1 launch_func) s1 of
               (Inl e, s2) \<Rightarrow> (Inl e, s2)
             | (Inr u, s2) \<Rightarrow> (Inr parallel_execute_op, s2)))"

definition RemapOutputsOfParallelExecute :: "nat \<Rightarrow> nat \<Rightarrow> state \<Rightarrow> state" where
  "RemapOutputsOfParallelExecute launch_func op s = replaceAllUsesWithOp launch_func op s"

subsection \<open>\<^verbatim>\<open>AssignDevicesToReplicatedExecute\<close>\<close>

text \<open>\<^verbatim>\<open>front()\<close> of every row of the table of execution devices.\<close>

fun fronts :: "string list list \<Rightarrow> error + string list" where
  "fronts [] = Inr []"
| "fronts ([] # rows) = Inl (Undefined ''front'')"
| "fronts ((d # ds) # rows) = (case fronts rows of Inl e \<Rightarrow> Inl e | Inr fs \<Rightarrow> Inr (d # fs))"

definition AssignDevicesToReplicatedExecute ::
  "externals \<Rightarrow> string list list \<Rightarrow> nat option \<Rightarrow> nat \<Rightarrow> state \<Rightarrow> (error + nat) \<times> state" where
  "AssignDevicesToReplicatedExecute ext execution_devices replicate_op execute_op s =
     (case replicate_op of
        Some rep \<Rightarrow>
          (case fronts execution_devices of
             Inl e \<Rightarrow> (Inl e, s)
           | Inr replicate_execution_devices \<Rightarrow>
               (case WrapOpInLaunch execute_op (GetDeviceAliasForLogicalCore ext 0)
                       (setAttr rep kDevicesAttr
                          (DictionaryAttr
                             [(GetDeviceAliasForLogicalCore ext 0,
                               ArrayAttr (map StringAttr replicate_execution_devices))]) s) of
                  (launch, s') \<Rightarrow> (Inr launch, s')))
      | None \<Rightarrow>
          (case execution_devices of
             [] \<Rightarrow> (Inl (Undefined ''front''), s)
           | row # rows \<Rightarrow>
               (case row of
                  [] \<Rightarrow> (Inl (Undefined ''front''), s)
                | device # ds \<Rightarrow>
                    (case WrapOpInLaunch execute_op device s of
                       (launch, s') \<Rightarrow> (Inr launch, s')))))"

subsection \<open>\<^verbatim>\<open>BuildTPUCompileSucceededAssertOp\<close>\<close>

definition BuildTPUCompileSucceededAssertOp ::
  "nat \<Rightarrow> string \<Rightarrow> state \<Rightarrow> (error + unit) \<times> state" where
  "BuildTPUCompileSucceededAssertOp compile_op compilation_device s =
     (case getResult s compile_op 0 of
        Inl e \<Rightarrow> (Inl e, s)
      | Inr status \<Rightarrow>
          (case create_op \<lparr>op_name = kCompileSucceededAssertOp, op_operands = [status],
                           op_result_types = [], op_attrs = []\<rparr> 0 s of
             (assert_op, s1) \<Rightarrow>
               (case WrapOpInLaunch assert_op compilation_device s1 of
                  (launch, s2) \<Rightarrow> (Inr (), s2))))"

section \<open>\<^verbatim>\<open>Rewrite\<close> and the pass\<close>

definition getOperands :: "state \<Rightarrow> nat \<Rightarrow> val list" where
  "getOperands s i = (case get_op s i of None \<Rightarrow> [] | Some d \<Rightarrow> op_operands d)"

text \<open>The parent operation when it is a \<^verbatim>\<open>tf_device.replicate\<close>.\<close>

definition getParentReplicate :: "state \<Rightarrow> nat \<Rightarrow> nat option" where
  "getParentReplicate s op =
     (case getParentOp s op of
        None \<Rightarrow> None
      | Some p \<Rightarrow> if has_name s kReplicateOp p then Some p else None)"

text \<open>\<^verbatim>\<open>num_replicas\<close>: 1, or \<^verbatim>\<open>replicate.n()\<close> read into an \<^verbatim>\<open>int\<close>.\<close>

definition num_replicas_of :: "state \<Rightarrow> nat option \<Rightarrow> error + int" where
  "num_replicas_of s replicate_op =
     (case replicate_op of
        None \<Rightarrow> Inr 1
      | Some rep \<Rightarrow>
          (case get_op s rep of
             None \<Rightarrow> Inl (Undefined ''replicate'')
           | Some d \<Rightarrow>
               (case getIntegerAttr d kReplicateNAttr of
                  None \<Rightarrow> Inl (Undefined ''replicate.n()'')
                | Some n \<Rightarrow> Inr (to_int32 n))))"

text \<open>The loop over the \<^verbatim>\<open>TPUCompilationResultOp\<close>s of the block.\<close>

fun redirect_compilation_results :: "nat list \<Rightarrow> nat \<Rightarrow> state \<Rightarrow> (error + unit) \<times> state" where
  "redirect_compilation_results [] compile_op s = (Inr (), s)"
| "redirect_compilation_results (compile_result_op # rest) compile_op s =
     (case getResult s compile_result_op 0 of
        Inl e \<Rightarrow> (Inl e, s)
      | Inr output \<Rightarrow>
          (case getResult s compile_op 0 of
             Inl e \<Rightarrow> (Inl e, s)
           | Inr status \<Rightarrow>
               redirect_compilation_results rest compile_op
                 (replaceAllUsesWith output status s)))"

text \<open>The two ways of \<^verbatim>\<open>Rewrite\<close> to build the execution, after the compile and the
  assert operations.\<close>

definition build_execution ::
  "externals \<Rightarrow> nat \<Rightarrow> int \<Rightarrow> string list list \<Rightarrow> nat option \<Rightarrow> nat \<Rightarrow> state \<Rightarrow>
   (error + unit) \<times> state" where
  "build_execution ext launch_func num_cores_per_replica execution_devices replicate_op
       compile_op s =
     (if 1 < num_cores_per_replica then
        (case BuildParallelExecuteOp ext num_cores_per_replica compile_op launch_func s of
           (Inl e, s1) \<Rightarrow> (Inl e, s1)
         | (Inr execute_op, s1) \<Rightarrow>
             (Inr (), erase launch_func (RemapOutputsOfParallelExecute launch_func execute_op s1)))
      else
        (case getResult s compile_op 1 of
           Inl e \<Rightarrow> (Inl e, s)
         | Inr program \<Rightarrow>
        (case BuildExecuteOp (getOperands s launch_func @ [program]) launch_func s of
           (execute_op, s1) \<Rightarrow>
        (case AssignDevicesToReplicatedExecute ext execution_devices replicate_op execute_op s1 of
           (Inl e, s2) \<Rightarrow> (Inl e, s2)
         | (Inr launch_op, s2) \<Rightarrow>
             (Inr (), erase launch_func (replaceAllUsesWithOp launch_func launch_op s2))))))"

definition Rewrite ::
  "externals \<Rightarrow> nat \<Rightarrow> ParsedName list \<Rightarrow> state \<Rightarrow> ((error + unit) \<times> state) option" where
  "Rewrite ext launch_func devices s =
     (case get_op s launch_func of
        None \<Rightarrow> Some (Inl (Undefined ''launch_func''), s)
      | Some lf \<Rightarrow>
     (case getStringAttr lf kTpuReplicateAttr of
        None \<Rightarrow> Some (Inr (), s)
      | Some replicate_attr \<Rightarrow>
     (case num_replicas_of s (getParentReplicate s launch_func) of
        Inl e \<Rightarrow> Some (Inl e, s)
      | Inr num_replicas \<Rightarrow>
     (case getIntegerAttr lf kNumCoresPerReplicaAttr of
        None \<Rightarrow> Some (Inl (MissingAttribute kNumCoresPerReplicaAttr), s)
      | Some num_cores_per_replica_attr \<Rightarrow>
     (case GetTPUCompilationAndExecutionDevices ext devices num_replicas
             (to_int32 num_cores_per_replica_attr) of
        Inl msg \<Rightarrow> Some (Inl (DeviceFetchError msg), s)
      | Inr tpu_device_assignment \<Rightarrow>
     (case BuildCompileOp ext launch_func num_replicas (to_int32 num_cores_per_replica_attr)
             (da_compilation_device tpu_device_assignment)
             (da_xla_device_assignment tpu_device_assignment)
             (s\<lparr>ip := BeforeOp launch_func\<rparr>) of
        None \<Rightarrow> None
      | Some (Inl e, s1) \<Rightarrow> Some (Inl e, s1)
      | Some (Inr compile_op, s1) \<Rightarrow>
     (case getBlock s1 launch_func of
        None \<Rightarrow> Some (Inl (Undefined ''block''), s1)
      | Some block \<Rightarrow>
     (case redirect_compilation_results (filter (has_name s1 kCompilationResultOp) block)
             compile_op s1 of
        (Inl e, s2) \<Rightarrow> Some (Inl e, s2)
      | (Inr u, s2) \<Rightarrow>
     (case BuildTPUCompileSucceededAssertOp compile_op
             (da_compilation_device tpu_device_assignment) s2 of
        (Inl e, s3) \<Rightarrow> Some (Inl e, s3)
      | (Inr u', s3) \<Rightarrow>
          Some (build_execution ext launch_func (to_int32 num_cores_per_replica_attr)
                  (da_execution_devices tpu_device_assignment)
                  (getParentReplicate s launch_func) compile_op s3))))))))))"

text \<open>
  The walk of \<^verbatim>\<open>runOnModule\<close> over the launch functions. \<^verbatim>\<open>Rewrite\<close> neither creates
  nor removes another \<^verbatim>\<open>tf_device.launch_func\<close>, so the operations the walk visits are
  those of the module at its start, in the order of the walk; it stops at the first
  failure.
\<close>

fun rewrite_walk ::
  "externals \<Rightarrow> ParsedName list \<Rightarrow> nat list \<Rightarrow> state \<Rightarrow> ((error + unit) \<times> state) option" where
  "rewrite_walk ext devices [] s = Some (Inr (), s)"
| "rewrite_walk ext devices (op # rest) s =
     (case Rewrite ext op devices s of
        None \<Rightarrow> None
      | Some (Inl e, s') \<Rightarrow> Some (Inl e, s')
      | Some (Inr u, s') \<Rightarrow> rewrite_walk ext devices rest s')"

text \<open>\<open>Inl\<close> is \<^verbatim>\<open>signalPassFailure\<close>, with the diagnostic that led to it.\<close>

definition runOnModule :: "externals \<Rightarrow> state \<Rightarrow> ((error + unit) \<times> state) option" where
  "runOnModule ext s =
     (case GetDevicesFromOp ext s of
        None \<Rightarrow> Some (Inl GetDevicesFailed, s)
      | Some devices \<Rightarrow>
          (case rewrite_walk ext devices
                  (filter (has_name s kLaunchFuncOp) (walk (root s))) s of
             None \<Rightarrow> None
           | Some (Inl e, s1) \<Rightarrow> Some (Inl e, s1)
           | Some (Inr u, s1) \<Rightarrow>
               Some (Inr (),
                     fold erase
                       (filter (has_name s1 kCompilationResultOp) (walk (root s1))) s1)))"

section \<open>Well-formed programs\<close>

text \<open>Every operation of the tree is one of the arena, and an operation is attached when
  it is nested in the module.\<close>

definition allocated :: "state \<Rightarrow> bool" where
  "allocated s = list_all (\<lambda>j. j < length (ops s)) (tree_ids (root s))"

definition attached :: "state \<Rightarrow> nat \<Rightarrow> bool" where
  "attached s k = (k \<in> set (tl (tree_ids (root s))))"

section \<open>The shape of a rewritten module\<close>

text \<open>The subtree of an operation \<open>n\<close> that has just been created and wrapped by
  \<^verbatim>\<open>WrapOpInLaunch\<close>: the launch is operation \<open>n + 1\<close> and the return after \<open>n\<close> in its
  block is operation \<open>n + 2\<close>.\<close>

definition wrapped :: "nat \<Rightarrow> optree" where
  "wrapped n = OpNode (Suc n) [[OpNode n [], OpNode (Suc (Suc n)) []]]"

text \<open>\<^verbatim>\<open>ShapedType::hasStaticShape\<close>: a ranked tensor type none of whose dimensions is
  dynamic (negative).\<close>

definition has_static_shape :: "mtype \<Rightarrow> bool" where
  "has_static_shape t =
     (case t of
        RankedTensorType shape e \<Rightarrow> \<not> list_ex (\<lambda>d. d < 0) shape
      | UnrankedTensorType e \<Rightarrow> False
      | OtherType e \<Rightarrow> False)"

text \<open>What the loop over the placeholders \<open>ps\<close> does to an operand, and what
  \<^verbatim>\<open>replaceAllUsesWith\<close> of operation \<open>a\<close> by operation \<open>b\<close> does to it, when both have
  results of the types \<open>ts\<close>.\<close>

definition redirect_placeholders :: "state \<Rightarrow> nat list \<Rightarrow> nat \<Rightarrow> val \<Rightarrow> val" where
  "redirect_placeholders s ps compile_op v =
     (if v \<in> (\<lambda>p. OpResult p 0 (getResultTypes s p ! 0)) ` set ps
      then OpResult compile_op 0 string_tensor_type else v)"

definition remap_results :: "nat \<Rightarrow> nat \<Rightarrow> mtype list \<Rightarrow> val \<Rightarrow> val" where
  "remap_results a b ts =
     fold (\<lambda>(x, y). subst_val x y) (zip (results_of a ts) (results_of b ts))"

section \<open>A module to run the pass on\<close>

text \<open>
  An environment and a module for the worked examples: \<open>main\<close> holds a compilation-result
  placeholder, a launch function of \<open>tpu_func\<close> and a user of both; \<open>tpu_func\<close> calls
  \<open>helper\<close>, and \<open>helper\<close> and \<open>helper2\<close> call each other.
\<close>

definition ex_input_sharding_attr :: string where
  "ex_input_sharding_attr = ''input_sharding_configuration''"

definition ex_output_sharding_attr :: string where
  "ex_output_sharding_attr = ''output_sharding_configuration''"

definition ex_callee_attr :: string where
  "ex_callee_attr = ''f''"

definition ex_call_op :: string where
  "ex_call_op = ''tf.PartitionedCall''"

definition ex_some_op :: string where
  "ex_some_op = ''tf.SomeOp''"

definition ex_return_op :: string where
  "ex_return_op = ''std.return''"

definition ex_convert_elem :: "elem_type \<Rightarrow> string + DataType" where
  "ex_convert_elem e =
     (if e = ''f32'' then Inr (DT_VALUE 1)
      else if e = ''!tf.resource'' then Inr DT_RESOURCE
      else Inl ''unsupported'')"

definition ex_convert :: "mtype \<Rightarrow> string + DataType" where
  "ex_convert t =
     (case t of
        RankedTensorType shape e \<Rightarrow> ex_convert_elem e
      | UnrankedTensorType e \<Rightarrow> ex_convert_elem e
      | OtherType e \<Rightarrow> Inl ''unsupported'')"

definition ex_ext :: externals where
  "ex_ext =
     \<lparr>kInputShardingAttr = ex_input_sharding_attr,
      kOutputShardingAttr = ex_output_sharding_attr,
      tpu_compile_metadata_debug = False,
      ConvertToDataType = ex_convert,
      StepMarkerLocation_Parse =
        (\<lambda>v. if v = ''STEP_MARK_AT_ENTRY'' then Some STEP_MARK_AT_ENTRY
               else if v = ''STEP_MARK_AT_TOP_LEVEL_WHILE_LOOP'' then Some (STEP_MARK_OTHER 1)
               else None),
      PaddingMap_ParseFromString = (\<lambda>v. if v = ''bad'' then None else Some (PaddingMap v)),
      OpSharding_ParseFromString = (\<lambda>v. if v = ''bad'' then None else Some (OpSharding v)),
      DebugString = (\<lambda>m. ''metadata''),
      SerializeToString = (\<lambda>m. ''metadata''),
      print_module = (\<lambda>m. concat (map cloned_name (dm_funcs m))),
      GetDevicesFromOp = (\<lambda>s. Some [''/device:CPU:0'', ''/device:TPU:0'', ''/device:TPU:1'']),
      GetTPUCompilationAndExecutionDevices =
        (\<lambda>devices num_replicas num_cores.
           Inr \<lparr>da_compilation_device = ''/device:CPU:0'',
                da_execution_devices =
                  map (\<lambda>r. replicate (nat num_cores) (''/device:TPU:'' @ to_string r))
                      [0..<nat num_replicas],
                da_xla_device_assignment = None\<rparr>),
      ExtractInputsForLogicalDevices =
        (\<lambda>num_cores s launch_func. replicate (nat num_cores) (getOperands s launch_func)),
      GetDeviceAliasForLogicalCore = (\<lambda>core. ''TPU_REPLICATED_CORE_0'')\<rparr>"

definition ex_f32 :: "int list \<Rightarrow> mtype" where
  "ex_f32 shape = RankedTensorType shape ''f32''"

definition ex_launch_func :: "val list \<Rightarrow> attr list \<Rightarrow> int \<Rightarrow> op_data" where
  "ex_launch_func operands input_shardings num_cores =
     \<lparr>op_name = kLaunchFuncOp, op_operands = operands, op_result_types = [ex_f32 [2]],
      op_attrs =
        [(kTpuReplicateAttr, StringAttr ''cluster0''),
         (kNumCoresPerReplicaAttr, IntegerAttr num_cores),
         (kStepMarkerLocationAttr, StringAttr []),
         (kPaddingMapAttr, ArrayAttr []),
         (ex_input_sharding_attr, ArrayAttr input_shardings),
         (ex_output_sharding_attr, ArrayAttr [StringAttr ''o0'']),
         (kFuncAttr, FlatSymbolRefAttr ''tpu_func'')]\<rparr>"

definition ex_func :: "string \<Rightarrow> op_data" where
  "ex_func name =
     \<lparr>op_name = kFuncOp, op_operands = [], op_result_types = [],
      op_attrs = [(kSymNameAttr, StringAttr name)]\<rparr>"

definition ex_call :: "string \<Rightarrow> op_data" where
  "ex_call callee =
     \<lparr>op_name = ex_call_op, op_operands = [], op_result_types = [],
      op_attrs = [(ex_callee_attr, FlatSymbolRefAttr callee)]\<rparr>"

definition ex_operands :: "val list" where
  "ex_operands = [BlockArgument 1 0 (ex_f32 [- 1, 4]), BlockArgument 1 1 (ex_f32 [2])]"

definition ex_shardings :: "attr list" where
  "ex_shardings = [StringAttr ''s0'', StringAttr ''s1'']"

definition ex_funcs :: "op_data option list" where
  "ex_funcs =
     [Some (ex_func ''tpu_func''), Some (ex_call ''helper''),
      Some (ex_func ''helper''), Some (ex_call ''helper2''),
      Some (ex_func ''helper2''), Some (ex_call ''helper'')]"

definition ex_func_trees :: "optree list" where
  "ex_func_trees =
     [OpNode 6 [[OpNode 7 []]], OpNode 8 [[OpNode 9 []]], OpNode 10 [[OpNode 11 []]]]"

definition ex_module :: op_data where
  "ex_module =
     \<lparr>op_name = kModuleOp, op_operands = [], op_result_types = [],
      op_attrs = [(kVersionsAttr, StringAttr ''producer 27'')]\<rparr>"

definition ex_placeholder :: op_data where
  "ex_placeholder =
     \<lparr>op_name = kCompilationResultOp, op_operands = [], op_result_types = [string_tensor_type],
      op_attrs = [(kTpuReplicateAttr, StringAttr ''cluster1'')]\<rparr>"

definition ex_user :: op_data where
  "ex_user =
     \<lparr>op_name = ex_some_op,
      op_operands = [OpResult 3 0 (ex_f32 [2]), OpResult 2 0 string_tensor_type],
      op_result_types = [], op_attrs = []\<rparr>"

definition ex_return :: op_data where
  "ex_return = \<lparr>op_name = ex_return_op, op_operands = [], op_result_types = [], op_attrs = []\<rparr>"

text \<open>The module with the launch function (operation 3) directly in \<open>main\<close>.\<close>

definition ex_state :: "op_data \<Rightarrow> state" where
  "ex_state launch =
     \<lparr>ops = [Some ex_module, Some (ex_func ''main''), Some ex_placeholder, Some launch,
             Some ex_user, Some ex_return] @ ex_funcs,
      root = OpNode 0 [OpNode 1 [[OpNode 2 [], OpNode 3 [], OpNode 4 [], OpNode 5 []]]
                       # ex_func_trees],
      ip = BeforeOp 0\<rparr>"

text \<open>The module with the launch function in a \<^verbatim>\<open>tf_device.replicate\<close> of two replicas
  (operation 5).\<close>

definition ex_replicate :: op_data where
  "ex_replicate =
     \<lparr>op_name = kReplicateOp, op_operands = [], op_result_types = [ex_f32 [2], ex_f32 [2]],
      op_attrs = [(kReplicateNAttr, IntegerAttr 2)]\<rparr>"

definition ex_replicated_state :: state where
  "ex_replicated_state =
     \<lparr>ops = [Some ex_module, Some (ex_func ''main''), Some ex_placeholder,
             Some (ex_launch_func ex_operands ex_shardings 1), Some ex_user, Some ex_replicate]
            @ ex_funcs,
      root = OpNode 0 [OpNode 1 [[OpNode 5 [[OpNode 2 [], OpNode 3 [], OpNode 4 []]]]]
                       # ex_func_trees],
      ip = BeforeOp 0\<rparr>"

text \<open>Further operations for the examples: a launch function whose only attribute is
  the step-marker location, one without the replication marker, and launch functions
  with three operands (the last one of a type with no data type, or a resource).\<close>

definition ex_step_marker_op :: "string \<Rightarrow> op_data" where
  "ex_step_marker_op v =
     \<lparr>op_name = kLaunchFuncOp, op_operands = [], op_result_types = [],
      op_attrs = [(kStepMarkerLocationAttr, StringAttr v)]\<rparr>"

definition ex_unmarked_launch_func :: op_data where
  "ex_unmarked_launch_func =
     \<lparr>op_name = kLaunchFuncOp, op_operands = ex_operands, op_result_types = [ex_f32 [2]],
      op_attrs = [(kFuncAttr, FlatSymbolRefAttr ''tpu_func'')]\<rparr>"

definition ex_operands3 :: "mtype \<Rightarrow> val list" where
  "ex_operands3 t = ex_operands @ [BlockArgument 1 2 t]"

definition ex_shardings3 :: "attr list" where
  "ex_shardings3 = [StringAttr ''s0'', StringAttr ''s1'', StringAttr ''s2'']"

text \<open>A launch function with three operands and two input shardings.\<close>

definition ex_mismatch_launch_func :: op_data where
  "ex_mismatch_launch_func = ex_launch_func (ex_operands3 (ex_f32 [2])) ex_shardings 1"


section \<open>The module after each step of \<^verbatim>\<open>Rewrite\<close>\<close>

text \<open>The operations \<^verbatim>\<open>Rewrite\<close> creates for the launch function of the module above:
  its first operand is the only one with a shape not fully defined, and the three
  functions reachable from \<open>tpu_func\<close> are serialized.\<close>

definition ex_shape_op :: op_data where
  "ex_shape_op =
     \<lparr>op_name = kShapeOp, op_operands = [BlockArgument 1 0 (ex_f32 [- 1, 4])],
      op_result_types = [shape_op_type], op_attrs = []\<rparr>"

definition ex_compile_op :: op_data where
  "ex_compile_op =
     \<lparr>op_name = kCompileOp, op_operands = [OpResult 12 0 shape_op_type],
      op_result_types = [string_tensor_type, string_tensor_type],
      op_attrs = [(kMetadataAttr, StringAttr ''metadata''),
                  (kNumDynamicShapesAttr, IntegerAttr 1),
                  (kMlirModuleAttr, StringAttr ''mainhelperhelper2'')]\<rparr>"

definition ex_launch :: "mtype list \<Rightarrow> string \<Rightarrow> op_data" where
  "ex_launch types device =
     \<lparr>op_name = kLaunchOp, op_operands = [], op_result_types = types,
      op_attrs = [(kDeviceAttr, StringAttr device)]\<rparr>"

definition ex_device_return :: "val list \<Rightarrow> op_data" where
  "ex_device_return vs =
     \<lparr>op_name = kReturnOp, op_operands = vs, op_result_types = [], op_attrs = []\<rparr>"

definition ex_assert_op :: op_data where
  "ex_assert_op =
     \<lparr>op_name = kCompileSucceededAssertOp, op_operands = [OpResult 14 0 string_tensor_type],
      op_result_types = [], op_attrs = []\<rparr>"

definition ex_execute_op :: op_data where
  "ex_execute_op =
     \<lparr>op_name = kExecuteOp, op_operands = ex_operands @ [OpResult 14 1 string_tensor_type],
      op_result_types = [ex_f32 [2]], op_attrs = []\<rparr>"

definition ex_user_of :: "val \<Rightarrow> val \<Rightarrow> op_data" where
  "ex_user_of v w =
     \<lparr>op_name = ex_some_op, op_operands = [v, w], op_result_types = [], op_attrs = []\<rparr>"

definition ex_compile_ops :: "op_data option list" where
  "ex_compile_ops =
     [Some ex_shape_op, Some ex_compile_op,
      Some (ex_launch [string_tensor_type, string_tensor_type] ''/device:CPU:0''),
      Some (ex_device_return [OpResult 13 0 string_tensor_type,
                              OpResult 13 1 string_tensor_type])]"

definition ex_assert_ops :: "op_data option list" where
  "ex_assert_ops =
     [Some ex_assert_op, Some (ex_launch [] ''/device:CPU:0''), Some (ex_device_return [])]"

definition ex_execute_ops :: "string \<Rightarrow> op_data option list" where
  "ex_execute_ops device =
     [Some ex_execute_op, Some (ex_launch [ex_f32 [2]] device),
      Some (ex_device_return [OpResult 19 0 (ex_f32 [2])])]"

definition ex_compile_tree :: "optree list" where
  "ex_compile_tree = [OpNode 12 [], OpNode 14 [[OpNode 13 [], OpNode 15 []]]]"

definition ex_assert_tree :: "optree list" where
  "ex_assert_tree = [OpNode 17 [[OpNode 16 [], OpNode 18 []]]]"

definition ex_execute_tree :: "optree list" where
  "ex_execute_tree = [OpNode 20 [[OpNode 19 [], OpNode 21 []]]]"

text \<open>The module of \<open>ex_state\<close> with the launch function, the user and the operations
  created so far as given.\<close>

definition ex_module_with ::
  "op_data option \<Rightarrow> op_data \<Rightarrow> op_data option list \<Rightarrow> optree list \<Rightarrow> state" where
  "ex_module_with launch user created body =
     \<lparr>ops = [Some ex_module, Some (ex_func ''main''), Some ex_placeholder, launch,
             Some user, Some ex_return] @ ex_funcs @ created,
      root = OpNode 0 [OpNode 1 [body] # ex_func_trees],
      ip = BeforeOp 3\<rparr>"

text \<open>After \<^verbatim>\<open>BuildCompileOp\<close>, after the loop over the placeholders, after
  \<^verbatim>\<open>BuildTPUCompileSucceededAssertOp\<close>, and at the end of \<^verbatim>\<open>Rewrite\<close>.\<close>

definition ex_compiled :: "op_data \<Rightarrow> state" where
  "ex_compiled launch =
     ex_module_with (Some launch) ex_user ex_compile_ops
       (OpNode 2 [] # ex_compile_tree @ [OpNode 3 [], OpNode 4 [], OpNode 5 []])"

definition ex_redirected :: "op_data \<Rightarrow> state" where
  "ex_redirected launch =
     ex_module_with (Some launch)
       (ex_user_of (OpResult 3 0 (ex_f32 [2])) (OpResult 14 0 string_tensor_type))
       ex_compile_ops
       (OpNode 2 [] # ex_compile_tree @ [OpNode 3 [], OpNode 4 [], OpNode 5 []])"

definition ex_asserted :: "op_data \<Rightarrow> state" where
  "ex_asserted launch =
     ex_module_with (Some launch)
       (ex_user_of (OpResult 3 0 (ex_f32 [2])) (OpResult 14 0 string_tensor_type))
       (ex_compile_ops @ ex_assert_ops)
       (OpNode 2 [] # ex_compile_tree @ ex_assert_tree @
        [OpNode 3 [], OpNode 4 [], OpNode 5 []])"

definition ex_rewritten :: state where
  "ex_rewritten =
     ex_module_with None
       (ex_user_of (OpResult 20 0 (ex_f32 [2])) (OpResult 14 0 string_tensor_type))
       (ex_compile_ops @ ex_assert_ops @ ex_execute_ops ''/device:TPU:0'')
       (OpNode 2 [] # ex_compile_tree @ ex_assert_tree @ ex_execute_tree @
        [OpNode 4 [], OpNode 5 []])"


text \<open>A launch function whose third operand is an unranked tensor, and the module after
  \<^verbatim>\<open>BuildCompileOp\<close> for it: the first and the third operand are probed.\<close>

definition ex_unranked_launch_func :: op_data where
  "ex_unranked_launch_func =
     ex_launch_func (ex_operands3 (UnrankedTensorType ''f32'')) ex_shardings3 1"

definition ex_shape_probe :: "val \<Rightarrow> op_data" where
  "ex_shape_probe v =
     \<lparr>op_name = kShapeOp, op_operands = [v], op_result_types = [shape_op_type],
      op_attrs = []\<rparr>"

definition ex_compile_unranked :: op_data where
  "ex_compile_unranked =
     \<lparr>op_name = kCompileOp,
      op_operands = [OpResult 12 0 shape_op_type, OpResult 13 0 shape_op_type],
      op_result_types = [string_tensor_type, string_tensor_type],
      op_attrs = [(kMetadataAttr, StringAttr ''metadata''),
                  (kNumDynamicShapesAttr, IntegerAttr 2),
                  (kMlirModuleAttr, StringAttr ''mainhelperhelper2'')]\<rparr>"

definition ex_compiled_unranked :: state where
  "ex_compiled_unranked =
     \<lparr>ops = [Some ex_module, Some (ex_func ''main''), Some ex_placeholder,
             Some ex_unranked_launch_func, Some ex_user, Some ex_return] @ ex_funcs @
            [Some (ex_shape_probe (BlockArgument 1 0 (ex_f32 [- 1, 4]))),
             Some (ex_shape_probe (BlockArgument 1 2 (UnrankedTensorType ''f32''))),
             Some ex_compile_unranked,
             Some (ex_launch [string_tensor_type, string_tensor_type] ''/device:CPU:0''),
             Some (ex_device_return [OpResult 14 0 string_tensor_type,
                                     OpResult 14 1 string_tensor_type])],
      root = OpNode 0 [OpNode 1 [[OpNode 2 [], OpNode 12 [], OpNode 13 [],
                                  OpNode 15 [[OpNode 14 [], OpNode 16 []]],
                                  OpNode 3 [], OpNode 4 [], OpNode 5 []]]
                       # ex_func_trees],
      ip = BeforeOp 3\<rparr>"


text \<open>The module of \<open>ex_replicated_state\<close> with the launch function, the user, the
  replicate operation and the operations created so far as given, and that module at the
  end of \<^verbatim>\<open>Rewrite\<close>.\<close>

definition ex_replicated_with ::
  "op_data option \<Rightarrow> op_data \<Rightarrow> op_data \<Rightarrow> op_data option list \<Rightarrow> optree list \<Rightarrow> state" where
  "ex_replicated_with launch user rep created body =
     \<lparr>ops = [Some ex_module, Some (ex_func ''main''), Some ex_placeholder, launch,
             Some user, Some rep] @ ex_funcs @ created,
      root = OpNode 0 [OpNode 1 [[OpNode 5 [body]]] # ex_func_trees],
      ip = BeforeOp 3\<rparr>"

definition ex_replicate_assigned :: op_data where
  "ex_replicate_assigned =
     \<lparr>op_name = kReplicateOp, op_operands = [], op_result_types = [ex_f32 [2], ex_f32 [2]],
      op_attrs = [(kReplicateNAttr, IntegerAttr 2),
                  (kDevicesAttr,
                   DictionaryAttr
                     [(''TPU_REPLICATED_CORE_0'',
                       ArrayAttr [StringAttr ''/device:TPU:0'',
                                  StringAttr ''/device:TPU:1''])])]\<rparr>"

definition ex_replicated_rewritten :: state where
  "ex_replicated_rewritten =
     ex_replicated_with None
       (ex_user_of (OpResult 20 0 (ex_f32 [2])) (OpResult 14 0 string_tensor_type))
       ex_replicate_assigned
       (ex_compile_ops @ ex_assert_ops @ ex_execute_ops ''TPU_REPLICATED_CORE_0'')
       (OpNode 2 [] # ex_compile_tree @ ex_assert_tree @ ex_execute_tree @ [OpNode 4 []])"

section \<open>The compile descriptor: properties\<close>

lemmas k_defs = kNumCoresPerReplicaAttr_def kStepMarkerLocationAttr_def kPaddingMapAttr_def
  kDeviceAttr_def kDevicesAttr_def kVersionsAttr_def kTpuReplicateAttr_def kSymNameAttr_def
  kLaunchFuncOp_def kLaunchOp_def kReturnOp_def kReplicateOp_def kParallelExecuteOp_def
  kShapeOp_def kCompileOp_def kCompileSucceededAssertOp_def kExecuteOp_def
  kCompilationResultOp_def kFuncOp_def kModuleOp_def kFuncAttr_def kMetadataAttr_def
  kNumDynamicShapesAttr_def kMlirModuleAttr_def kReplicateNAttr_def

lemmas attr_defs = getStringAttr_def getArrayAttr_def getIntegerAttr_def getFlatSymbolRefAttr_def

lemmas ex_defs = ex_input_sharding_attr_def ex_output_sharding_attr_def ex_callee_attr_def
  ex_call_op_def ex_some_op_def ex_return_op_def ex_ext_def ex_convert_def ex_convert_elem_def ex_f32_def ex_launch_func_def
  ex_func_def ex_call_def ex_operands_def ex_shardings_def ex_funcs_def ex_func_trees_def
  ex_module_def ex_placeholder_def ex_user_def ex_return_def ex_state_def ex_replicate_def
  ex_replicated_state_def ex_step_marker_op_def ex_unmarked_launch_func_def
  ex_operands3_def ex_shardings3_def

lemma to_int32_1: "to_int32 1 = 1" "to_int32 2 = 2"
  by (simp_all add: to_int32_def)

lemma args_loop_success:
  "args_loop ext sh idx ts acc = Inr res \<Longrightarrow>
   \<exists>new. res = acc @ new \<and> length new = length ts \<and>
     (\<forall>i<length ts. \<exists>dt shd. ConvertToDataType ext (ts ! i) = Inr dt \<and>
        new ! i = \<lparr>arg_dtype = dt, arg_kind = arg_kind_of dt,
                    arg_shape = arg_shape_of (ts ! i), arg_sharding = shd\<rparr>)"
proof (induction ts arbitrary: idx acc)
  case Nil
  then show ?case by simp
next
  case (Cons t ts)
  from Cons.prems obtain dt shd where
    dt: "ConvertToDataType ext t = Inr dt" and
    rec: "args_loop ext sh (Suc idx) ts
            (acc @ [\<lparr>arg_dtype = dt, arg_kind = arg_kind_of dt,
                      arg_shape = arg_shape_of t, arg_sharding = shd\<rparr>]) = Inr res"
    by (auto split: sum.splits if_splits)
  from Cons.IH[OF rec] obtain new where
    new: "res = (acc @ [\<lparr>arg_dtype = dt, arg_kind = arg_kind_of dt,
                      arg_shape = arg_shape_of t, arg_sharding = shd\<rparr>]) @ new"
      "length new = length ts"
      "\<forall>i<length ts. \<exists>dt shd. ConvertToDataType ext (ts ! i) = Inr dt \<and>
        new ! i = \<lparr>arg_dtype = dt, arg_kind = arg_kind_of dt,
                    arg_shape = arg_shape_of (ts ! i), arg_sharding = shd\<rparr>"
    by blast
  let ?a = "\<lparr>arg_dtype = dt, arg_kind = arg_kind_of dt,
                      arg_shape = arg_shape_of t, arg_sharding = shd\<rparr>"
  have "\<forall>i<length (t # ts). \<exists>dt shd. ConvertToDataType ext ((t # ts) ! i) = Inr dt \<and>
        (?a # new) ! i = \<lparr>arg_dtype = dt, arg_kind = arg_kind_of dt,
                    arg_shape = arg_shape_of ((t # ts) ! i), arg_sharding = shd\<rparr>"
  proof (intro allI impI)
    fix i assume "i < length (t # ts)"
    then show "\<exists>dt shd. ConvertToDataType ext ((t # ts) ! i) = Inr dt \<and>
        (?a # new) ! i = \<lparr>arg_dtype = dt, arg_kind = arg_kind_of dt,
                    arg_shape = arg_shape_of ((t # ts) ! i), arg_sharding = shd\<rparr>"
      using dt new(3) by (cases i) auto
  qed
  with new(1,2) show ?case
    by (intro exI[of _ "?a # new"]) simp
qed

lemma args_loop_error:
  "i < length ts \<Longrightarrow>
   (\<forall>j<i. \<exists>dt shd. ConvertToDataType ext (ts ! j) = Inr dt \<and> idx + j < length sh \<and>
      SetOpSharding ext (sh ! (idx + j)) (kInputShardingAttr ext) (idx + j) = Inr shd) \<Longrightarrow>
   ConvertToDataType ext (ts ! i) = Inl msg \<Longrightarrow>
   args_loop ext sh idx ts acc = Inl (OperandTypeError (idx + i) msg)"
proof (induction ts arbitrary: idx acc i)
  case Nil
  then show ?case by simp
next
  case (Cons t ts)
  show ?case
  proof (cases i)
    case 0
    with Cons.prems show ?thesis by simp
  next
    case (Suc k)
    from Cons.prems(2) Suc obtain dt shd where
      h0: "ConvertToDataType ext t = Inr dt" "idx < length sh"
          "SetOpSharding ext (sh ! idx) (kInputShardingAttr ext) idx = Inr shd"
      by fastforce
    have k: "k < length ts" using Cons.prems(1) Suc by simp
    have hk: "\<forall>j<k. \<exists>dt shd. ConvertToDataType ext (ts ! j) = Inr dt \<and> Suc idx + j < length sh \<and>
      SetOpSharding ext (sh ! (Suc idx + j)) (kInputShardingAttr ext) (Suc idx + j) = Inr shd"
    proof (intro allI impI)
      fix j assume "j < k"
      then have "Suc j < i" using Suc by simp
      from Cons.prems(2)[rule_format, OF this]
      show "\<exists>dt shd. ConvertToDataType ext (ts ! j) = Inr dt \<and> Suc idx + j < length sh \<and>
        SetOpSharding ext (sh ! (Suc idx + j)) (kInputShardingAttr ext) (Suc idx + j) = Inr shd"
        by simp
    qed
    have "ConvertToDataType ext (ts ! k) = Inl msg" using Cons.prems(3) Suc by simp
    from Cons.IH[OF k hk this] h0 Suc show ?thesis by simp
  qed
qed

lemma retvals_loop_length:
  "retvals_loop ext idx xs acc = Inr res \<Longrightarrow> length res = length acc + length xs"
  by (induction xs arbitrary: idx acc) (auto split: sum.splits)

lemma step_marker_args:
  "SetMetadataProtoStepMarkerLocation ext op m = Inr m' \<Longrightarrow>
   md_args m' = md_args m \<and> md_retvals m' = md_retvals m \<and> md_padding_maps m' = md_padding_maps m"
  by (auto simp: SetMetadataProtoStepMarkerLocation_def split: option.splits if_splits)

lemma padding_map_args:
  "SetMetadataProtoPaddingMap ext op m = Inr m' \<Longrightarrow>
   md_args m' = md_args m \<and> md_retvals m' = md_retvals m"
  by (auto simp: SetMetadataProtoPaddingMap_def split: option.splits sum.splits)

lemma SetMetadataProtoArgs_success:
  assumes "SetMetadataProtoArgs ext op m = Inr m'"
  shows "\<exists>new. md_args m' = md_args m @ new \<and> length new = length (op_operands op) \<and>
           md_retvals m' = md_retvals m \<and>
     (\<forall>i<length (op_operands op). \<exists>dt shd.
        ConvertToDataType ext (val_type (op_operands op ! i)) = Inr dt \<and>
        new ! i = \<lparr>arg_dtype = dt, arg_kind = arg_kind_of dt,
                    arg_shape = arg_shape_of (val_type (op_operands op ! i)),
                    arg_sharding = shd\<rparr>)"
proof -
  from assms obtain sh res where
    r: "args_loop ext sh 0 (map val_type (op_operands op)) (md_args m) = Inr res"
    and m': "m' = m\<lparr>md_args := res\<rparr>"
    by (auto simp: SetMetadataProtoArgs_def split: option.splits if_splits sum.splits)
  from args_loop_success[OF r] m' show ?thesis by auto
qed

lemma SetMetadataProtoRetvals_success:
  "SetMetadataProtoRetvals ext op m = Inr m' \<Longrightarrow>
   md_args m' = md_args m \<and> length (md_retvals m') = length (md_retvals m) + length (op_result_types op)"
  by (auto simp: SetMetadataProtoRetvals_def dest: retvals_loop_length
           split: option.splits if_splits sum.splits)

lemma metadata_counts:
  assumes "SetMetadataProtoFromLaunchFuncOp ext op nr nc xla empty_metadata = Inr md"
  shows "length (md_args md) = length (op_operands op) \<and>
         length (md_retvals md) = length (op_result_types op)"
proof -
  from assms obtain m1 m2 m3 where
    s1: "SetMetadataProtoStepMarkerLocation ext op
           (empty_metadata\<lparr>md_num_replicas := nr, md_num_cores_per_replica := nc\<rparr>) = Inr m1"
    and s2: "SetMetadataProtoPaddingMap ext op m1 = Inr m2"
    and s3: "SetMetadataProtoArgs ext op
               (case xla of None \<Rightarrow> m2 | Some a \<Rightarrow> m2\<lparr>md_device_assignment := Some a\<rparr>) = Inr m3"
    and s4: "SetMetadataProtoRetvals ext op m3 = Inr md"
    by (auto simp: SetMetadataProtoFromLaunchFuncOp_def split: sum.splits)
  have a2: "md_args m2 = [] \<and> md_retvals m2 = []"
    using step_marker_args[OF s1] padding_map_args[OF s2] by (simp add: empty_metadata_def)
  then have a2': "md_args (case xla of None \<Rightarrow> m2 | Some a \<Rightarrow> m2\<lparr>md_device_assignment := Some a\<rparr>) = []
     \<and> md_retvals (case xla of None \<Rightarrow> m2 | Some a \<Rightarrow> m2\<lparr>md_device_assignment := Some a\<rparr>) = []"
    by (cases xla) auto
  from SetMetadataProtoArgs_success[OF s3] a2' SetMetadataProtoRetvals_success[OF s4]
  show ?thesis by auto
qed

text \<open>
  Claim C8. \<^verbatim>\<open>SetMetadataProtoStepMarkerLocation\<close>: a launch function without the
  string attribute \<^verbatim>\<open>step_marker_location\<close> gives the missing-attribute error; the empty
  string gives the default \<^verbatim>\<open>STEP_MARK_AT_ENTRY\<close>; a value that is not empty and
  that \<^verbatim>\<open>StepMarkerLocation_Parse\<close> rejects gives the error naming the attribute and the
  value; a value it accepts is recorded in the descriptor.
\<close>

theorem step_marker_location_policy:
  "(getStringAttr op kStepMarkerLocationAttr = None \<longrightarrow>
      SetMetadataProtoStepMarkerLocation ext op md = Inl (MissingAttribute kStepMarkerLocationAttr)) \<and>
   (getStringAttr op kStepMarkerLocationAttr = Some [] \<longrightarrow>
      SetMetadataProtoStepMarkerLocation ext op md =
        Inr (md\<lparr>md_step_marker_location := STEP_MARK_AT_ENTRY\<rparr>)) \<and>
   (\<forall>v. getStringAttr op kStepMarkerLocationAttr = Some v \<and> v \<noteq> [] \<and>
        StepMarkerLocation_Parse ext v = None \<longrightarrow>
      SetMetadataProtoStepMarkerLocation ext op md =
        Inl (BadAttributeValue kStepMarkerLocationAttr v)) \<and>
   (\<forall>v location. getStringAttr op kStepMarkerLocationAttr = Some v \<and> v \<noteq> [] \<and>
        StepMarkerLocation_Parse ext v = Some location \<longrightarrow>
      SetMetadataProtoStepMarkerLocation ext op md =
        Inr (md\<lparr>md_step_marker_location := location\<rparr>))"
  by (simp add: SetMetadataProtoStepMarkerLocation_def)

theorem step_marker_location_policy_witness:
  "getStringAttr (ex_func ''main'') kStepMarkerLocationAttr = None \<and>
   SetMetadataProtoStepMarkerLocation ex_ext (ex_func ''main'') empty_metadata =
     Inl (MissingAttribute kStepMarkerLocationAttr) \<and>
   getStringAttr (ex_step_marker_op []) kStepMarkerLocationAttr = Some [] \<and>
   SetMetadataProtoStepMarkerLocation ex_ext (ex_step_marker_op []) empty_metadata =
     Inr (empty_metadata\<lparr>md_step_marker_location := STEP_MARK_AT_ENTRY\<rparr>) \<and>
   getStringAttr (ex_step_marker_op ''bogus'') kStepMarkerLocationAttr = Some ''bogus'' \<and>
   StepMarkerLocation_Parse ex_ext ''bogus'' = None \<and>
   SetMetadataProtoStepMarkerLocation ex_ext (ex_step_marker_op ''bogus'') empty_metadata =
     Inl (BadAttributeValue kStepMarkerLocationAttr ''bogus'') \<and>
   getStringAttr (ex_step_marker_op ''STEP_MARK_AT_TOP_LEVEL_WHILE_LOOP'') kStepMarkerLocationAttr =
     Some ''STEP_MARK_AT_TOP_LEVEL_WHILE_LOOP'' \<and>
   StepMarkerLocation_Parse ex_ext ''STEP_MARK_AT_TOP_LEVEL_WHILE_LOOP'' = Some (STEP_MARK_OTHER 1) \<and>
   SetMetadataProtoStepMarkerLocation ex_ext (ex_step_marker_op ''STEP_MARK_AT_TOP_LEVEL_WHILE_LOOP'')
       empty_metadata =
     Inr (empty_metadata\<lparr>md_step_marker_location := STEP_MARK_OTHER 1\<rparr>)"
proof -
  have h1: "getStringAttr (ex_func ''main'') kStepMarkerLocationAttr = None"
    by (simp add: attr_defs ex_defs k_defs)
  have h2: "getStringAttr (ex_step_marker_op []) kStepMarkerLocationAttr = Some []"
    by (simp add: attr_defs ex_defs k_defs)
  have h3: "getStringAttr (ex_step_marker_op ''bogus'') kStepMarkerLocationAttr = Some ''bogus''"
    "StepMarkerLocation_Parse ex_ext ''bogus'' = None"
    by (simp_all add: attr_defs ex_defs k_defs)
  have h4: "getStringAttr (ex_step_marker_op ''STEP_MARK_AT_TOP_LEVEL_WHILE_LOOP'')
              kStepMarkerLocationAttr = Some ''STEP_MARK_AT_TOP_LEVEL_WHILE_LOOP''"
    "StepMarkerLocation_Parse ex_ext ''STEP_MARK_AT_TOP_LEVEL_WHILE_LOOP'' = Some (STEP_MARK_OTHER 1)"
    by (simp_all add: attr_defs ex_defs k_defs)
  show ?thesis
    using h1 h2 h3 h4
      step_marker_location_policy [of "ex_func ''main''" ex_ext empty_metadata]
      step_marker_location_policy [of "ex_step_marker_op []" ex_ext empty_metadata]
      step_marker_location_policy [of "ex_step_marker_op ''bogus''" ex_ext empty_metadata]
      step_marker_location_policy [of "ex_step_marker_op ''STEP_MARK_AT_TOP_LEVEL_WHILE_LOOP''"
         ex_ext empty_metadata]
    by simp
qed

text \<open>
  Claim C6. \<^verbatim>\<open>SetMetadataProtoArgs\<close>, operand by operand: when the operands before
  operand \<open>i\<close> convert and their shardings parse, and the type of operand \<open>i\<close> has no
  data type, the error names the index \<open>i\<close>. When the arguments are built, there is one
  more argument descriptor per operand; its kind is \<^verbatim>\<open>VARIABLE\<close> exactly when the data
  type is \<^verbatim>\<open>DT_RESOURCE\<close> and \<^verbatim>\<open>PARAMETER\<close> otherwise; its shape is the shape of a
  ranked tensor type and of unknown rank for any other type. A descriptor built by
  \<^verbatim>\<open>SetMetadataProtoFromLaunchFuncOp\<close> has one argument descriptor per operand and one
  result descriptor per result.
\<close>

theorem descriptor_arguments:
  "(\<forall>i msg input_shardings.
      i < length (op_operands op) \<and>
      getArrayAttr op (kInputShardingAttr ext) = Some input_shardings \<and>
      length input_shardings = length (op_operands op) \<and>
      (\<forall>j<i. \<exists>dt shd. ConvertToDataType ext (val_type (op_operands op ! j)) = Inr dt \<and>
         SetOpSharding ext (input_shardings ! j) (kInputShardingAttr ext) j = Inr shd) \<and>
      ConvertToDataType ext (val_type (op_operands op ! i)) = Inl msg \<longrightarrow>
      SetMetadataProtoArgs ext op m = Inl (OperandTypeError i msg)) \<and>
   (\<forall>m'. SetMetadataProtoArgs ext op m = Inr m' \<longrightarrow>
      length (md_args m') = length (md_args m) + length (op_operands op) \<and>
      (\<forall>i<length (op_operands op). \<exists>dt.
         ConvertToDataType ext (val_type (op_operands op ! i)) = Inr dt \<and>
         arg_dtype (md_args m' ! (length (md_args m) + i)) = dt \<and>
         (arg_kind (md_args m' ! (length (md_args m) + i)) = VARIABLE \<longleftrightarrow> dt = DT_RESOURCE) \<and>
         (arg_kind (md_args m' ! (length (md_args m) + i)) = PARAMETER \<longleftrightarrow> dt \<noteq> DT_RESOURCE) \<and>
         (case val_type (op_operands op ! i) of
            RankedTensorType shape e \<Rightarrow>
              arg_shape (md_args m' ! (length (md_args m) + i)) =
                \<lparr>shape_dim = shape, unknown_rank = False\<rparr>
          | UnrankedTensorType e \<Rightarrow> unknown_rank (arg_shape (md_args m' ! (length (md_args m) + i)))
          | OtherType e \<Rightarrow> unknown_rank (arg_shape (md_args m' ! (length (md_args m) + i)))))) \<and>
   (\<forall>md. SetMetadataProtoFromLaunchFuncOp ext op num_replicas num_cores_per_replica
            xla_device_assignment empty_metadata = Inr md \<longrightarrow>
      length (md_args md) = length (op_operands op) \<and>
      length (md_retvals md) = length (op_result_types op))"
proof (intro conjI allI impI)
  fix i msg input_shardings
  assume h: "i < length (op_operands op) \<and>
      getArrayAttr op (kInputShardingAttr ext) = Some input_shardings \<and>
      length input_shardings = length (op_operands op) \<and>
      (\<forall>j<i. \<exists>dt shd. ConvertToDataType ext (val_type (op_operands op ! j)) = Inr dt \<and>
         SetOpSharding ext (input_shardings ! j) (kInputShardingAttr ext) j = Inr shd) \<and>
      ConvertToDataType ext (val_type (op_operands op ! i)) = Inl msg"
  have "args_loop ext input_shardings 0 (map val_type (op_operands op)) (md_args m)
          = Inl (OperandTypeError (0 + i) msg)"
    by (rule args_loop_error) (use h in auto)
  with h show "SetMetadataProtoArgs ext op m = Inl (OperandTypeError i msg)"
    by (simp add: SetMetadataProtoArgs_def)
next
  fix m' assume h: "SetMetadataProtoArgs ext op m = Inr m'"
  from SetMetadataProtoArgs_success[OF h] obtain new where
    new: "md_args m' = md_args m @ new" "length new = length (op_operands op)"
      "\<forall>i<length (op_operands op). \<exists>dt shd.
        ConvertToDataType ext (val_type (op_operands op ! i)) = Inr dt \<and>
        new ! i = \<lparr>arg_dtype = dt, arg_kind = arg_kind_of dt,
                    arg_shape = arg_shape_of (val_type (op_operands op ! i)),
                    arg_sharding = shd\<rparr>"
    by blast
  show "length (md_args m') = length (md_args m) + length (op_operands op)"
    using new by simp
  fix i assume i: "i < length (op_operands op)"
  from new(3) i obtain dt shd where
    d: "ConvertToDataType ext (val_type (op_operands op ! i)) = Inr dt"
       "new ! i = \<lparr>arg_dtype = dt, arg_kind = arg_kind_of dt,
                    arg_shape = arg_shape_of (val_type (op_operands op ! i)),
                    arg_sharding = shd\<rparr>"
    by blast
  have e: "md_args m' ! (length (md_args m) + i) = new ! i"
    using new(1) by simp
  show "\<exists>dt. ConvertToDataType ext (val_type (op_operands op ! i)) = Inr dt \<and>
         arg_dtype (md_args m' ! (length (md_args m) + i)) = dt \<and>
         (arg_kind (md_args m' ! (length (md_args m) + i)) = VARIABLE \<longleftrightarrow> dt = DT_RESOURCE) \<and>
         (arg_kind (md_args m' ! (length (md_args m) + i)) = PARAMETER \<longleftrightarrow> dt \<noteq> DT_RESOURCE) \<and>
         (case val_type (op_operands op ! i) of
            RankedTensorType shape e \<Rightarrow>
              arg_shape (md_args m' ! (length (md_args m) + i)) =
                \<lparr>shape_dim = shape, unknown_rank = False\<rparr>
          | UnrankedTensorType e \<Rightarrow> unknown_rank (arg_shape (md_args m' ! (length (md_args m) + i)))
          | OtherType e \<Rightarrow> unknown_rank (arg_shape (md_args m' ! (length (md_args m) + i))))"
    unfolding e d(2) using d(1)
    by (auto simp: arg_kind_of_def arg_shape_of_def split: mtype.splits)
next
  fix md assume "SetMetadataProtoFromLaunchFuncOp ext op num_replicas num_cores_per_replica
            xla_device_assignment empty_metadata = Inr md"
  from metadata_counts[OF this]
  show "length (md_args md) = length (op_operands op)"
    "length (md_retvals md) = length (op_result_types op)" by simp_all
qed

theorem descriptor_arguments_witness:
  "getArrayAttr (ex_launch_func (ex_operands3 (OtherType ''token'')) ex_shardings3 1)
      (kInputShardingAttr ex_ext) = Some ex_shardings3 \<and>
   ConvertToDataType ex_ext
      (val_type (op_operands (ex_launch_func (ex_operands3 (OtherType ''token'')) ex_shardings3 1) ! 2))
     = Inl ''unsupported'' \<and>
   SetMetadataProtoArgs ex_ext (ex_launch_func (ex_operands3 (OtherType ''token'')) ex_shardings3 1)
      empty_metadata = Inl (OperandTypeError 2 ''unsupported'') \<and>
   SetMetadataProtoArgs ex_ext
      (ex_launch_func (ex_operands3 (UnrankedTensorType ''!tf.resource'')) ex_shardings3 1)
      empty_metadata =
     Inr (empty_metadata\<lparr>md_args :=
       [\<lparr>arg_dtype = DT_VALUE 1, arg_kind = PARAMETER,
          arg_shape = \<lparr>shape_dim = [- 1, 4], unknown_rank = False\<rparr>,
          arg_sharding = OpSharding ''s0''\<rparr>,
        \<lparr>arg_dtype = DT_VALUE 1, arg_kind = PARAMETER,
          arg_shape = \<lparr>shape_dim = [2], unknown_rank = False\<rparr>,
          arg_sharding = OpSharding ''s1''\<rparr>,
        \<lparr>arg_dtype = DT_RESOURCE, arg_kind = VARIABLE,
          arg_shape = \<lparr>shape_dim = [], unknown_rank = True\<rparr>,
          arg_sharding = OpSharding ''s2''\<rparr>]\<rparr>) \<and>
   length (md_args (projr (SetMetadataProtoFromLaunchFuncOp ex_ext
      (ex_launch_func (ex_operands3 (UnrankedTensorType ''!tf.resource'')) ex_shardings3 1)
      1 1 None empty_metadata))) = 3 \<and>
   length (md_retvals (projr (SetMetadataProtoFromLaunchFuncOp ex_ext
      (ex_launch_func (ex_operands3 (UnrankedTensorType ''!tf.resource'')) ex_shardings3 1)
      1 1 None empty_metadata))) = 1"
proof -
  let ?bad = "ex_launch_func (ex_operands3 (OtherType ''token'')) ex_shardings3 1"
  let ?ok = "ex_launch_func (ex_operands3 (UnrankedTensorType ''!tf.resource'')) ex_shardings3 1"
  have a1: "getArrayAttr ?bad (kInputShardingAttr ex_ext) = Some ex_shardings3"
    by (simp add: attr_defs ex_defs k_defs)
  have a2: "ConvertToDataType ex_ext (val_type (op_operands ?bad ! 2)) = Inl ''unsupported''"
    by (simp add: ex_defs)
  have a3: "length ex_shardings3 = length (op_operands ?bad)" "2 < length (op_operands ?bad)"
    by (simp_all add: ex_defs)
  have a4: "\<forall>j<2. \<exists>dt shd. ConvertToDataType ex_ext (val_type (op_operands ?bad ! j)) = Inr dt \<and>
         SetOpSharding ex_ext (ex_shardings3 ! j) (kInputShardingAttr ex_ext) j = Inr shd"
    by (auto simp: less_2_cases_iff ex_defs SetOpSharding_def)
  have b: "SetMetadataProtoArgs ex_ext ?bad empty_metadata = Inl (OperandTypeError 2 ''unsupported'')"
    using descriptor_arguments [of ?bad ex_ext empty_metadata] a1 a2 a3 a4 by blast
  have c: "SetMetadataProtoArgs ex_ext ?ok empty_metadata =
     Inr (empty_metadata\<lparr>md_args :=
       [\<lparr>arg_dtype = DT_VALUE 1, arg_kind = PARAMETER,
          arg_shape = \<lparr>shape_dim = [- 1, 4], unknown_rank = False\<rparr>,
          arg_sharding = OpSharding ''s0''\<rparr>,
        \<lparr>arg_dtype = DT_VALUE 1, arg_kind = PARAMETER,
          arg_shape = \<lparr>shape_dim = [2], unknown_rank = False\<rparr>,
          arg_sharding = OpSharding ''s1''\<rparr>,
        \<lparr>arg_dtype = DT_RESOURCE, arg_kind = VARIABLE,
          arg_shape = \<lparr>shape_dim = [], unknown_rank = True\<rparr>,
          arg_sharding = OpSharding ''s2''\<rparr>]\<rparr>)"
    by (simp add: SetMetadataProtoArgs_def attr_defs ex_defs k_defs empty_metadata_def
          SetOpSharding_def arg_kind_of_def arg_shape_of_def)
  have d: "\<exists>md. SetMetadataProtoFromLaunchFuncOp ex_ext ?ok 1 1 None empty_metadata = Inr md"
    by (simp add: SetMetadataProtoFromLaunchFuncOp_def SetMetadataProtoStepMarkerLocation_def
          SetMetadataProtoPaddingMap_def SetMetadataProtoRetvals_def
          SetMetadataProtoArgs_def attr_defs ex_defs k_defs empty_metadata_def
          SetOpSharding_def arg_kind_of_def arg_shape_of_def)
  then obtain md where md: "SetMetadataProtoFromLaunchFuncOp ex_ext ?ok 1 1 None empty_metadata = Inr md"
    by blast
  have e: "length (md_args md) = 3 \<and> length (md_retvals md) = 1"
    using descriptor_arguments [of ?ok ex_ext empty_metadata 1 1 None] md
    by (simp add: ex_defs)
  show ?thesis using a1 a2 b c e md by simp
qed

section \<open>The program state: lemmas\<close>

lemma get_op_ip [simp]: "get_op (s\<lparr>ip := x\<rparr>) i = get_op s i"
  by (simp add: get_op_def)

lemma rewrite_walk_append:
  "rewrite_walk ext devices pre s0 = Some (Inr (), s) \<Longrightarrow>
   rewrite_walk ext devices (pre @ rest) s0 = rewrite_walk ext devices rest s"
  by (induction pre arbitrary: s0) (auto split: option.splits sum.splits prod.splits)

subsection \<open>Creating operations\<close>

lemma create_op_fst [simp]: "fst (create_op d n s) = length (ops s)"
  by (simp add: create_op_def)

lemma create_op_ops [simp]: "ops (snd (create_op d n s)) = ops s @ [Some d]"
  by (simp add: create_op_def)

lemma create_op_ip [simp]: "ip (snd (create_op d n s)) = ip s"
  by (simp add: create_op_def)

lemma create_op_root:
  "root (snd (create_op d n s)) =
     insert_at (ip s) (OpNode (length (ops s)) (replicate n [])) (root s)"
  by (simp add: create_op_def)

lemma get_op_old:
  "ops s' = ops s @ xs \<Longrightarrow> i < length (ops s) \<Longrightarrow> get_op s' i = get_op s i"
  by (simp add: get_op_def nth_append)


lemma getResultTypes_old:
  "ops s' = ops s @ xs \<Longrightarrow> i < length (ops s) \<Longrightarrow> getResultTypes s' i = getResultTypes s i"
  by (simp add: getResultTypes_def get_op_old)

lemma moveBefore_ops [simp]: "ops (moveBefore a b s) = ops s"
  by (simp add: moveBefore_def split: option.splits)

lemma moveBefore_ip [simp]: "ip (moveBefore a b s) = ip s"
  by (simp add: moveBefore_def split: option.splits)

lemma WrapOpInLaunch_fst [simp]: "fst (WrapOpInLaunch op device s) = length (ops s)"
  by (simp add: WrapOpInLaunch_def case_prod_unfold)

lemma WrapOpInLaunch_ip [simp]: "ip (snd (WrapOpInLaunch op device s)) = ip s"
  by (simp add: WrapOpInLaunch_def case_prod_unfold)

lemma WrapOpInLaunch_ops:
  "op < length (ops s) \<Longrightarrow>
   ops (snd (WrapOpInLaunch op device s)) =
     ops s @
     [Some \<lparr>op_name = kLaunchOp, op_operands = [], op_result_types = getResultTypes s op,
            op_attrs = [(kDeviceAttr, StringAttr device)]\<rparr>,
      Some \<lparr>op_name = kReturnOp, op_operands = results_of op (getResultTypes s op),
            op_result_types = [], op_attrs = []\<rparr>]"
  by (simp add: WrapOpInLaunch_def case_prod_unfold getResults_def
        getResultTypes_old[where s=s and xs="[x]" for x])

subsection \<open>The shape operations\<close>

lemma map_upt_shift:
  "f 0 # map (\<lambda>j. f (Suc j)) [0..<k] = map f [0..<Suc k]"
  by (simp only: map_upt_Suc)

lemma shape_ops_loop_result:
  assumes "idx + length operands \<le> length (md_args md)"
    and "\<forall>j<length operands.
           arg_shape (md_args md ! (idx + j)) = arg_shape_of (val_type (operands ! j))"
  shows "\<exists>s'. shape_ops_loop md idx operands acc s =
           (Inr (acc @ map (\<lambda>j. OpResult (length (ops s) + j) 0 shape_op_type)
                   [0..<length (filter (\<lambda>v. \<not> IsFullyDefined (arg_shape_of (val_type v)))
                                  operands)]), s') \<and>
         ops s' = ops s @
           map (\<lambda>v. Some \<lparr>op_name = kShapeOp, op_operands = [v],
                           op_result_types = [shape_op_type], op_attrs = []\<rparr>)
             (filter (\<lambda>v. \<not> IsFullyDefined (arg_shape_of (val_type v))) operands) \<and>
         ip s' = ip s \<and>
         root s' = fold (\<lambda>i. insert_at (ip s) (OpNode i []))
                     [length (ops s)..<length (ops s) +
                        length (filter (\<lambda>v. \<not> IsFullyDefined (arg_shape_of (val_type v)))
                                  operands)] (root s)"
  using assms
proof (induction operands arbitrary: idx acc s)
  case Nil
  then show ?case by simp
next
  case (Cons v vs)
  have idx: "idx < length (md_args md)" using Cons.prems(1) by simp
  have sh: "arg_shape (md_args md ! idx) = arg_shape_of (val_type v)"
    using Cons.prems(2)[rule_format, of 0] by simp
  have p1: "Suc idx + length vs \<le> length (md_args md)" using Cons.prems(1) by simp
  have p2: "\<forall>j<length vs. arg_shape (md_args md ! (Suc idx + j)) = arg_shape_of (val_type (vs ! j))"
  proof (intro allI impI)
    fix j assume "j < length vs"
    then have "Suc j < length (v # vs)" by simp
    from Cons.prems(2)[rule_format, OF this] show
      "arg_shape (md_args md ! (Suc idx + j)) = arg_shape_of (val_type (vs ! j))" by simp
  qed
  let ?dyn = "filter (\<lambda>v. \<not> IsFullyDefined (arg_shape_of (val_type v))) vs"
  show ?case
  proof (cases "IsFullyDefined (arg_shape_of (val_type v))")
    case True
    from Cons.IH[OF p1 p2, of acc s] True idx sh show ?thesis by simp
  next
    case False
    let ?d = "\<lparr>op_name = kShapeOp, op_operands = [v],
                 op_result_types = [shape_op_type], op_attrs = []\<rparr>"
    let ?s1 = "snd (create_op ?d 0 s)"
    let ?n = "length (ops s)"
    from Cons.IH[OF p1 p2, of "acc @ [OpResult ?n 0 shape_op_type]" ?s1]
    obtain s' where s':
      "shape_ops_loop md (Suc idx) vs (acc @ [OpResult ?n 0 shape_op_type]) ?s1 =
         (Inr ((acc @ [OpResult ?n 0 shape_op_type]) @
               map (\<lambda>j. OpResult (length (ops ?s1) + j) 0 shape_op_type) [0..<length ?dyn]), s')"
      "ops s' = ops ?s1 @ map (\<lambda>v. Some \<lparr>op_name = kShapeOp, op_operands = [v],
                           op_result_types = [shape_op_type], op_attrs = []\<rparr>) ?dyn"
      "ip s' = ip ?s1"
      "root s' = fold (\<lambda>i. insert_at (ip ?s1) (OpNode i []))
                     [length (ops ?s1)..<length (ops ?s1) + length ?dyn] (root ?s1)"
      by blast
    have r: "[OpResult ?n 0 shape_op_type] @
               map (\<lambda>j. OpResult (length (ops ?s1) + j) 0 shape_op_type) [0..<length ?dyn]
             = map (\<lambda>j. OpResult (?n + j) 0 shape_op_type) [0..<Suc (length ?dyn)]"
      using map_upt_shift[of "\<lambda>j. OpResult (?n + j) 0 shape_op_type" "length ?dyn"]
      by simp
    have t: "fold (\<lambda>i. insert_at (ip ?s1) (OpNode i []))
                     [length (ops ?s1)..<length (ops ?s1) + length ?dyn] (root ?s1)
           = fold (\<lambda>i. insert_at (ip s) (OpNode i []))
                     [?n..<?n + Suc (length ?dyn)] (root s)"
    proof -
      have "[?n..<?n + Suc (length ?dyn)] = ?n # [Suc ?n..<Suc ?n + length ?dyn]"
        by (simp add: upt_conv_Cons del: upt_Suc)
      then show ?thesis by (simp add: create_op_root del: upt_Suc)
    qed
    show ?thesis
      using False idx sh s' r t
      by (simp add: case_prod_unfold del: upt_Suc)
  qed
qed

lemma metadata_arg_shapes:
  assumes "SetMetadataProtoFromLaunchFuncOp ext op nr nc xla empty_metadata = Inr md"
  shows "length (md_args md) = length (op_operands op) \<and>
         (\<forall>j<length (op_operands op).
            arg_shape (md_args md ! j) = arg_shape_of (val_type (op_operands op ! j)))"
proof -
  from assms obtain m1 m2 m3 where
    s1: "SetMetadataProtoStepMarkerLocation ext op
           (empty_metadata\<lparr>md_num_replicas := nr, md_num_cores_per_replica := nc\<rparr>) = Inr m1"
    and s2: "SetMetadataProtoPaddingMap ext op m1 = Inr m2"
    and s3: "SetMetadataProtoArgs ext op
               (case xla of None \<Rightarrow> m2 | Some a \<Rightarrow> m2\<lparr>md_device_assignment := Some a\<rparr>) = Inr m3"
    and s4: "SetMetadataProtoRetvals ext op m3 = Inr md"
    by (auto simp: SetMetadataProtoFromLaunchFuncOp_def split: sum.splits)
  have a2: "md_args m2 = []"
    using step_marker_args[OF s1] padding_map_args[OF s2] by (simp add: empty_metadata_def)
  then have a2': "md_args (case xla of None \<Rightarrow> m2 | Some a \<Rightarrow> m2\<lparr>md_device_assignment := Some a\<rparr>) = []"
    by (cases xla) auto
  from SetMetadataProtoArgs_success[OF s3] a2' obtain new where
    new: "md_args m3 = new" "length new = length (op_operands op)"
      "\<forall>i<length (op_operands op). \<exists>dt shd.
        ConvertToDataType ext (val_type (op_operands op ! i)) = Inr dt \<and>
        new ! i = \<lparr>arg_dtype = dt, arg_kind = arg_kind_of dt,
                    arg_shape = arg_shape_of (val_type (op_operands op ! i)),
                    arg_sharding = shd\<rparr>"
    by auto
  have "md_args md = new" using SetMetadataProtoRetvals_success[OF s4] new(1) by simp
  with new(2,3) show ?thesis by fastforce
qed

lemma clone_referenced_state:
  assumes "clone_referenced s entry_name referenced funcs counter = Some y"
  shows "fst y = s"
  by (rule clone_referenced.raw_induct
            [where P = "\<lambda>s entry_name referenced funcs counter y. fst y = s", OF _ assms])
     (auto split: list.splits if_splits option.splits)

lemma EncapsulateFunc_state:
  "EncapsulateFunc s func = Some (r, s') \<Longrightarrow> s' = s"
  by (auto simp: EncapsulateFunc_def split: option.splits dest: clone_referenced_state)

lemma EncapsulateFuncAndSerialize_state:
  "EncapsulateFuncAndSerialize ext s func = Some (r, s') \<Longrightarrow> s' = s"
  by (auto simp: EncapsulateFuncAndSerialize_def split: option.splits sum.splits
           dest: EncapsulateFunc_state)

text \<open>What a successful \<^verbatim>\<open>BuildCompileOp\<close> leaves behind.\<close>

lemma BuildCompileOp_success:
  assumes b: "BuildCompileOp ext launch_func num_replicas num_cores_per_replica
                compilation_device xla_device_assignment s = Some (Inr c, s')"
    and lf: "get_op s launch_func = Some lf"
  shows "\<exists>metadata txt_metadata txt_module.
    SetMetadataProtoFromLaunchFuncOp ext lf num_replicas num_cores_per_replica
       xla_device_assignment empty_metadata = Inr metadata \<and>
    ops s' = ops s @
      map (\<lambda>v. Some \<lparr>op_name = kShapeOp, op_operands = [v],
                      op_result_types = [shape_op_type], op_attrs = []\<rparr>)
        (filter (\<lambda>v. \<not> IsFullyDefined (arg_shape_of (val_type v))) (op_operands lf)) @
      [Some \<lparr>op_name = kCompileOp,
             op_operands = map (\<lambda>j. OpResult (length (ops s) + j) 0 shape_op_type)
               [0..<length (filter (\<lambda>v. \<not> IsFullyDefined (arg_shape_of (val_type v)))
                              (op_operands lf))],
             op_result_types = [string_tensor_type, string_tensor_type],
             op_attrs =
               [(kMetadataAttr, StringAttr txt_metadata),
                (kNumDynamicShapesAttr,
                 IntegerAttr (int (length (filter
                   (\<lambda>v. \<not> IsFullyDefined (arg_shape_of (val_type v))) (op_operands lf))))),
                (kMlirModuleAttr, StringAttr txt_module)]\<rparr>,
       Some \<lparr>op_name = kLaunchOp, op_operands = [],
             op_result_types = [string_tensor_type, string_tensor_type],
             op_attrs = [(kDeviceAttr, StringAttr compilation_device)]\<rparr>,
       Some \<lparr>op_name = kReturnOp,
             op_operands = results_of
               (length (ops s) +
                length (filter (\<lambda>v. \<not> IsFullyDefined (arg_shape_of (val_type v)))
                          (op_operands lf)))
               [string_tensor_type, string_tensor_type],
             op_result_types = [], op_attrs = []\<rparr>] \<and>
    c = Suc (length (ops s) +
             length (filter (\<lambda>v. \<not> IsFullyDefined (arg_shape_of (val_type v)))
                       (op_operands lf))) \<and>
    ip s' = ip s"
proof -
  let ?dyn = "filter (\<lambda>v. \<not> IsFullyDefined (arg_shape_of (val_type v))) (op_operands lf)"
  let ?n = "length (ops s)"
  from b lf obtain metadata where
    md: "SetMetadataProtoFromLaunchFuncOp ext lf num_replicas num_cores_per_replica
           xla_device_assignment empty_metadata = Inr metadata"
    by (auto simp: BuildCompileOp_def split: sum.splits)
  from metadata_arg_shapes[OF md]
  have sh: "0 + length (op_operands lf) \<le> length (md_args metadata)"
    "\<forall>j<length (op_operands lf).
       arg_shape (md_args metadata ! (0 + j)) = arg_shape_of (val_type (op_operands lf ! j))"
    by simp_all
  from shape_ops_loop_result[OF sh, of "[]" s] obtain s1 where
    s1: "shape_ops_loop metadata 0 (op_operands lf) [] s =
           (Inr (map (\<lambda>j. OpResult (?n + j) 0 shape_op_type) [0..<length ?dyn]), s1)"
        "ops s1 = ops s @ map (\<lambda>v. Some \<lparr>op_name = kShapeOp, op_operands = [v],
                      op_result_types = [shape_op_type], op_attrs = []\<rparr>) ?dyn"
        "ip s1 = ip s"
    by auto
  from b lf md s1(1) obtain func_attr func txt_module s2 where
    enc: "EncapsulateFuncAndSerialize ext s1 func = Some (Inr txt_module, s2)"
    and fin: "(c, s') =
       (case create_op
             \<lparr>op_name = kCompileOp,
              op_operands = map (\<lambda>j. OpResult (?n + j) 0 shape_op_type) [0..<length ?dyn],
              op_result_types = [string_tensor_type, string_tensor_type],
              op_attrs =
                [(kMetadataAttr,
                  StringAttr (if tpu_compile_metadata_debug ext then DebugString ext metadata
                              else SerializeToString ext metadata)),
                 (kNumDynamicShapesAttr, IntegerAttr (int (length ?dyn))),
                 (kMlirModuleAttr, StringAttr txt_module)]\<rparr> 0 s2 of
        (compile_op, s3) \<Rightarrow> WrapOpInLaunch compile_op compilation_device s3)"
    by (auto simp: BuildCompileOp_def split: option.splits sum.splits prod.splits)
  have s2: "s2 = s1" using EncapsulateFuncAndSerialize_state[OF enc] .
  let ?cd = "\<lparr>op_name = kCompileOp,
              op_operands = map (\<lambda>j. OpResult (?n + j) 0 shape_op_type) [0..<length ?dyn],
              op_result_types = [string_tensor_type, string_tensor_type],
              op_attrs =
                [(kMetadataAttr,
                  StringAttr (if tpu_compile_metadata_debug ext then DebugString ext metadata
                              else SerializeToString ext metadata)),
                 (kNumDynamicShapesAttr, IntegerAttr (int (length ?dyn))),
                 (kMlirModuleAttr, StringAttr txt_module)]\<rparr>"
  let ?s3 = "snd (create_op ?cd 0 s1)"
  have w: "WrapOpInLaunch (length (ops s1)) compilation_device ?s3 = (c, s')"
    using fin s2 by (simp add: case_prod_unfold)
  have cs: "c = fst (WrapOpInLaunch (length (ops s1)) compilation_device ?s3)"
           "s' = snd (WrapOpInLaunch (length (ops s1)) compilation_device ?s3)"
    by (simp_all only: w fst_conv snd_conv)
  have lt: "length (ops s1) < length (ops ?s3)" by simp
  have rt: "getResultTypes ?s3 (length (ops s1)) = [string_tensor_type, string_tensor_type]"
    by (simp add: getResultTypes_def get_op_def)
  have o: "ops s' = ops ?s3 @
     [Some \<lparr>op_name = kLaunchOp, op_operands = [],
            op_result_types = [string_tensor_type, string_tensor_type],
            op_attrs = [(kDeviceAttr, StringAttr compilation_device)]\<rparr>,
      Some \<lparr>op_name = kReturnOp,
            op_operands = results_of (length (ops s1)) [string_tensor_type, string_tensor_type],
            op_result_types = [], op_attrs = []\<rparr>]"
    unfolding cs(2) WrapOpInLaunch_ops[OF lt] rt ..
  show ?thesis
    apply (rule exI[of _ metadata])
    apply (rule exI[of _ "if tpu_compile_metadata_debug ext then DebugString ext metadata
                              else SerializeToString ext metadata"])
    apply (rule exI[of _ txt_module])
    using md o cs s1(2,3) by simp
qed

subsection \<open>Replacing uses\<close>

lemma replaceAllUsesWith_simps [simp]:
  "ops (replaceAllUsesWith a b s) = map (map_option (map_operands (subst_val a b))) (ops s)"
  "root (replaceAllUsesWith a b s) = root s"
  "ip (replaceAllUsesWith a b s) = ip s"
  by (simp_all add: replaceAllUsesWith_def)

lemma map_operands_fields [simp]:
  "op_name (map_operands f d) = op_name d"
  "op_result_types (map_operands f d) = op_result_types d"
  "op_attrs (map_operands f d) = op_attrs d"
  "op_operands (map_operands f d) = map f (op_operands d)"
  by (simp_all add: map_operands_def)

lemma map_operands_comp: "map_operands f (map_operands g d) = map_operands (f \<circ> g) d"
  by (simp add: map_operands_def)

lemma get_op_mapped:
  "ops s' = map (map_option (map_operands f)) (ops s) \<Longrightarrow>
   get_op s' i = map_option (map_operands f) (get_op s i)"
  by (simp add: get_op_def)

lemma getResultTypes_mapped:
  "ops s' = map (map_option (map_operands f)) (ops s) \<Longrightarrow>
   getResultTypes s' i = getResultTypes s i"
  by (simp add: getResultTypes_def get_op_mapped split: option.splits)

lemma getResult_mapped:
  "ops s' = map (map_option (map_operands f)) (ops s) \<Longrightarrow> getResult s' i k = getResult s i k"
  by (simp add: getResult_def getResultTypes_mapped)

lemma getResult_Inr:
  "getResult s i k = Inr v \<Longrightarrow>
   v = OpResult i k (getResultTypes s i ! k) \<and> k < length (getResultTypes s i) \<and>
   i < length (ops s)"
  by (auto simp: getResult_def getResultTypes_def get_op_def split: if_splits option.splits)

text \<open>The loop over the placeholders replaces exactly their outputs, by the status.\<close>

lemma redirect_compilation_results_result:
  "redirect_compilation_results ps c s = (Inr u, s') \<Longrightarrow>
   ops s' = map (map_option (map_operands
              (\<lambda>v. if v \<in> (\<lambda>p. OpResult p 0 (getResultTypes s p ! 0)) ` set ps
                    then OpResult c 0 (getResultTypes s c ! 0) else v))) (ops s) \<and>
   root s' = root s \<and> ip s' = ip s"
proof (induction ps arbitrary: s)
  case Nil
  then show ?case by (simp add: map_operands_def option.map_ident)
next
  case (Cons p ps)
  let ?out = "OpResult p 0 (getResultTypes s p ! 0)"
  let ?st = "OpResult c 0 (getResultTypes s c ! 0)"
  let ?s1 = "replaceAllUsesWith ?out ?st s"
  from Cons.prems have rec: "redirect_compilation_results ps c ?s1 = (Inr u, s')"
    by (auto split: sum.splits dest!: getResult_Inr)
  have o1: "ops ?s1 = map (map_option (map_operands (subst_val ?out ?st))) (ops s)" by simp
  have rt: "\<And>i. getResultTypes ?s1 i = getResultTypes s i"
    using getResultTypes_mapped[OF o1] .
  from Cons.IH[OF rec]
  have "ops s' = map (map_option (map_operands
              (\<lambda>v. if v \<in> (\<lambda>p. OpResult p 0 (getResultTypes s p ! 0)) ` set ps
                    then ?st else v))) (ops ?s1)"
    and r: "root s' = root s" "ip s' = ip s"
    unfolding rt by simp_all
  then have "ops s' = map (map_option (map_operands
              ((\<lambda>v. if v \<in> (\<lambda>p. OpResult p 0 (getResultTypes s p ! 0)) ` set ps
                    then ?st else v) \<circ> subst_val ?out ?st))) (ops s)"
    by (simp add: option.map_comp map_operands_comp comp_def)
  moreover have "(\<lambda>v. if v \<in> (\<lambda>p. OpResult p 0 (getResultTypes s p ! 0)) ` set ps
                    then ?st else v) \<circ> subst_val ?out ?st
     = (\<lambda>v. if v \<in> (\<lambda>p. OpResult p 0 (getResultTypes s p ! 0)) ` set (p # ps)
                    then ?st else v)"
    by (auto simp: fun_eq_iff subst_val_def)
  ultimately show ?case using r by simp
qed

lemma fold_replaceAllUsesWith:
  "ops (fold (\<lambda>(x, y). replaceAllUsesWith x y) prs s) =
     map (map_option (map_operands (\<lambda>v. fold (\<lambda>(x, y). subst_val x y) prs v))) (ops s) \<and>
   root (fold (\<lambda>(x, y). replaceAllUsesWith x y) prs s) = root s \<and>
   ip (fold (\<lambda>(x, y). replaceAllUsesWith x y) prs s) = ip s"
proof (induction prs arbitrary: s)
  case Nil
  then show ?case by (simp add: map_operands_def option.map_ident)
next
  case (Cons pr prs)
  obtain x y where pr: "pr = (x, y)" by (cases pr)
  show ?case
    using Cons.IH[of "replaceAllUsesWith x y s"]
    by (simp add: pr option.map_comp map_operands_comp comp_def)
qed



lemma results_of_length [simp]: "length (results_of a ts) = length ts"
  by (simp add: results_of_def)






subsection \<open>The tree of operations\<close>

lemma node_id_insert_before [simp]: "node_id (insert_before k n t) = node_id t"
  by (cases t) simp

lemma node_id_remove_node [simp]: "node_id (remove_node k t) = node_id t"
  by (cases t) simp

lemma node_id_append_to_block [simp]: "node_id (append_to_block p r n t) = node_id t"
  by (cases t) simp

lemma iib_absent: "k \<notin> node_id ` set c \<Longrightarrow> insert_before_in_block k n c = c"
  by (induction c) auto

lemma map_iib:
  "(\<And>y. node_id (g y) = node_id y) \<Longrightarrow>
   map g (insert_before_in_block k n c) = insert_before_in_block k (g n) (map g c)"
  by (induction c) auto

lemma set_iib: "set (insert_before_in_block k n c) \<subseteq> insert n (set c)"
  by (induction c) auto

lemma set_iib_sup: "set c \<subseteq> set (insert_before_in_block k n c)"
  by (induction c) auto

lemma tree_ids_member:
  "j \<in> set (tree_ids (OpNode i rs)) \<longleftrightarrow>
   j = i \<or> (\<exists>b\<in>set rs. \<exists>x\<in>set b. j \<in> set (tree_ids x))"
  by auto

lemma nested_member:
  "j \<in> set (tl (tree_ids (OpNode i rs))) \<longleftrightarrow>
   (\<exists>b\<in>set rs. \<exists>x\<in>set b. j \<in> set (tree_ids x))"
  by auto

lemma node_id_in_tree_ids [simp]: "node_id t \<in> set (tree_ids t)"
  by (cases t) simp

lemma tree_ids_split: "j \<in> set (tree_ids t) \<longleftrightarrow> j = node_id t \<or> j \<in> set (tl (tree_ids t))"
  by (cases t) auto

lemma remove_node_absent: "k \<notin> set (tree_ids t) \<Longrightarrow> remove_node k t = t"
proof (induction t)
  case (OpNode i rs)
  have "\<And>b. b \<in> set rs \<Longrightarrow> map (remove_node k) (filter (\<lambda>t. node_id t \<noteq> k) b) = b"
  proof -
    fix b assume b: "b \<in> set rs"
    have 1: "\<And>x. x \<in> set b \<Longrightarrow> k \<notin> set (tree_ids x)"
      using OpNode.prems b by auto
    then have "filter (\<lambda>t. node_id t \<noteq> k) b = b"
      by (intro filter_True) (metis node_id_in_tree_ids)
    moreover have "map (remove_node k) b = b"
      using OpNode.IH[OF b] 1 by (simp add: map_idI)
    ultimately show "map (remove_node k) (filter (\<lambda>t. node_id t \<noteq> k) b) = b" by simp
  qed
  then show ?case by (simp add: map_idI)
qed

lemma insert_before_absent: "k \<notin> set (tree_ids t) \<Longrightarrow> insert_before k n t = t"
proof (induction t)
  case (OpNode i rs)
  have "\<And>b. b \<in> set rs \<Longrightarrow> insert_before_in_block k n (map (insert_before k n) b) = b"
  proof -
    fix b assume b: "b \<in> set rs"
    have 1: "\<And>x. x \<in> set b \<Longrightarrow> k \<notin> set (tree_ids x)"
      using OpNode.prems b by auto
    have m: "map (insert_before k n) b = b"
      using OpNode.IH[OF b] 1 by (simp add: map_idI)
    have "k \<notin> node_id ` set b" using 1 by (metis imageE node_id_in_tree_ids)
    then show "insert_before_in_block k n (map (insert_before k n) b) = b"
      by (simp add: m iib_absent)
  qed
  then show ?case by (simp add: map_idI)
qed

lemma append_to_block_absent: "p \<notin> set (tree_ids t) \<Longrightarrow> append_to_block p r n t = t"
proof (induction t)
  case (OpNode i rs)
  have "\<And>b. b \<in> set rs \<Longrightarrow> map (append_to_block p r n) b = b"
  proof -
    fix b assume b: "b \<in> set rs"
    have 1: "\<And>x. x \<in> set b \<Longrightarrow> p \<notin> set (tree_ids x)"
      using OpNode.prems b by auto
    show "map (append_to_block p r n) b = b"
      using OpNode.IH[OF b] 1 by (simp add: map_idI)
  qed
  moreover have "i \<noteq> p" using OpNode.prems by simp
  ultimately show ?case by (simp add: map_idI)
qed

lemma tree_ids_insert_before:
  "set (tree_ids (insert_before k n t)) \<subseteq> set (tree_ids t) \<union> set (tree_ids n)"
proof (induction t)
  case (OpNode i rs)
  show ?case
  proof
    fix j assume "j \<in> set (tree_ids (insert_before k n (OpNode i rs)))"
    then consider "j = i" |
      b y where "b \<in> set rs" "y \<in> set (insert_before_in_block k n (map (insert_before k n) b))"
        "j \<in> set (tree_ids y)"
      by auto
    then show "j \<in> set (tree_ids (OpNode i rs)) \<union> set (tree_ids n)"
    proof cases
      case 1
      then show ?thesis by simp
    next
      case 2
      from 2(2) set_iib have "y = n \<or> y \<in> set (map (insert_before k n) b)" by fastforce
      then show ?thesis
      proof
        assume "y = n" with 2(3) show ?thesis by simp
      next
        assume "y \<in> set (map (insert_before k n) b)"
        then obtain x where x: "x \<in> set b" "y = insert_before k n x" by auto
        from OpNode.IH[OF 2(1) x(1)] 2(3) x(2)
        have "j \<in> set (tree_ids x) \<union> set (tree_ids n)" by auto
        with 2(1) x(1) show ?thesis by auto
      qed
    qed
  qed
qed

lemma tree_ids_insert_before_sup:
  "set (tree_ids t) \<subseteq> set (tree_ids (insert_before k n t))"
proof (induction t)
  case (OpNode i rs)
  show ?case
  proof
    fix j assume "j \<in> set (tree_ids (OpNode i rs))"
    then consider "j = i" | b x where "b \<in> set rs" "x \<in> set b" "j \<in> set (tree_ids x)"
      by auto
    then show "j \<in> set (tree_ids (insert_before k n (OpNode i rs)))"
    proof cases
      case 1
      then show ?thesis by simp
    next
      case 2
      have "insert_before k n x \<in> set (insert_before_in_block k n (map (insert_before k n) b))"
        using 2(2) set_iib_sup by fastforce
      moreover have "j \<in> set (tree_ids (insert_before k n x))"
        using OpNode.IH[OF 2(1,2)] 2(3) by auto
      ultimately show ?thesis using 2(1) by auto
    qed
  qed
qed

lemma nested_insert_before_sup:
  "j \<in> set (tl (tree_ids t)) \<Longrightarrow> j \<in> set (tl (tree_ids (insert_before k n t)))"
proof (cases t)
  case (OpNode i rs)
  assume "j \<in> set (tl (tree_ids t))"
  then obtain b x where bx: "b \<in> set rs" "x \<in> set b" "j \<in> set (tree_ids x)"
    using OpNode by auto
  have "insert_before k n x \<in> set (insert_before_in_block k n (map (insert_before k n) b))"
    using bx(2) set_iib_sup by fastforce
  moreover have "j \<in> set (tree_ids (insert_before k n x))"
    using tree_ids_insert_before_sup bx(3) by blast
  ultimately show ?thesis using OpNode bx(1) by auto
qed

text \<open>Inserting before one operation commutes with the other changes of the tree.\<close>

lemma insert_before_commute:
  "ret \<notin> set (tree_ids t) \<Longrightarrow> ret \<noteq> node_id X \<Longrightarrow>
   insert_before ret n (insert_before L X t) = insert_before L (insert_before ret n X) t"
proof (induction t)
  case (OpNode i rs)
  have "\<And>b. b \<in> set rs \<Longrightarrow>
     insert_before_in_block ret n
       (map (insert_before ret n) (insert_before_in_block L X (map (insert_before L X) b))) =
     insert_before_in_block L (insert_before ret n X)
       (map (insert_before L (insert_before ret n X)) b)"
  proof -
    fix b assume b: "b \<in> set rs"
    have 1: "\<And>x. x \<in> set b \<Longrightarrow> ret \<notin> set (tree_ids x)"
      using OpNode.prems b by auto
    have ih: "map (insert_before ret n \<circ> insert_before L X) b =
              map (insert_before L (insert_before ret n X)) b"
      using OpNode.IH[OF b] 1 OpNode.prems(2) by simp
    have m: "map (insert_before ret n) (insert_before_in_block L X (map (insert_before L X) b))
        = insert_before_in_block L (insert_before ret n X)
            (map (insert_before L (insert_before ret n X)) b)"
      by (simp add: map_iib ih)
    have "ret \<notin> node_id ` set (insert_before_in_block L (insert_before ret n X)
            (map (insert_before L (insert_before ret n X)) b))"
    proof
      assume "ret \<in> node_id ` set (insert_before_in_block L (insert_before ret n X)
            (map (insert_before L (insert_before ret n X)) b))"
      then obtain y where y: "y \<in> set (insert_before_in_block L (insert_before ret n X)
            (map (insert_before L (insert_before ret n X)) b))" "node_id y = ret" by auto
      from y(1) set_iib have "y = insert_before ret n X \<or>
          y \<in> set (map (insert_before L (insert_before ret n X)) b)" by fastforce
      then show False
      proof
        assume "y = insert_before ret n X"
        with y(2) OpNode.prems(2) show False by simp
      next
        assume "y \<in> set (map (insert_before L (insert_before ret n X)) b)"
        then obtain x where x: "x \<in> set b" "y = insert_before L (insert_before ret n X) x"
          by auto
        then have "node_id x = ret" using y(2) by simp
        with 1 x(1) show False by (metis node_id_in_tree_ids)
      qed
    qed
    then show "insert_before_in_block ret n
       (map (insert_before ret n) (insert_before_in_block L X (map (insert_before L X) b))) =
     insert_before_in_block L (insert_before ret n X)
       (map (insert_before L (insert_before ret n X)) b)"
      unfolding m by (rule iib_absent)
  qed
  then show ?case by simp
qed

lemma append_to_block_insert_before:
  "l \<notin> set (tree_ids t) \<Longrightarrow>
   append_to_block l r n (insert_before L X t) =
     insert_before L (append_to_block l r n X) t"
proof (induction t)
  case (OpNode i rs)
  have "\<And>b. b \<in> set rs \<Longrightarrow>
     map (append_to_block l r n) (insert_before_in_block L X (map (insert_before L X) b)) =
     insert_before_in_block L (append_to_block l r n X)
       (map (insert_before L (append_to_block l r n X)) b)"
  proof -
    fix b assume b: "b \<in> set rs"
    have 1: "\<And>x. x \<in> set b \<Longrightarrow> l \<notin> set (tree_ids x)"
      using OpNode.prems b by auto
    have ih: "map (append_to_block l r n \<circ> insert_before L X) b =
              map (insert_before L (append_to_block l r n X)) b"
      using OpNode.IH[OF b] 1 by simp
    show "map (append_to_block l r n) (insert_before_in_block L X (map (insert_before L X) b)) =
     insert_before_in_block L (append_to_block l r n X)
       (map (insert_before L (append_to_block l r n X)) b)"
      by (simp add: map_iib ih)
  qed
  moreover have "i \<noteq> l" using OpNode.prems by simp
  ultimately show ?case by simp
qed

lemma filter_iib:
  "k \<noteq> L \<Longrightarrow> node_id X \<noteq> k \<Longrightarrow>
   filter (\<lambda>t. node_id t \<noteq> k) (insert_before_in_block L X c) =
     insert_before_in_block L X (filter (\<lambda>t. node_id t \<noteq> k) c)"
  by (induction c) auto

lemma remove_node_insert_before:
  "k \<noteq> L \<Longrightarrow> node_id X \<noteq> k \<Longrightarrow>
   remove_node k (insert_before L X t) =
     insert_before L (remove_node k X) (remove_node k t)"
proof (induction t)
  case (OpNode i rs)
  have "\<And>b. b \<in> set rs \<Longrightarrow>
     map (remove_node k) (filter (\<lambda>t. node_id t \<noteq> k)
        (insert_before_in_block L X (map (insert_before L X) b))) =
     insert_before_in_block L (remove_node k X)
       (map (insert_before L (remove_node k X))
          (map (remove_node k) (filter (\<lambda>t. node_id t \<noteq> k) b)))"
  proof -
    fix b assume b: "b \<in> set rs"
    have ih: "\<And>x. x \<in> set b \<Longrightarrow> remove_node k (insert_before L X x) =
                insert_before L (remove_node k X) (remove_node k x)"
      using OpNode.IH[OF b] OpNode.prems by simp
    have f: "filter (\<lambda>t. node_id t \<noteq> k) (map (insert_before L X) b) =
             map (insert_before L X) (filter (\<lambda>t. node_id t \<noteq> k) b)"
      by (simp add: filter_map comp_def)
    have g: "map (remove_node k \<circ> insert_before L X) (filter (\<lambda>t. node_id t \<noteq> k) b) =
          map (insert_before L (remove_node k X) \<circ> remove_node k)
            (filter (\<lambda>t. node_id t \<noteq> k) b)"
      using ih by simp
    show "map (remove_node k) (filter (\<lambda>t. node_id t \<noteq> k)
        (insert_before_in_block L X (map (insert_before L X) b))) =
     insert_before_in_block L (remove_node k X)
       (map (insert_before L (remove_node k X))
          (map (remove_node k) (filter (\<lambda>t. node_id t \<noteq> k) b)))"
      using OpNode.prems by (simp add: filter_iib f map_iib g)
  qed
  then show ?case by simp
qed

lemma filter_iib_removed:
  "node_id X = k \<Longrightarrow>
   filter (\<lambda>t. node_id t \<noteq> k) (insert_before_in_block L X c) = filter (\<lambda>t. node_id t \<noteq> k) c"
  by (induction c) auto

lemma remove_inserted_node:
  "k \<notin> set (tree_ids t) \<Longrightarrow> node_id X = k \<Longrightarrow> remove_node k (insert_before L X t) = t"
proof (induction t)
  case (OpNode i rs)
  have "\<And>b. b \<in> set rs \<Longrightarrow>
     map (remove_node k) (filter (\<lambda>t. node_id t \<noteq> k)
        (insert_before_in_block L X (map (insert_before L X) b))) = b"
  proof -
    fix b assume b: "b \<in> set rs"
    have 1: "\<And>x. x \<in> set b \<Longrightarrow> k \<notin> set (tree_ids x)"
      using OpNode.prems b by auto
    have f: "filter (\<lambda>t. node_id t \<noteq> k) (map (insert_before L X) b) =
             map (insert_before L X) b"
      by (intro filter_True) (use 1 in \<open>auto dest: node_id_in_tree_ids[THEN rev_subsetD, rotated]\<close>,
          metis node_id_in_tree_ids)
    have "map (remove_node k) (map (insert_before L X) b) = b"
      using OpNode.IH[OF b] 1 OpNode.prems(2) by (simp add: map_idI)
    then show "map (remove_node k) (filter (\<lambda>t. node_id t \<noteq> k)
        (insert_before_in_block L X (map (insert_before L X) b))) = b"
      using OpNode.prems(2) by (simp add: filter_iib_removed f)
  qed
  then show ?case by (simp add: map_idI)
qed

lemma first_some_Cons:
  "first_some (x # xs) = (case x of None \<Rightarrow> first_some xs | Some v \<Rightarrow> Some v)"
  by (cases x) simp_all

lemma first_some_all_None:
  "(\<And>x. x \<in> set xs \<Longrightarrow> f x = None) \<Longrightarrow> first_some (map f xs) = None"
  by (induction xs) simp_all

lemma find_subtree_absent: "k \<notin> set (tree_ids t) \<Longrightarrow> find_subtree k t = None"
proof (induction t)
  case (OpNode i rs)
  have "\<And>b. b \<in> set rs \<Longrightarrow> first_some (map (find_subtree k) b) = None"
  proof -
    fix b assume b: "b \<in> set rs"
    have "\<And>x. x \<in> set b \<Longrightarrow> find_subtree k x = None"
      using OpNode.IH[OF b] OpNode.prems b by auto
    then show "first_some (map (find_subtree k) b) = None"
      by (rule first_some_all_None)
  qed
  then have "first_some (map (\<lambda>b. first_some (map (find_subtree k) b)) rs) = None"
    by (rule first_some_all_None)
  then show ?case using OpNode.prems by simp
qed

lemma first_some_two_valued:
  "(\<And>x. x \<in> set xs \<Longrightarrow> f x = None \<or> f x = Some v) \<Longrightarrow>
   first_some (map f xs) = (if \<exists>x\<in>set xs. f x = Some v then Some v else None)"
proof (induction xs)
  case Nil
  then show ?case by simp
next
  case (Cons x xs)
  have "f x = None \<or> f x = Some v" using Cons.prems by simp
  then show ?case
  proof
    assume "f x = None"
    then show ?thesis using Cons by simp
  next
    assume "f x = Some v"
    then show ?thesis by simp
  qed
qed

lemma find_inserted_block:
  assumes "node_id N = op"
    and "\<And>x. x \<in> set b \<Longrightarrow> node_id x \<noteq> op"
    and "\<And>x. x \<in> set b \<Longrightarrow>
           find_subtree op (F x) = (if L \<in> set (tl (tree_ids x)) then Some N else None)"
    and "\<And>x. node_id (F x) = node_id x"
  shows "first_some (map (find_subtree op) (insert_before_in_block L N (map F b))) =
         (if \<exists>x\<in>set b. L \<in> set (tree_ids x) then Some N else None)"
  using assms(2,3)
proof (induction b)
  case Nil
  then show ?case by simp
next
  case (Cons x xs)
  have N: "find_subtree op N = Some N" using assms(1) by (cases N) simp
  show ?case
  proof (cases "node_id x = L")
    case True
    then have "L \<in> set (tree_ids x)" by (metis node_id_in_tree_ids)
    then show ?thesis using True N by (simp add: assms(4))
  next
    case False
    have ih: "first_some (map (find_subtree op) (insert_before_in_block L N (map F xs))) =
         (if \<exists>x\<in>set xs. L \<in> set (tree_ids x) then Some N else None)"
      using Cons by simp
    have fx: "find_subtree op (F x) = (if L \<in> set (tl (tree_ids x)) then Some N else None)"
      using Cons.prems(2) by simp
    have m: "L \<in> set (tree_ids x) \<longleftrightarrow> L \<in> set (tl (tree_ids x))"
      using False tree_ids_split[of L x] by auto
    show ?thesis
      using False ih fx m by (simp add: assms(4))
  qed
qed

lemma find_inserted:
  "op \<notin> set (tree_ids t) \<Longrightarrow> node_id N = op \<Longrightarrow>
   find_subtree op (insert_before L N t) =
     (if L \<in> set (tl (tree_ids t)) then Some N else None)"
proof (induction t)
  case (OpNode i rs)
  have blk: "\<And>b. b \<in> set rs \<Longrightarrow>
     first_some (map (find_subtree op)
        (insert_before_in_block L N (map (insert_before L N) b))) =
     (if \<exists>x\<in>set b. L \<in> set (tree_ids x) then Some N else None)"
  proof -
    fix b assume b: "b \<in> set rs"
    have 1: "\<And>x. x \<in> set b \<Longrightarrow> op \<notin> set (tree_ids x)"
      using OpNode.prems b by auto
    show "first_some (map (find_subtree op)
        (insert_before_in_block L N (map (insert_before L N) b))) =
     (if \<exists>x\<in>set b. L \<in> set (tree_ids x) then Some N else None)"
    proof (rule find_inserted_block[OF OpNode.prems(2)])
      fix x assume "x \<in> set b"
      with 1 show "node_id x \<noteq> op" by (metis node_id_in_tree_ids)
    next
      fix x assume x: "x \<in> set b"
      show "find_subtree op (insert_before L N x) =
              (if L \<in> set (tl (tree_ids x)) then Some N else None)"
        using OpNode.IH[OF b x] 1[OF x] OpNode.prems(2) by simp
    qed simp
  qed
  have "first_some (map (\<lambda>b. first_some (map (find_subtree op)
          (insert_before_in_block L N (map (insert_before L N) b)))) rs) =
        (if \<exists>b\<in>set rs. first_some (map (find_subtree op)
          (insert_before_in_block L N (map (insert_before L N) b))) = Some N
         then Some N else None)"
    by (rule first_some_two_valued) (simp add: blk)
  also have "\<dots> = (if \<exists>b\<in>set rs. \<exists>x\<in>set b. L \<in> set (tree_ids x) then Some N else None)"
    by (simp add: blk cong: bex_cong)
  finally have "first_some (map (\<lambda>b. first_some (map (find_subtree op)
          (insert_before_in_block L N (map (insert_before L N) b)))) rs) =
        (if L \<in> set (tl (tree_ids (OpNode i rs))) then Some N else None)"
    by (simp only: nested_member)
  moreover have "i \<noteq> op" using OpNode.prems(1) by simp
  ultimately show ?case by (simp add: comp_def)
qed

lemma first_some_iib_None:
  "f X = None \<Longrightarrow> first_some (map f (insert_before_in_block L X c)) = first_some (map f c)"
  by (induction c) (auto simp: first_some_Cons split: option.splits)

lemma first_some_map_option:
  "first_some (map (\<lambda>x. map_option g (f x)) xs) = map_option g (first_some (map f xs))"
proof (induction xs)
  case Nil
  then show ?case by simp
next
  case (Cons x xs)
  then show ?case by (cases "f x") simp_all
qed

lemma find_subtree_insert_before:
  "k \<notin> set (tree_ids X) \<Longrightarrow>
   find_subtree k (insert_before L X t) = map_option (insert_before L X) (find_subtree k t)"
proof (induction t)
  case (OpNode i rs)
  have X: "find_subtree k X = None" using find_subtree_absent[OF OpNode.prems] .
  have "\<And>b. b \<in> set rs \<Longrightarrow>
     first_some (map (find_subtree k)
        (insert_before_in_block L X (map (insert_before L X) b))) =
     map_option (insert_before L X) (first_some (map (find_subtree k) b))"
  proof -
    fix b assume b: "b \<in> set rs"
    have "map (find_subtree k) (map (insert_before L X) b) =
          map (\<lambda>x. map_option (insert_before L X) (find_subtree k x)) b"
      using OpNode.IH[OF b] OpNode.prems by simp
    then show "first_some (map (find_subtree k)
        (insert_before_in_block L X (map (insert_before L X) b))) =
     map_option (insert_before L X) (first_some (map (find_subtree k) b))"
      by (simp only: first_some_iib_None[of "find_subtree k", OF X] first_some_map_option)
  qed
  then have "map (\<lambda>b. first_some (map (find_subtree k)
        (insert_before_in_block L X (map (insert_before L X) b)))) rs =
     map (\<lambda>b. map_option (insert_before L X) (first_some (map (find_subtree k) b))) rs"
    by simp
  then have "first_some (map (\<lambda>b. first_some (map (find_subtree k)
        (insert_before_in_block L X (map (insert_before L X) b)))) rs) =
     map_option (insert_before L X)
       (first_some (map (\<lambda>b. first_some (map (find_subtree k) b)) rs))"
    by (simp only: first_some_map_option)
  then show ?case by (simp add: comp_def)
qed

text \<open>\<^verbatim>\<open>WrapOpInLaunch\<close> on the tree: the operation just created before \<open>L\<close> ends up in
  the body of the launch, before the terminator.\<close>

lemma WrapOpInLaunch_root:
  assumes ip: "ip s = BeforeOp L"
    and r: "root s = insert_before L (OpNode op []) t0"
    and f: "op \<notin> set (tree_ids t0)" "length (ops s) \<notin> set (tree_ids t0)"
           "Suc (length (ops s)) \<notin> set (tree_ids t0)" "op < length (ops s)"
    and L: "L \<in> set (tl (tree_ids t0))"
  shows "root (snd (WrapOpInLaunch op device s)) =
     insert_before L
       (OpNode (length (ops s)) [[OpNode op [], OpNode (Suc (length (ops s))) []]]) t0"
proof -
  let ?l = "length (ops s)"
  let ?opN = "OpNode op []"
  let ?retN = "OpNode (Suc ?l) []"
  let ?t1 = "insert_before L ?opN t0"
  have Lin: "L \<in> set (tree_ids t0)" using L by (metis tree_ids_split)
  have Lne: "L \<noteq> op" "L \<noteq> ?l" "L \<noteq> Suc ?l" using Lin f by auto
  have l1: "?l \<notin> set (tree_ids ?t1)"
    using tree_ids_insert_before[of L ?opN t0] f by auto
  have r2: "append_to_block ?l 0 ?retN (insert_before L (OpNode ?l [[]]) ?t1) =
            insert_before L (OpNode ?l [[?retN]]) ?t1"
    by (simp add: append_to_block_insert_before[OF l1] append_in_region_def)
  have fnd: "find_subtree op (insert_before L (OpNode ?l [[?retN]]) ?t1) = Some ?opN"
  proof -
    have "op \<notin> set (tree_ids (OpNode ?l [[?retN]]))" using f by simp
    from find_subtree_insert_before[OF this]
    have "find_subtree op (insert_before L (OpNode ?l [[?retN]]) ?t1) =
          map_option (insert_before L (OpNode ?l [[?retN]])) (find_subtree op ?t1)" .
    also have "find_subtree op ?t1 = Some ?opN"
      using find_inserted[OF f(1), of ?opN L] L by simp
    finally show ?thesis by simp
  qed
  have rm: "remove_node op (insert_before L (OpNode ?l [[?retN]]) ?t1) =
            insert_before L (OpNode ?l [[?retN]]) t0"
  proof -
    have "remove_node op (insert_before L (OpNode ?l [[?retN]]) ?t1) =
          insert_before L (remove_node op (OpNode ?l [[?retN]])) (remove_node op ?t1)"
      using Lne f by (intro remove_node_insert_before) auto
    moreover have "remove_node op ?t1 = t0"
      by (rule remove_inserted_node[OF f(1)]) simp
    moreover have "remove_node op (OpNode ?l [[?retN]]) = OpNode ?l [[?retN]]"
      using f by simp
    ultimately show ?thesis by simp
  qed
  have ins: "insert_before (Suc ?l) ?opN (insert_before L (OpNode ?l [[?retN]]) t0) =
             insert_before L (OpNode ?l [[?opN, ?retN]]) t0"
    using insert_before_commute[OF f(3), of "OpNode ?l [[?retN]]" ?opN L] by simp
  show ?thesis
    by (simp add: WrapOpInLaunch_def case_prod_unfold create_op_def moveBefore_def ip r
          r2 fnd rm ins)
qed


lemma tree_ids_remove_node:
  "set (tree_ids (remove_node k t)) \<subseteq> set (tree_ids t)"
proof (induction t)
  case (OpNode i rs)
  show ?case
  proof
    fix j assume "j \<in> set (tree_ids (remove_node k (OpNode i rs)))"
    then consider "j = i" |
      b x where "b \<in> set rs" "x \<in> set b" "j \<in> set (tree_ids (remove_node k x))"
      by auto
    then show "j \<in> set (tree_ids (OpNode i rs))"
    proof cases
      case 1 then show ?thesis by simp
    next
      case 2
      with OpNode.IH[OF 2(1,2)] show ?thesis by auto
    qed
  qed
qed



subsection \<open>The block of an operation\<close>

lemma block_of_absent: "k \<notin> set (tree_ids t) \<Longrightarrow> block_of k t = None"
proof (induction t)
  case (OpNode i rs)
  have m: "\<And>b. b \<in> set rs \<Longrightarrow> k \<notin> set (map node_id b)"
  proof
    fix b assume b: "b \<in> set rs" and "k \<in> set (map node_id b)"
    then obtain x where "x \<in> set b" "node_id x = k" by auto
    then have "k \<in> set (tree_ids (OpNode i rs))" using b by (auto intro: node_id_in_tree_ids)
    with OpNode.prems show False by simp
  qed
  then have f: "find (\<lambda>b. k \<in> set (map node_id b)) rs = None"
    by (simp add: find_None_iff)
  have "\<And>b. b \<in> set rs \<Longrightarrow> first_some (map (block_of k) b) = None"
  proof -
    fix b assume b: "b \<in> set rs"
    have "\<And>x. x \<in> set b \<Longrightarrow> block_of k x = None"
      using OpNode.IH[OF b] OpNode.prems b by auto
    then show "first_some (map (block_of k) b) = None" by (rule first_some_all_None)
  qed
  then have "first_some (map (\<lambda>b. first_some (map (block_of k) b)) rs) = None"
    by (rule first_some_all_None)
  then show ?case by (simp only: block_of.simps f option.case)
qed

lemma find_map_list: "find P (map g xs) = map_option g (find (\<lambda>x. P (g x)) xs)"
  by (induction xs) auto

lemma mem_ids_iib:
  "node_id X \<noteq> L \<Longrightarrow>
   L \<in> set (map node_id (insert_before_in_block L X c)) \<longleftrightarrow> L \<in> set (map node_id c)"
  by (induction c) auto

lemma filter_ids_iib:
  "\<not> P (node_id X) \<Longrightarrow>
   filter P (map node_id (insert_before_in_block L X c)) = filter P (map node_id c)"
  by (induction c) auto

lemma block_of_insert_before:
  assumes "L \<notin> set (tree_ids X)" "\<not> P (node_id X)"
  shows "map_option (filter P) (block_of L (insert_before L X t)) =
         map_option (filter P) (block_of L t)"
proof (induction t)
  case (OpNode i rs)
  have nX: "node_id X \<noteq> L" using assms(1) by (metis node_id_in_tree_ids)
  have bX: "block_of L X = None" using block_of_absent[OF assms(1)] .
  let ?G = "\<lambda>b. insert_before_in_block L X (map (insert_before L X) b)"
  have mem: "\<And>b. L \<in> set (map node_id (?G b)) \<longleftrightarrow> L \<in> set (map node_id b)"
  proof -
    fix b
    have "map node_id (map (insert_before L X) b) = map node_id b" by simp
    with mem_ids_iib[OF nX, of "map (insert_before L X) b"]
    show "L \<in> set (map node_id (?G b)) \<longleftrightarrow> L \<in> set (map node_id b)" by simp
  qed
  have fnd: "find (\<lambda>b. L \<in> set (map node_id b)) (map ?G rs) =
             map_option ?G (find (\<lambda>b. L \<in> set (map node_id b)) rs)"
    unfolding find_map_list mem ..
  show ?case
  proof (cases "find (\<lambda>b. L \<in> set (map node_id b)) rs")
    case (Some b)
    have "filter P (map node_id (?G b)) = filter P (map node_id b)"
    proof -
      have "node_id \<circ> insert_before L X = node_id" by (simp add: fun_eq_iff)
      then have "map node_id (map (insert_before L X) b) = map node_id b" by simp
      moreover have "filter P (map node_id
          (insert_before_in_block L X (map (insert_before L X) b))) =
          filter P (map node_id (map (insert_before L X) b))"
        by (rule filter_ids_iib) (rule assms(2))
      ultimately show ?thesis by (simp only:)
    qed
    then show ?thesis
      by (simp only: insert_before.simps block_of.simps fnd Some option.case option.map)
  next
    case None
    have inner: "\<And>b. b \<in> set rs \<Longrightarrow>
       map_option (filter P) (first_some (map (block_of L) (?G b))) =
       map_option (filter P) (first_some (map (block_of L) b))"
    proof -
      fix b assume b: "b \<in> set rs"
      have "first_some (map (block_of L) (?G b)) =
            first_some (map (block_of L) (map (insert_before L X) b))"
        by (rule first_some_iib_None[where f="block_of L" and X=X]) (rule bX)
      then have "map_option (filter P) (first_some (map (block_of L) (?G b))) =
            first_some (map (\<lambda>x. map_option (filter P) (block_of L (insert_before L X x))) b)"
        by (simp add: first_some_map_option[symmetric] comp_def)
      also have "\<dots> = first_some (map (\<lambda>x. map_option (filter P) (block_of L x)) b)"
        using OpNode.IH[OF b] by (simp cong: map_cong)
      finally show "map_option (filter P) (first_some (map (block_of L) (?G b))) =
            map_option (filter P) (first_some (map (block_of L) b))"
        by (simp add: first_some_map_option)
    qed
    have "map_option (filter P)
            (first_some (map (\<lambda>b. first_some (map (block_of L) (?G b))) rs)) =
          first_some (map (\<lambda>b. map_option (filter P)
            (first_some (map (block_of L) (?G b)))) rs)"
      by (simp add: first_some_map_option)
    also have "\<dots> = first_some (map (\<lambda>b. map_option (filter P)
            (first_some (map (block_of L) b))) rs)"
      using inner by (simp cong: map_cong)
    finally have "map_option (filter P)
            (first_some (map (\<lambda>b. first_some (map (block_of L) (?G b))) rs)) =
          map_option (filter P)
            (first_some (map (\<lambda>b. first_some (map (block_of L) b)) rs))"
      by (simp add: first_some_map_option)
    then show ?thesis
      by (simp only: insert_before.simps block_of.simps fnd None option.case option.map
            map_map comp_def)
  qed
qed

lemma block_of_ids: "block_of k t = Some b \<Longrightarrow> set b \<subseteq> set (tl (tree_ids t))"
proof (induction t)
  case (OpNode i rs)
  show ?case
  proof (cases "find (\<lambda>b. k \<in> set (map node_id b)) rs")
    case (Some c)
    then have "c \<in> set rs" by (auto simp: find_Some_iff)
    moreover have "b = map node_id c" using OpNode.prems
      by (simp only: block_of.simps Some option.case option.inject)
    ultimately show ?thesis by (auto intro: node_id_in_tree_ids)
  next
    case None
    have "first_some (map (\<lambda>b. first_some (map (block_of k) b)) rs) = Some b"
      using OpNode.prems by (simp only: block_of.simps None option.case)
    then obtain c x where cx: "c \<in> set rs" "x \<in> set c" "block_of k x = Some b"
    proof -
      have g: "\<And>(f::'x \<Rightarrow> 'y option) xs v. first_some (map f xs) = Some v \<Longrightarrow>
                 \<exists>x\<in>set xs. f x = Some v"
      proof -
        fix f :: "'x \<Rightarrow> 'y option" and xs v
        show "first_some (map f xs) = Some v \<Longrightarrow> \<exists>x\<in>set xs. f x = Some v"
          by (induction xs) (auto simp: first_some_Cons split: option.splits)
      qed
      assume a: "\<And>c x. c \<in> set rs \<Longrightarrow> x \<in> set c \<Longrightarrow> block_of k x = Some b \<Longrightarrow> thesis"
      assume "first_some (map (\<lambda>b. first_some (map (block_of k) b)) rs) = Some b"
      from g[OF this] obtain c where c: "c \<in> set rs" "first_some (map (block_of k) c) = Some b"
        by blast
      from g[OF c(2)] obtain x where "x \<in> set c" "block_of k x = Some b" by blast
      with a c(1) show thesis by blast
    qed
    from OpNode.IH[OF cx] have "set b \<subseteq> set (tl (tree_ids x))" .
    then have "set b \<subseteq> set (tree_ids x)" by (metis tree_ids_split subsetI subsetD)
    with cx(1,2) show ?thesis by auto
  qed
qed

subsection \<open>The builders on the tree\<close>

lemma allocatedD: "allocated s \<Longrightarrow> j \<in> set (tree_ids (root s)) \<Longrightarrow> j < length (ops s)"
  by (simp add: allocated_def list_all_iff)

lemma allocated_insert:
  assumes "allocated s" "root s' = insert_before L X (root s)"
    "\<And>j. j \<in> set (tree_ids X) \<Longrightarrow> j < length (ops s')" "length (ops s) \<le> length (ops s')"
  shows "allocated s'"
  unfolding allocated_def list_all_iff
proof
  fix j assume "j \<in> set (tree_ids (root s'))"
  then have "j \<in> set (tree_ids (root s)) \<or> j \<in> set (tree_ids X)"
    using tree_ids_insert_before[of L X "root s"] assms(2) by auto
  then show "j < length (ops s')"
    using allocatedD[OF assms(1)] assms(3,4) by fastforce
qed

lemma attached_insert:
  "attached s L \<Longrightarrow> root s' = insert_before k X (root s) \<Longrightarrow> attached s' L"
  by (simp add: attached_def nested_insert_before_sup)

lemma fresh_not_in_tree: "allocated s \<Longrightarrow> length (ops s) \<le> j \<Longrightarrow> j \<notin> set (tree_ids (root s))"
  using allocatedD by fastforce

lemma attached_less: "allocated s \<Longrightarrow> attached s L \<Longrightarrow> L < length (ops s)"
  using allocatedD[of s L] by (simp add: attached_def) (metis tree_ids_split)

text \<open>An operation created before \<open>L\<close> and wrapped in a launch.\<close>

lemma create_wrap_root:
  assumes ip: "ip s = BeforeOp L" and al: "allocated s" and at: "attached s L"
  shows "root (snd (WrapOpInLaunch (length (ops s)) device (snd (create_op d 0 s)))) =
     insert_before L
       (OpNode (Suc (length (ops s)))
          [[OpNode (length (ops s)) [], OpNode (Suc (Suc (length (ops s)))) []]]) (root s)"
proof -
  let ?s1 = "snd (create_op d 0 s)"
  have "root (snd (WrapOpInLaunch (length (ops s)) device ?s1)) =
     insert_before L
       (OpNode (length (ops ?s1)) [[OpNode (length (ops s)) [], OpNode (Suc (length (ops ?s1))) []]])
       (root s)"
  proof (rule WrapOpInLaunch_root)
    show "ip ?s1 = BeforeOp L" using ip by simp
    show "root ?s1 = insert_before L (OpNode (length (ops s)) []) (root s)"
      by (simp add: create_op_root ip)
    show "length (ops s) \<notin> set (tree_ids (root s))"
      using fresh_not_in_tree[OF al] by simp
    show "length (ops ?s1) \<notin> set (tree_ids (root s))"
      using fresh_not_in_tree[OF al] by simp
    show "Suc (length (ops ?s1)) \<notin> set (tree_ids (root s))"
      using fresh_not_in_tree[OF al] by simp
    show "length (ops s) < length (ops ?s1)" by simp
    show "L \<in> set (tl (tree_ids (root s)))" using at by (simp add: attached_def)
  qed
  then show ?thesis by simp
qed

lemma create_wrap_ops:
  "ops (snd (WrapOpInLaunch (length (ops s)) device (snd (create_op d 0 s)))) =
     ops s @
     [Some d,
      Some \<lparr>op_name = kLaunchOp, op_operands = [], op_result_types = op_result_types d,
            op_attrs = [(kDeviceAttr, StringAttr device)]\<rparr>,
      Some \<lparr>op_name = kReturnOp,
            op_operands = results_of (length (ops s)) (op_result_types d),
            op_result_types = [], op_attrs = []\<rparr>]"
proof -
  let ?s1 = "snd (create_op d 0 s)"
  have lt: "length (ops s) < length (ops ?s1)" by simp
  have rt: "getResultTypes ?s1 (length (ops s)) = op_result_types d"
    by (simp add: getResultTypes_def get_op_def)
  show ?thesis unfolding WrapOpInLaunch_ops[OF lt] rt by simp
qed

lemma create_wrap_allocated:
  assumes ip: "ip s = BeforeOp L" and al: "allocated s" and at: "attached s L"
  shows "allocated (snd (WrapOpInLaunch (length (ops s)) device (snd (create_op d 0 s)))) \<and>
         attached (snd (WrapOpInLaunch (length (ops s)) device (snd (create_op d 0 s)))) L"
proof -
  let ?s' = "snd (WrapOpInLaunch (length (ops s)) device (snd (create_op d 0 s)))"
  note r = create_wrap_root[OF assms, of device d]
  have "allocated ?s'"
    by (rule allocated_insert[OF al r]) (auto simp: create_wrap_ops)
  moreover have "attached ?s' L" by (rule attached_insert[OF at r])
  ultimately show ?thesis by simp
qed

text \<open>The operations created one after the other before \<open>L\<close>.\<close>

lemma fold_inserts:
  assumes "L \<in> set (tl (tree_ids t))"
  shows "set (tree_ids (fold (\<lambda>i. insert_before L (OpNode i [])) is t))
           \<subseteq> set (tree_ids t) \<union> set is \<and>
         L \<in> set (tl (tree_ids (fold (\<lambda>i. insert_before L (OpNode i [])) is t)))"
  using assms
proof (induction "is" arbitrary: t)
  case Nil
  then show ?case by simp
next
  case (Cons i "is")
  have 1: "L \<in> set (tl (tree_ids (insert_before L (OpNode i []) t)))"
    using Cons.prems by (rule nested_insert_before_sup)
  have 2: "set (tree_ids (insert_before L (OpNode i []) t)) \<subseteq> set (tree_ids t) \<union> {i}"
    using tree_ids_insert_before[of L "OpNode i []" t] by simp
  from Cons.IH[OF 1] 2 show ?case by auto
qed

lemma fold_inserts_block:
  assumes "L \<notin> set is" "\<And>i. i \<in> set is \<Longrightarrow> \<not> P i"
  shows "map_option (filter P) (block_of L (fold (\<lambda>i. insert_before L (OpNode i [])) is t)) =
         map_option (filter P) (block_of L t)"
  using assms
proof (induction "is" arbitrary: t)
  case Nil
  then show ?case by simp
next
  case (Cons i "is")
  have "map_option (filter P) (block_of L (insert_before L (OpNode i []) t)) =
        map_option (filter P) (block_of L t)"
    using Cons.prems by (intro block_of_insert_before) auto
  with Cons.IH[of "insert_before L (OpNode i []) t"] Cons.prems show ?case by simp
qed

subsection \<open>The builders on the tree\<close>

lemma insert_at_BeforeOp: "insert_at (BeforeOp k) n = insert_before k n"
  by (rule ext) simp

lemma BuildCompileOp_root:
  assumes b: "BuildCompileOp ext launch_func num_replicas num_cores_per_replica
                compilation_device xla_device_assignment s = Some (Inr c, s')"
    and lf: "get_op s launch_func = Some lf"
    and ip: "ip s = BeforeOp launch_func" and al: "allocated s" and at: "attached s launch_func"
  shows "root s' =
     insert_before launch_func (OpNode c [[OpNode (c - 1) [], OpNode (Suc c) []]])
       (fold (\<lambda>i. insert_before launch_func (OpNode i []))
          [length (ops s)..<length (ops s) +
             length (filter (\<lambda>v. \<not> IsFullyDefined (arg_shape_of (val_type v)))
                       (op_operands lf))] (root s)) \<and>
     allocated s' \<and> attached s' launch_func"
proof -
  let ?dyn = "filter (\<lambda>v. \<not> IsFullyDefined (arg_shape_of (val_type v))) (op_operands lf)"
  let ?n = "length (ops s)"
  let ?L = launch_func
  from b lf obtain metadata where
    md: "SetMetadataProtoFromLaunchFuncOp ext lf num_replicas num_cores_per_replica
           xla_device_assignment empty_metadata = Inr metadata"
    by (auto simp: BuildCompileOp_def split: sum.splits)
  from metadata_arg_shapes[OF md]
  have sh: "0 + length (op_operands lf) \<le> length (md_args metadata)"
    "\<forall>j<length (op_operands lf).
       arg_shape (md_args metadata ! (0 + j)) = arg_shape_of (val_type (op_operands lf ! j))"
    by simp_all
  from shape_ops_loop_result[OF sh, of "[]" s] obtain s1 where
    s1: "shape_ops_loop metadata 0 (op_operands lf) [] s =
           (Inr (map (\<lambda>j. OpResult (?n + j) 0 shape_op_type) [0..<length ?dyn]), s1)"
        "ops s1 = ops s @ map (\<lambda>v. Some \<lparr>op_name = kShapeOp, op_operands = [v],
                      op_result_types = [shape_op_type], op_attrs = []\<rparr>) ?dyn"
        "ip s1 = ip s"
        "root s1 = fold (\<lambda>i. insert_at (ip s) (OpNode i [])) [?n..<?n + length ?dyn] (root s)"
    by auto
  from b lf md s1(1) obtain func txt_module s2 where
    enc: "EncapsulateFuncAndSerialize ext s1 func = Some (Inr txt_module, s2)"
    and fin: "(c, s') =
       (case create_op
             \<lparr>op_name = kCompileOp,
              op_operands = map (\<lambda>j. OpResult (?n + j) 0 shape_op_type) [0..<length ?dyn],
              op_result_types = [string_tensor_type, string_tensor_type],
              op_attrs =
                [(kMetadataAttr,
                  StringAttr (if tpu_compile_metadata_debug ext then DebugString ext metadata
                              else SerializeToString ext metadata)),
                 (kNumDynamicShapesAttr, IntegerAttr (int (length ?dyn))),
                 (kMlirModuleAttr, StringAttr txt_module)]\<rparr> 0 s2 of
        (compile_op, s3) \<Rightarrow> WrapOpInLaunch compile_op compilation_device s3)"
    by (auto simp: BuildCompileOp_def split: option.splits sum.splits prod.splits)
  define cd where "cd = \<lparr>op_name = kCompileOp,
              op_operands = map (\<lambda>j. OpResult (?n + j) 0 shape_op_type) [0..<length ?dyn],
              op_result_types = [string_tensor_type, string_tensor_type],
              op_attrs =
                [(kMetadataAttr,
                  StringAttr (if tpu_compile_metadata_debug ext then DebugString ext metadata
                              else SerializeToString ext metadata)),
                 (kNumDynamicShapesAttr, IntegerAttr (int (length ?dyn))),
                 (kMlirModuleAttr, StringAttr txt_module)]\<rparr>"
  have s2: "s2 = s1" using EncapsulateFuncAndSerialize_state[OF enc] .
  let ?s3 = "snd (create_op cd 0 s1)"
  have w: "WrapOpInLaunch (length (ops s1)) compilation_device ?s3 = (c, s')"
    using fin s2 by (simp add: case_prod_unfold cd_def)
  have cs: "c = fst (WrapOpInLaunch (length (ops s1)) compilation_device ?s3)"
           "s' = snd (WrapOpInLaunch (length (ops s1)) compilation_device ?s3)"
    by (simp_all only: w fst_conv snd_conv)
  have c: "c = Suc (length (ops s1))" using cs(1) by simp
  have r1: "root s1 = fold (\<lambda>i. insert_before ?L (OpNode i [])) [?n..<?n + length ?dyn] (root s)"
    using s1(4) ip by (simp add: insert_at_BeforeOp)
  have att: "?L \<in> set (tl (tree_ids (root s)))" using at by (simp add: attached_def)
  from fold_inserts[OF att, of "[?n..<?n + length ?dyn]"]
  have f1: "set (tree_ids (root s1)) \<subseteq> set (tree_ids (root s)) \<union> set [?n..<?n + length ?dyn]"
    and a1: "attached s1 ?L"
    by (simp_all add: r1 attached_def)
  have al1: "allocated s1"
    unfolding allocated_def list_all_iff
  proof
    fix j assume "j \<in> set (tree_ids (root s1))"
    with f1 have "j \<in> set (tree_ids (root s)) \<or> j < ?n + length ?dyn" by auto
    then show "j < length (ops s1)"
    proof
      assume "j \<in> set (tree_ids (root s))"
      from allocatedD[OF al this] show ?thesis by (simp add: s1(2))
    next
      assume "j < ?n + length ?dyn"
      then show ?thesis by (simp add: s1(2))
    qed
  qed
  have ip1: "ip s1 = BeforeOp ?L" using s1(3) ip by simp
  have "root s' = insert_before ?L
       (OpNode (Suc (length (ops s1)))
          [[OpNode (length (ops s1)) [], OpNode (Suc (Suc (length (ops s1)))) []]]) (root s1)"
    unfolding cs(2) by (rule create_wrap_root[OF ip1 al1 a1])
  moreover have "allocated s' \<and> attached s' ?L"
    unfolding cs(2) by (rule create_wrap_allocated[OF ip1 al1 a1])
  ultimately show ?thesis using c r1 by simp
qed

text \<open>\<^verbatim>\<open>BuildTPUCompileSucceededAssertOp\<close>.\<close>

lemma BuildTPUCompileSucceededAssertOp_result:
  assumes "BuildTPUCompileSucceededAssertOp c device s = (Inr u, s')"
  shows "ops s' = ops s @
      [Some \<lparr>op_name = kCompileSucceededAssertOp,
             op_operands = [OpResult c 0 (getResultTypes s c ! 0)],
             op_result_types = [], op_attrs = []\<rparr>,
       Some \<lparr>op_name = kLaunchOp, op_operands = [], op_result_types = [],
             op_attrs = [(kDeviceAttr, StringAttr device)]\<rparr>,
       Some \<lparr>op_name = kReturnOp, op_operands = [], op_result_types = [], op_attrs = []\<rparr>] \<and>
     ip s' = ip s \<and>
     (ip s = BeforeOp L \<and> allocated s \<and> attached s L \<longrightarrow>
        root s' = insert_before L
          (OpNode (Suc (length (ops s)))
             [[OpNode (length (ops s)) [], OpNode (Suc (Suc (length (ops s)))) []]]) (root s) \<and>
        allocated s' \<and> attached s' L)"
proof -
  from assms obtain status where st: "getResult s c 0 = Inr status"
    by (auto simp: BuildTPUCompileSucceededAssertOp_def split: sum.splits)
  let ?d = "\<lparr>op_name = kCompileSucceededAssertOp, op_operands = [status],
             op_result_types = [], op_attrs = []\<rparr>"
  have s': "s' = snd (WrapOpInLaunch (length (ops s)) device (snd (create_op ?d 0 s)))"
    using assms st by (simp add: BuildTPUCompileSucceededAssertOp_def case_prod_unfold)
  have status: "status = OpResult c 0 (getResultTypes s c ! 0)"
    using getResult_Inr[OF st] by simp
  show ?thesis
    unfolding s'
    using create_wrap_root[of s L device ?d] create_wrap_allocated[of s L device ?d]
    by (simp add: create_wrap_ops status results_of_def)
qed

lemma filter_upt_names:
  assumes "\<forall>i. n \<le> i \<and> i < n + k \<longrightarrow> \<not> P i"
  shows "filter P [n..<n + k] = []"
  using assms by (simp add: filter_empty_conv)

subsection \<open>The steps of a successful \<^verbatim>\<open>Rewrite\<close>\<close>

lemma Rewrite_success:
  assumes "Rewrite ext launch_func devices s = Some (Inr (), s')"
    and "get_op s launch_func = Some lf"
    and "getStringAttr lf kTpuReplicateAttr = Some replicate_attr"
  shows "\<exists>num_replicas n a compile_op s1 block s2 s3.
     num_replicas_of s (getParentReplicate s launch_func) = Inr num_replicas \<and>
     getIntegerAttr lf kNumCoresPerReplicaAttr = Some n \<and>
     GetTPUCompilationAndExecutionDevices ext devices num_replicas (to_int32 n) = Inr a \<and>
     BuildCompileOp ext launch_func num_replicas (to_int32 n) (da_compilation_device a)
       (da_xla_device_assignment a) (s\<lparr>ip := BeforeOp launch_func\<rparr>) =
       Some (Inr compile_op, s1) \<and>
     getBlock s1 launch_func = Some block \<and>
     redirect_compilation_results (filter (has_name s1 kCompilationResultOp) block)
       compile_op s1 = (Inr (), s2) \<and>
     BuildTPUCompileSucceededAssertOp compile_op (da_compilation_device a) s2 = (Inr (), s3) \<and>
     build_execution ext launch_func (to_int32 n) (da_execution_devices a)
       (getParentReplicate s launch_func) compile_op s3 = (Inr (), s')"
  using assms
  by (simp add: Rewrite_def split: option.splits sum.splits prod.splits)

lemma fronts_Inr: "fronts rows = Inr ds \<Longrightarrow> ds = map hd rows \<and> [] \<notin> set rows"
  by (induction rows arbitrary: ds rule: fronts.induct) (auto split: sum.splits)

lemma setAttr_fields [simp]:
  "root (setAttr i n a s) = root s" "ip (setAttr i n a s) = ip s"
  "length (ops (setAttr i n a s)) = length (ops s)"
  by (simp_all add: setAttr_def)

lemma get_op_setAttr:
  "get_op (setAttr i n a s) j =
     (if j = i then map_option (\<lambda>d. d\<lparr>op_attrs := setAttr_list n a (op_attrs d)\<rparr>) (get_op s i)
      else get_op s j)"
  by (simp add: setAttr_def get_op_def)

lemma getResultTypes_setAttr [simp]: "getResultTypes (setAttr i n a s) j = getResultTypes s j"
  by (cases "get_op s i") (auto simp: getResultTypes_def get_op_setAttr)

lemma setAttr_create_op:
  "i < length (ops s) \<Longrightarrow>
   setAttr i n a (snd (create_op d r s)) = snd (create_op d r (setAttr i n a s))"
  by (simp add: setAttr_def create_op_def get_op_def list_update_append nth_append)

lemma build_execution_single:
  assumes "build_execution ext launch_func num_cores execution_devices replicate_op
             compile_op s = (Inr (), s')"
    and "\<not> 1 < num_cores"
    and "\<And>rep. replicate_op = Some rep \<Longrightarrow> rep < length (ops s)"
  shows "\<exists>device s0.
     getResult s compile_op 1 = Inr (OpResult compile_op 1 (getResultTypes s compile_op ! 1)) \<and>
     s' = erase launch_func (replaceAllUsesWithOp launch_func (Suc (length (ops s)))
            (snd (WrapOpInLaunch (length (ops s)) device
               (snd (create_op \<lparr>op_name = kExecuteOp,
                        op_operands = getOperands s launch_func @
                          [OpResult compile_op 1 (getResultTypes s compile_op ! 1)],
                        op_result_types = getResultTypes s launch_func, op_attrs = []\<rparr> 0 s0))))) \<and>
     (case replicate_op of
        None \<Rightarrow> s0 = s \<and> execution_devices \<noteq> [] \<and> hd execution_devices \<noteq> [] \<and>
                 device = hd (hd execution_devices)
      | Some rep \<Rightarrow>
          [] \<notin> set execution_devices \<and> device = GetDeviceAliasForLogicalCore ext 0 \<and>
          s0 = setAttr rep kDevicesAttr
                 (DictionaryAttr
                    [(GetDeviceAliasForLogicalCore ext 0,
                      ArrayAttr (map StringAttr (map hd execution_devices)))]) s)"
proof -
  from assms obtain program where p: "getResult s compile_op 1 = Inr program"
    by (auto simp: build_execution_def split: sum.splits)
  have pe: "program = OpResult compile_op 1 (getResultTypes s compile_op ! 1)"
    using getResult_Inr[OF p] by simp
  let ?d = "\<lparr>op_name = kExecuteOp,
             op_operands = getOperands s launch_func @ [program],
             op_result_types = getResultTypes s launch_func, op_attrs = []\<rparr>"
  let ?s1 = "snd (create_op ?d 0 s)"
  have be: "BuildExecuteOp (getOperands s launch_func @ [program]) launch_func s =
      (length (ops s), ?s1)"
    by (simp add: BuildExecuteOp_def prod_eq_iff)
  from assms p be obtain launch_op s2 where
    as: "AssignDevicesToReplicatedExecute ext execution_devices replicate_op (length (ops s)) ?s1
           = (Inr launch_op, s2)"
    and s': "s' = erase launch_func (replaceAllUsesWithOp launch_func launch_op s2)"
    by (auto simp: build_execution_def split: sum.splits prod.splits)
  show ?thesis
  proof (cases replicate_op)
    case None
    from as None obtain device ds rows where
      e: "execution_devices = (device # ds) # rows"
      and w: "WrapOpInLaunch (length (ops s)) device ?s1 = (launch_op, s2)"
      by (auto simp: AssignDevicesToReplicatedExecute_def split: list.splits prod.splits)
    have "launch_op = fst (WrapOpInLaunch (length (ops s)) device ?s1)"
      "s2 = snd (WrapOpInLaunch (length (ops s)) device ?s1)"
      by (simp_all only: w fst_conv snd_conv)
    then show ?thesis using None e s' p pe by auto
  next
    case (Some rep)
    let ?a = "DictionaryAttr [(GetDeviceAliasForLogicalCore ext 0,
                      ArrayAttr (map StringAttr (map hd execution_devices)))]"
    from as Some obtain devs where
      f: "fronts execution_devices = Inr devs"
      and w: "WrapOpInLaunch (length (ops s)) (GetDeviceAliasForLogicalCore ext 0)
                (setAttr rep kDevicesAttr
                   (DictionaryAttr [(GetDeviceAliasForLogicalCore ext 0,
                      ArrayAttr (map StringAttr devs))]) ?s1) = (launch_op, s2)"
      by (auto simp: AssignDevicesToReplicatedExecute_def split: sum.splits prod.splits)
    have d: "devs = map hd execution_devices" "[] \<notin> set execution_devices"
      using fronts_Inr[OF f] by simp_all
    have True: "rep < length (ops s)" using assms(3) Some by simp
    have c: "setAttr rep kDevicesAttr ?a ?s1 = snd (create_op ?d 0 (setAttr rep kDevicesAttr ?a s))"
      by (rule setAttr_create_op[OF True])
    have w': "WrapOpInLaunch (length (ops s)) (GetDeviceAliasForLogicalCore ext 0)
              (snd (create_op ?d 0 (setAttr rep kDevicesAttr ?a s))) = (launch_op, s2)"
      using w unfolding d(1) c .
    have "launch_op = fst (WrapOpInLaunch (length (ops s)) (GetDeviceAliasForLogicalCore ext 0)
              (snd (create_op ?d 0 (setAttr rep kDevicesAttr ?a s))))"
      "s2 = snd (WrapOpInLaunch (length (ops s)) (GetDeviceAliasForLogicalCore ext 0)
              (snd (create_op ?d 0 (setAttr rep kDevicesAttr ?a s))))"
      by (simp_all only: w' fst_conv snd_conv)
    then show ?thesis using Some d s' p pe by auto
  qed
qed

lemma first_some_SomeD:
  "first_some (map f xs) = Some v \<Longrightarrow> \<exists>x\<in>set xs. f x = Some v"
  by (induction xs) (auto simp: first_some_Cons split: option.splits)

lemma parent_of_ids: "parent_of k t = Some p \<Longrightarrow> p \<in> set (tree_ids t)"
proof (induction t)
  case (OpNode i rs)
  show ?case
  proof (cases "list_ex (\<lambda>b. k \<in> set (map node_id b)) rs")
    case True
    then have "p = i" using OpNode.prems by (simp only: parent_of.simps if_True option.inject)
    then show ?thesis by simp
  next
    case False
    then have "first_some (map (\<lambda>b. first_some (map (parent_of k) b)) rs) = Some p"
      using OpNode.prems by (simp only: parent_of.simps if_False)
    from first_some_SomeD[OF this] obtain c where
      c: "c \<in> set rs" "first_some (map (parent_of k) c) = Some p" by blast
    from first_some_SomeD[OF c(2)] obtain x where x: "x \<in> set c" "parent_of k x = Some p"
      by blast
    from OpNode.IH[OF c(1) x] have "p \<in> set (tree_ids x)" .
    with c(1) x(1) show ?thesis by auto
  qed
qed

lemma allocated_same:
  "allocated s \<Longrightarrow> root s' = root s \<Longrightarrow> length (ops s') = length (ops s) \<Longrightarrow> allocated s'"
  by (simp add: allocated_def)

lemma attached_same: "attached s L \<Longrightarrow> root s' = root s \<Longrightarrow> attached s' L"
  by (simp add: attached_def)

lemma has_name_old:
  "ops s' = ops s @ xs \<Longrightarrow> i < length (ops s) \<Longrightarrow> has_name s' n i = has_name s n i"
  by (simp add: has_name_def get_op_old)

lemma getResultTypes_nth:
  "i < length (ops s) \<Longrightarrow> ops s ! i = Some d \<Longrightarrow> getResultTypes s i = op_result_types d"
  by (simp add: getResultTypes_def get_op_def)

lemma has_name_nth:
  "i < length (ops s) \<Longrightarrow> ops s ! i = Some d \<Longrightarrow> has_name s n i = (op_name d = n)"
  by (simp add: has_name_def get_op_def)

text \<open>The placeholders of the block of the launch function are those of the block before
  \<^verbatim>\<open>BuildCompileOp\<close>.\<close>

lemma placeholders_after_compile:
  assumes b: "BuildCompileOp ext L num_replicas num_cores compilation_device
                xla_device_assignment s = Some (Inr c, s1)"
    and lf: "get_op s L = Some lf"
    and ip: "ip s = BeforeOp L" and al: "allocated s" and at: "attached s L"
    and blk: "getBlock s1 L = Some block1"
  shows "\<exists>block. getBlock s L = Some block \<and>
     filter (has_name s1 kCompilationResultOp) block1 =
       filter (has_name s kCompilationResultOp) block \<and>
     (\<forall>p\<in>set block. getResultTypes s1 p = getResultTypes s p)"
proof -
  let ?dyn = "filter (\<lambda>v. \<not> IsFullyDefined (arg_shape_of (val_type v))) (op_operands lf)"
  let ?n = "length (ops s)"
  let ?k = "length ?dyn"
  let ?P = "has_name s1 kCompilationResultOp"
  let ?mk = "\<lambda>v. Some \<lparr>op_name = kShapeOp, op_operands = [v],
                        op_result_types = [shape_op_type], op_attrs = []\<rparr>"
  let ?t1 = "fold (\<lambda>i. insert_before L (OpNode i [])) [?n..<?n + ?k] (root s)"
  from BuildCompileOp_success[OF b lf] obtain C CL CR where
    o: "ops s1 = ops s @ map ?mk ?dyn @ [Some C, Some CL, Some CR]"
    and names: "op_name C = kCompileOp" "op_name CL = kLaunchOp" "op_name CR = kReturnOp"
    and c: "c = Suc (?n + ?k)"
    by fastforce
  from BuildCompileOp_root[OF b lf ip al at]
  have r: "root s1 = insert_before L (OpNode c [[OpNode (c - 1) [], OpNode (Suc c) []]]) ?t1"
    by simp
  have Ln: "L < ?n" by (rule attached_less[OF al at])
  have o': "ops s1 = ops s @ (map ?mk ?dyn @ [Some C, Some CL, Some CR])" using o by simp
  have shape: "\<not> ?P i" if "i \<in> set [?n..<?n + ?k]" for i
  proof -
    from that have i: "?n \<le> i" "i - ?n < ?k" by auto
    have "ops s1 ! i = ?mk (?dyn ! (i - ?n))"
      using i by (simp add: o nth_append)
    moreover have "i < length (ops s1)" using i by (simp add: o)
    ultimately show ?thesis by (simp add: has_name_def get_op_def k_defs)
  qed
  have cP: "\<not> ?P c"
  proof -
    have "ops s1 ! c = Some CL" by (simp add: o c nth_append)
    moreover have "c < length (ops s1)" by (simp add: o c)
    ultimately show ?thesis using names by (simp add: has_name_def get_op_def k_defs)
  qed
  have "map_option (filter ?P) (block_of L (root s1)) = map_option (filter ?P) (block_of L ?t1)"
    unfolding r
    by (rule block_of_insert_before) (use Ln c cP in auto)
  also have "\<dots> = map_option (filter ?P) (block_of L (root s))"
    by (rule fold_inserts_block) (use Ln shape in auto)
  finally have e: "map_option (filter ?P) (block_of L (root s)) = Some (filter ?P block1)"
    using blk by (simp add: getBlock_def)
  then obtain block where bl: "block_of L (root s) = Some block"
    and f: "filter ?P block = filter ?P block1"
    by (cases "block_of L (root s)") auto
  have old: "p < ?n" if "p \<in> set block" for p
  proof -
    from block_of_ids[OF bl] that have "p \<in> set (tl (tree_ids (root s)))" by blast
    then have "p \<in> set (tree_ids (root s))" by (simp add: tree_ids_split)
    then show ?thesis by (rule allocatedD[OF al])
  qed
  have "filter ?P block = filter (has_name s kCompilationResultOp) block"
    by (rule filter_cong) (simp_all add: has_name_old[OF o'] old)
  moreover have "\<forall>p\<in>set block. getResultTypes s1 p = getResultTypes s p"
    by (simp add: getResultTypes_old[OF o'] old)
  ultimately show ?thesis using bl f by (simp add: getBlock_def)
qed

lemma ip_irrelevant [simp]:
  "has_name (s\<lparr>ip := x\<rparr>) = has_name s"
  "getResultTypes (s\<lparr>ip := x\<rparr>) = getResultTypes s"
  "getBlock (s\<lparr>ip := x\<rparr>) = getBlock s"
  by (simp_all add: has_name_def getResultTypes_def getBlock_def fun_eq_iff)

lemma Rewrite_single:
  fixes s :: state
  defines "n0 \<equiv> length (ops s)"
  assumes r: "Rewrite ext L devices s = Some (Inr (), s')"
    and lf: "get_op s L = Some lf"
    and marker: "getStringAttr lf kTpuReplicateAttr = Some replicate_attr"
    and cores: "getIntegerAttr lf kNumCoresPerReplicaAttr = Some n"
    and single: "\<not> 1 < to_int32 n"
    and al: "allocated s" and at: "attached s L"
  defines "dyn \<equiv> filter (\<lambda>v. \<not> IsFullyDefined (arg_shape_of (val_type v))) (op_operands lf)"
  defines "k \<equiv> length dyn"
  shows "\<exists>R a block device upd txt_metadata txt_module.
     num_replicas_of s (getParentReplicate s L) = Inr R \<and>
     GetTPUCompilationAndExecutionDevices ext devices R (to_int32 n) = Inr a \<and>
     getBlock s L = Some block \<and>
     (case getParentReplicate s L of
        None \<Rightarrow> upd = id \<and> da_execution_devices a \<noteq> [] \<and> hd (da_execution_devices a) \<noteq> [] \<and>
                 device = hd (hd (da_execution_devices a))
      | Some rep \<Rightarrow>
          rep < n0 \<and> [] \<notin> set (da_execution_devices a) \<and>
          device = GetDeviceAliasForLogicalCore ext 0 \<and>
          upd = (\<lambda>xs. xs[rep := map_option (\<lambda>d. d\<lparr>op_attrs := setAttr_list kDevicesAttr
                   (DictionaryAttr
                      [(GetDeviceAliasForLogicalCore ext 0,
                        ArrayAttr (map StringAttr (map hd (da_execution_devices a))))])
                   (op_attrs d)\<rparr>) (xs ! rep)])) \<and>
     ops s' =
       (map (map_option (map_operands (remap_results L (n0 + k + 7) (op_result_types lf))))
          (upd (map (map_option (map_operands
                  (redirect_placeholders s (filter (has_name s kCompilationResultOp) block)
                     (n0 + k + 1))))
                  (ops s @
                   map (\<lambda>v. Some \<lparr>op_name = kShapeOp, op_operands = [v],
                                   op_result_types = [shape_op_type], op_attrs = []\<rparr>) dyn @
                   [Some \<lparr>op_name = kCompileOp,
                          op_operands = map (\<lambda>j. OpResult (n0 + j) 0 shape_op_type) [0..<k],
                          op_result_types = [string_tensor_type, string_tensor_type],
                          op_attrs =
                            [(kMetadataAttr, StringAttr txt_metadata),
                             (kNumDynamicShapesAttr, IntegerAttr (int k)),
                             (kMlirModuleAttr, StringAttr txt_module)]\<rparr>,
                    Some \<lparr>op_name = kLaunchOp, op_operands = [],
                          op_result_types = [string_tensor_type, string_tensor_type],
                          op_attrs = [(kDeviceAttr, StringAttr (da_compilation_device a))]\<rparr>,
                    Some \<lparr>op_name = kReturnOp,
                          op_operands = results_of (n0 + k)
                            [string_tensor_type, string_tensor_type],
                          op_result_types = [], op_attrs = []\<rparr>]) @
                [Some \<lparr>op_name = kCompileSucceededAssertOp,
                       op_operands = [OpResult (n0 + k + 1) 0 string_tensor_type],
                       op_result_types = [], op_attrs = []\<rparr>,
                 Some \<lparr>op_name = kLaunchOp, op_operands = [], op_result_types = [],
                       op_attrs = [(kDeviceAttr, StringAttr (da_compilation_device a))]\<rparr>,
                 Some \<lparr>op_name = kReturnOp, op_operands = [], op_result_types = [],
                       op_attrs = []\<rparr>]) @
           [Some \<lparr>op_name = kExecuteOp,
                  op_operands =
                    map (redirect_placeholders s (filter (has_name s kCompilationResultOp) block)
                           (n0 + k + 1)) (op_operands lf) @
                    [OpResult (n0 + k + 1) 1 string_tensor_type],
                  op_result_types = op_result_types lf, op_attrs = []\<rparr>,
            Some \<lparr>op_name = kLaunchOp, op_operands = [], op_result_types = op_result_types lf,
                  op_attrs = [(kDeviceAttr, StringAttr device)]\<rparr>,
            Some \<lparr>op_name = kReturnOp,
                  op_operands = results_of (n0 + k + 6) (op_result_types lf),
                  op_result_types = [], op_attrs = []\<rparr>]))[L := None] \<and>
     root s' =
       remove_node L
         (insert_before L (wrapped (n0 + k + 6))
            (insert_before L (wrapped (n0 + k + 3))
               (insert_before L (wrapped (n0 + k))
                  (fold (\<lambda>i. insert_before L (OpNode i [])) [n0..<n0 + k] (root s))))) \<and>
     ip s' = BeforeOp L"
proof -
  let ?mk = "\<lambda>v. Some \<lparr>op_name = kShapeOp, op_operands = [v],
                        op_result_types = [shape_op_type], op_attrs = []\<rparr>"
  let ?s0 = "s\<lparr>ip := BeforeOp L\<rparr>"
  from Rewrite_success[OF r lf marker] cores obtain R a cl s1 block1 s2 s3 where
    nr: "num_replicas_of s (getParentReplicate s L) = Inr R"
    and dev: "GetTPUCompilationAndExecutionDevices ext devices R (to_int32 n) = Inr a"
    and b: "BuildCompileOp ext L R (to_int32 n) (da_compilation_device a)
              (da_xla_device_assignment a) ?s0 = Some (Inr cl, s1)"
    and blk1: "getBlock s1 L = Some block1"
    and red: "redirect_compilation_results (filter (has_name s1 kCompilationResultOp) block1)
                cl s1 = (Inr (), s2)"
    and asr: "BuildTPUCompileSucceededAssertOp cl (da_compilation_device a) s2 = (Inr (), s3)"
    and be: "build_execution ext L (to_int32 n) (da_execution_devices a)
               (getParentReplicate s L) cl s3 = (Inr (), s')"
    by auto
  have lf0: "get_op ?s0 L = Some lf" using lf by simp
  have ip0: "ip ?s0 = BeforeOp L" by simp
  have al0: "allocated ?s0" using al by (simp add: allocated_def)
  have at0: "attached ?s0 L" using at by (simp add: attached_def)
  have Ln: "L < n0" unfolding n0_def by (rule attached_less[OF al at])
  \<comment> \<open>the compile operation\<close>
  from BuildCompileOp_success[OF b lf0] obtain txt_metadata txt_module where
    o1: "ops s1 = ops s @ map ?mk dyn @
      [Some \<lparr>op_name = kCompileOp,
             op_operands = map (\<lambda>j. OpResult (n0 + j) 0 shape_op_type) [0..<k],
             op_result_types = [string_tensor_type, string_tensor_type],
             op_attrs =
               [(kMetadataAttr, StringAttr txt_metadata),
                (kNumDynamicShapesAttr, IntegerAttr (int k)),
                (kMlirModuleAttr, StringAttr txt_module)]\<rparr>,
       Some \<lparr>op_name = kLaunchOp, op_operands = [],
             op_result_types = [string_tensor_type, string_tensor_type],
             op_attrs = [(kDeviceAttr, StringAttr (da_compilation_device a))]\<rparr>,
       Some \<lparr>op_name = kReturnOp,
             op_operands = results_of (n0 + k) [string_tensor_type, string_tensor_type],
             op_result_types = [], op_attrs = []\<rparr>]"
    and cl: "cl = Suc (n0 + k)" and ip1: "ip s1 = BeforeOp L"
    unfolding n0_def dyn_def k_def by auto
  define created1 where "created1 = map ?mk dyn @
      [Some \<lparr>op_name = kCompileOp,
             op_operands = map (\<lambda>j. OpResult (n0 + j) 0 shape_op_type) [0..<k],
             op_result_types = [string_tensor_type, string_tensor_type],
             op_attrs =
               [(kMetadataAttr, StringAttr txt_metadata),
                (kNumDynamicShapesAttr, IntegerAttr (int k)),
                (kMlirModuleAttr, StringAttr txt_module)]\<rparr>,
       Some \<lparr>op_name = kLaunchOp, op_operands = [],
             op_result_types = [string_tensor_type, string_tensor_type],
             op_attrs = [(kDeviceAttr, StringAttr (da_compilation_device a))]\<rparr>,
       Some \<lparr>op_name = kReturnOp,
             op_operands = results_of (n0 + k) [string_tensor_type, string_tensor_type],
             op_result_types = [], op_attrs = []\<rparr>]"
  have o1': "ops s1 = ops s @ created1" using o1 by (simp add: created1_def)
  have len1: "length (ops s1) = n0 + k + 3" by (simp add: o1 n0_def k_def)
  from BuildCompileOp_root[OF b lf0 ip0 al0 at0]
  have r1: "root s1 = insert_before L (wrapped (n0 + k))
              (fold (\<lambda>i. insert_before L (OpNode i [])) [n0..<n0 + k] (root s))"
    and al1: "allocated s1" and at1: "attached s1 L"
    by (simp_all add: cl wrapped_def n0_def k_def dyn_def)
  have tcl: "getResultTypes s1 (Suc (n0 + k)) = [string_tensor_type, string_tensor_type]"
    by (simp add: getResultTypes_def get_op_def o1 cl nth_append n0_def k_def)
  \<comment> \<open>the placeholders\<close>
  from placeholders_after_compile[OF b lf0 ip0 al0 at0 blk1]
  have "\<exists>block. getBlock s L = Some block \<and>
     filter (has_name s1 kCompilationResultOp) block1 =
       filter (has_name s kCompilationResultOp) block \<and>
     (\<forall>p\<in>set block. getResultTypes s1 p = getResultTypes s p)"
    by simp
  then obtain block where
    blk: "getBlock s L = Some block"
    and ps: "filter (has_name s1 kCompilationResultOp) block1 =
             filter (has_name s kCompilationResultOp) block"
    and pt: "\<forall>p\<in>set block. getResultTypes s1 p = getResultTypes s p"
    by blast
  let ?ps = "filter (has_name s kCompilationResultOp) block"
  let ?sP = "redirect_placeholders s ?ps (n0 + k + 1)"
  have sP: "(\<lambda>v. if v \<in> (\<lambda>p. OpResult p 0 (getResultTypes s1 p ! 0)) ` set ?ps
                 then OpResult cl 0 (getResultTypes s1 cl ! 0) else v) = ?sP"
  proof -
    have "(\<lambda>p. OpResult p 0 (getResultTypes s1 p ! 0)) ` set ?ps =
          (\<lambda>p. OpResult p 0 (getResultTypes s p ! 0)) ` set ?ps"
      by (rule image_cong) (use pt in auto)
    then show ?thesis
      by (simp add: redirect_placeholders_def fun_eq_iff tcl cl)
  qed
  from redirect_compilation_results_result[OF red]
  have o2: "ops s2 = map (map_option (map_operands ?sP)) (ops s1)"
    and r2: "root s2 = root s1" and ip2: "ip s2 = BeforeOp L"
    unfolding ps sP using ip1 by simp_all
  have len2: "length (ops s2) = n0 + k + 3" using o2 len1 by simp
  have al2: "allocated s2" by (rule allocated_same[OF al1 r2]) (simp add: o2)
  have at2: "attached s2 L" by (rule attached_same[OF at1 r2])
  have tcl2: "getResultTypes s2 (Suc (n0 + k)) = [string_tensor_type, string_tensor_type]"
    using getResultTypes_mapped[OF o2] tcl by simp
  \<comment> \<open>the assert operation\<close>
  from BuildTPUCompileSucceededAssertOp_result[OF asr, of L] ip2 al2 at2
  have o3: "ops s3 = ops s2 @
      [Some \<lparr>op_name = kCompileSucceededAssertOp,
             op_operands = [OpResult (n0 + k + 1) 0 string_tensor_type],
             op_result_types = [], op_attrs = []\<rparr>,
       Some \<lparr>op_name = kLaunchOp, op_operands = [], op_result_types = [],
             op_attrs = [(kDeviceAttr, StringAttr (da_compilation_device a))]\<rparr>,
       Some \<lparr>op_name = kReturnOp, op_operands = [], op_result_types = [], op_attrs = []\<rparr>]"
    and ip3: "ip s3 = BeforeOp L"
    and r3: "root s3 = insert_before L (wrapped (n0 + k + 3)) (root s2)"
    and al3: "allocated s3" and at3: "attached s3 L"
    by (simp_all add: tcl2 cl len2 wrapped_def)
  define created3 where "created3 =
      [Some \<lparr>op_name = kCompileSucceededAssertOp,
             op_operands = [OpResult (n0 + k + 1) 0 string_tensor_type],
             op_result_types = [], op_attrs = []\<rparr>,
       Some \<lparr>op_name = kLaunchOp, op_operands = [], op_result_types = [],
             op_attrs = [(kDeviceAttr, StringAttr (da_compilation_device a))]\<rparr>,
       Some \<lparr>op_name = kReturnOp, op_operands = [], op_result_types = [], op_attrs = []\<rparr>]"
  have o3': "ops s3 = ops s2 @ created3" using o3 by (simp add: created3_def)
  have len3: "length (ops s3) = n0 + k + 6" using o3 len2 by simp
  have g3: "get_op s3 L = Some (map_operands ?sP lf)"
  proof -
    have "get_op s3 L = get_op s2 L" by (rule get_op_old[OF o3']) (use Ln len2 in simp)
    also have "\<dots> = map_option (map_operands ?sP) (get_op s1 L)" by (rule get_op_mapped[OF o2])
    also have "get_op s1 L = get_op s L"
      by (rule get_op_old[OF o1']) (use Ln in \<open>simp add: n0_def\<close>)
    finally show ?thesis using lf by simp
  qed
  have tcl3: "getResultTypes s3 (Suc (n0 + k)) = [string_tensor_type, string_tensor_type]"
    using getResultTypes_old[OF o3', of "Suc (n0 + k)"] tcl2 len2 by simp
  \<comment> \<open>the execute operation\<close>
  have rep: "rep < length (ops s3)" if "getParentReplicate s L = Some rep" for rep
  proof -
    from that have "parent_of L (root s) = Some rep"
      by (auto simp: getParentReplicate_def getParentOp_def split: option.splits if_splits)
    from allocatedD[OF al parent_of_ids[OF this]] show ?thesis using len3 n0_def by simp
  qed
  from build_execution_single[OF be single rep] obtain device s0 where
    s': "s' = erase L (replaceAllUsesWithOp L (Suc (length (ops s3)))
            (snd (WrapOpInLaunch (length (ops s3)) device
               (snd (create_op \<lparr>op_name = kExecuteOp,
                        op_operands = getOperands s3 L @
                          [OpResult cl 1 (getResultTypes s3 cl ! 1)],
                        op_result_types = getResultTypes s3 L, op_attrs = []\<rparr> 0 s0)))))"
    and cs: "case getParentReplicate s L of
        None \<Rightarrow> s0 = s3 \<and> da_execution_devices a \<noteq> [] \<and> hd (da_execution_devices a) \<noteq> [] \<and>
                 device = hd (hd (da_execution_devices a))
      | Some rep \<Rightarrow>
          [] \<notin> set (da_execution_devices a) \<and> device = GetDeviceAliasForLogicalCore ext 0 \<and>
          s0 = setAttr rep kDevicesAttr
                 (DictionaryAttr
                    [(GetDeviceAliasForLogicalCore ext 0,
                      ArrayAttr (map StringAttr (map hd (da_execution_devices a))))]) s3"
    by blast
  define upd :: "op_data option list \<Rightarrow> op_data option list" where
    "upd = (case getParentReplicate s L of
        None \<Rightarrow> id
      | Some rep \<Rightarrow> (\<lambda>xs. xs[rep := map_option (\<lambda>d. d\<lparr>op_attrs := setAttr_list kDevicesAttr
                   (DictionaryAttr
                      [(GetDeviceAliasForLogicalCore ext 0,
                        ArrayAttr (map StringAttr (map hd (da_execution_devices a))))])
                   (op_attrs d)\<rparr>) (xs ! rep)]))"
  have s0a: "root s0 = root s3" "ip s0 = ip s3" "ops s0 = upd (ops s3)"
           "length (ops s0) = length (ops s3)"
    using cs rep
    by (auto simp: upd_def setAttr_def get_op_def split: option.splits)
  have s0b: "getResultTypes s0 L = getResultTypes s3 L"
    using cs by (auto split: option.splits)
  note s0 = s0a s0b
  have al0': "allocated s0" by (rule allocated_same[OF al3 s0(1) s0(4)])
  have at0': "attached s0 L" by (rule attached_same[OF at3 s0(1)])
  have ip0': "ip s0 = BeforeOp L" using s0(2) ip3 by simp
  define E where "E = \<lparr>op_name = kExecuteOp,
                  op_operands = map ?sP (op_operands lf) @
                    [OpResult (n0 + k + 1) 1 string_tensor_type],
                  op_result_types = op_result_types lf, op_attrs = []\<rparr>"
  have E: "\<lparr>op_name = kExecuteOp,
            op_operands = getOperands s3 L @ [OpResult cl 1 (getResultTypes s3 cl ! 1)],
            op_result_types = getResultTypes s3 L, op_attrs = []\<rparr> = E"
    using tcl3 by (simp add: E_def getOperands_def g3 cl) (simp add: getResultTypes_def g3)
  define s5 where "s5 = snd (WrapOpInLaunch (length (ops s0)) device (snd (create_op E 0 s0)))"
  have s'2: "s' = erase L (replaceAllUsesWithOp L (Suc (length (ops s3))) s5)"
    using s' unfolding E s5_def s0(4) .
  have o5: "ops s5 = upd (ops s3) @
     [Some E,
      Some \<lparr>op_name = kLaunchOp, op_operands = [], op_result_types = op_result_types lf,
            op_attrs = [(kDeviceAttr, StringAttr device)]\<rparr>,
      Some \<lparr>op_name = kReturnOp,
            op_operands = results_of (n0 + k + 6) (op_result_types lf),
            op_result_types = [], op_attrs = []\<rparr>]"
    unfolding s5_def create_wrap_ops s0(3)[symmetric]
    by (simp add: E_def s0(4) len3)
  have r5: "root s5 = insert_before L (wrapped (n0 + k + 6)) (root s3)"
    unfolding s5_def create_wrap_root[OF ip0' al0' at0']
    by (simp add: wrapped_def s0(1) s0(4) len3)
  have ip5: "ip s5 = BeforeOp L"
    unfolding s5_def by (simp add: ip0')
  have tL: "getResultTypes s5 L = op_result_types lf"
  proof -
    have "getResultTypes s5 L = getResultTypes s0 L"
      by (rule getResultTypes_old[of _ s0, OF o5[unfolded s0(3)[symmetric]]])
         (use Ln len3 s0(4) in simp)
    then show ?thesis using s0(5) g3 by (simp add: getResultTypes_def)
  qed
  have tW: "getResultTypes s5 (Suc (length (ops s3))) = op_result_types lf"
    by (simp add: getResultTypes_def get_op_def o5 nth_append s0(3)[symmetric] s0(4) len3)
  let ?sL = "remap_results L (n0 + k + 7) (op_result_types lf)"
  let ?s6 = "replaceAllUsesWithOp L (Suc (length (ops s3))) s5"
  have W: "Suc (length (ops s3)) = n0 + k + 7" using len3 by simp
  have s6: "ops ?s6 = map (map_option (map_operands ?sL)) (ops s5)"
    "root ?s6 = root s5" "ip ?s6 = ip s5"
    unfolding W replaceAllUsesWithOp_def getResults_def tL tW[unfolded W] remap_results_def
    by (simp_all only: fold_replaceAllUsesWith)
  have "ops s' = (map (map_option (map_operands ?sL)) (ops s5))[L := None]"
    "root s' = remove_node L (root s5)" "ip s' = BeforeOp L"
    unfolding s'2 by (simp_all add: erase_def s6 ip5)
  then have fin: "ops s' = (map (map_option (map_operands ?sL))
            (upd (map (map_option (map_operands ?sP)) (ops s @ created1) @ created3) @
     [Some E,
      Some \<lparr>op_name = kLaunchOp, op_operands = [], op_result_types = op_result_types lf,
            op_attrs = [(kDeviceAttr, StringAttr device)]\<rparr>,
      Some \<lparr>op_name = kReturnOp,
            op_operands = results_of (n0 + k + 6) (op_result_types lf),
            op_result_types = [], op_attrs = []\<rparr>]))[L := None]"
    "root s' = remove_node L
         (insert_before L (wrapped (n0 + k + 6))
            (insert_before L (wrapped (n0 + k + 3))
               (insert_before L (wrapped (n0 + k))
                  (fold (\<lambda>i. insert_before L (OpNode i [])) [n0..<n0 + k] (root s)))))"
    "ip s' = BeforeOp L"
    by (simp_all only: o5 o3' o2 o1' r5 r3 r2 r1)
  have c: "case getParentReplicate s L of
        None \<Rightarrow> upd = id \<and> da_execution_devices a \<noteq> [] \<and> hd (da_execution_devices a) \<noteq> [] \<and>
                 device = hd (hd (da_execution_devices a))
      | Some rep \<Rightarrow>
          rep < n0 \<and> [] \<notin> set (da_execution_devices a) \<and>
          device = GetDeviceAliasForLogicalCore ext 0 \<and>
          upd = (\<lambda>xs. xs[rep := map_option (\<lambda>d. d\<lparr>op_attrs := setAttr_list kDevicesAttr
                   (DictionaryAttr
                      [(GetDeviceAliasForLogicalCore ext 0,
                        ArrayAttr (map StringAttr (map hd (da_execution_devices a))))])
                   (op_attrs d)\<rparr>) (xs ! rep)])"
  proof (cases "getParentReplicate s L")
    case None
    then show ?thesis using cs by (simp add: upd_def)
  next
    case (Some rep)
    then have "parent_of L (root s) = Some rep"
      by (auto simp: getParentReplicate_def getParentOp_def split: option.splits if_splits)
    from allocatedD[OF al parent_of_ids[OF this]] have "rep < n0" by (simp add: n0_def)
    then show ?thesis using cs Some by (simp add: upd_def)
  qed
  show ?thesis
    apply (rule exI[of _ R], rule exI[of _ a], rule exI[of _ block], rule exI[of _ device],
        rule exI[of _ upd], rule exI[of _ txt_metadata], rule exI[of _ txt_module])
    using nr dev blk c fin unfolding created1_def created3_def E_def
    by (intro conjI) assumption+
qed





lemma redirect_placeholders_hit:
  "p \<in> set ps \<Longrightarrow>
   redirect_placeholders s ps c (OpResult p 0 (getResultTypes s p ! 0)) =
     OpResult c 0 string_tensor_type"
  by (auto simp: redirect_placeholders_def)

lemma redirect_placeholders_notin:
  "c \<notin> set ps \<Longrightarrow> p \<in> set ps \<Longrightarrow>
   redirect_placeholders s ps c v \<noteq> OpResult p 0 (getResultTypes s p ! 0)"
  by (auto simp: redirect_placeholders_def)

lemma node_id_fold_inserts [simp]:
  "node_id (fold (\<lambda>i. insert_before L (OpNode i [])) js t) = node_id t"
  by (induction js arbitrary: t) simp_all


lemma Rewrite_steps:
  assumes "get_op s L = Some lf"
    and "getStringAttr lf kTpuReplicateAttr = Some replicate_attr"
    and "num_replicas_of s (getParentReplicate s L) = Inr R"
    and "getIntegerAttr lf kNumCoresPerReplicaAttr = Some n"
    and "GetTPUCompilationAndExecutionDevices ext devices R (to_int32 n) = Inr a"
    and "BuildCompileOp ext L R (to_int32 n) (da_compilation_device a)
           (da_xla_device_assignment a) (s\<lparr>ip := BeforeOp L\<rparr>) = Some (Inr c, s1)"
    and "getBlock s1 L = Some block"
    and "redirect_compilation_results (filter (has_name s1 kCompilationResultOp) block) c s1 =
           (Inr (), s2)"
    and "BuildTPUCompileSucceededAssertOp c (da_compilation_device a) s2 = (Inr (), s3)"
  shows "Rewrite ext L devices s =
           Some (build_execution ext L (to_int32 n) (da_execution_devices a)
                   (getParentReplicate s L) c s3)"
  by (simp add: Rewrite_def assms)

lemma fully_defined_static: "IsFullyDefined (arg_shape_of t) = has_static_shape t"
  by (auto simp: IsFullyDefined_def arg_shape_of_def has_static_shape_def list_all_iff
        list_ex_iff not_less split: mtype.splits)

lemma map_of_setAttr_list:
  "map_of (setAttr_list n a kvs) x = (if x = n then Some a else map_of kvs x)"
  by (induction kvs) auto

subsection \<open>More than one core per replica\<close>

lemma parallel_regions_loop_results:
  "parallel_regions_loop cores p c L il s = (Inr u, s') \<Longrightarrow> c < length (ops s) \<Longrightarrow>
   core \<in> set cores \<Longrightarrow> 1 + core < length (getResultTypes s c)"
proof (induction cores arbitrary: s)
  case Nil
  then show ?case by simp
next
  case (Cons core0 cores)
  let ?s0 = "s\<lparr>ip := EndOfBlock p core0\<rparr>"
  from Cons.prems(1) obtain program where
    g: "getResult s c (1 + core0) = Inr program"
    by (auto split: sum.splits)
  let ?d = "\<lparr>op_name = kExecuteOp, op_operands = il ! core0 @ [program],
            op_result_types = getResultTypes ?s0 L, op_attrs = []\<rparr>"
  let ?s1 = "snd (create_op ?d 0 ?s0)"
  let ?s2 = "snd (WrapOpInLaunch (length (ops s)) [] ?s1)"
  let ?s3 = "snd (create_op \<lparr>op_name = kReturnOp,
                 op_operands = getResults ?s2 (fst (WrapOpInLaunch (length (ops s)) [] ?s1)),
                 op_result_types = [], op_attrs = []\<rparr> 0 ?s2)"
  have rec: "parallel_regions_loop cores p c L il ?s3 = (Inr u, s')"
    using Cons.prems(1) g
    by (simp add: BuildExecuteOp_def case_prod_unfold del: One_nat_def)
  have o1: "ops ?s1 = ops s @ [Some ?d]" by simp
  have o2: "ops ?s2 = ops ?s1 @
     [Some \<lparr>op_name = kLaunchOp, op_operands = [],
            op_result_types = getResultTypes ?s1 (length (ops s)),
            op_attrs = [(kDeviceAttr, StringAttr [])]\<rparr>,
      Some \<lparr>op_name = kReturnOp,
            op_operands = results_of (length (ops s)) (getResultTypes ?s1 (length (ops s))),
            op_result_types = [], op_attrs = []\<rparr>]"
    by (rule WrapOpInLaunch_ops) simp
  have o3: "ops ?s3 = ops s @ ([Some ?d] @
     [Some \<lparr>op_name = kLaunchOp, op_operands = [],
            op_result_types = getResultTypes ?s1 (length (ops s)),
            op_attrs = [(kDeviceAttr, StringAttr [])]\<rparr>,
      Some \<lparr>op_name = kReturnOp,
            op_operands = results_of (length (ops s)) (getResultTypes ?s1 (length (ops s))),
            op_result_types = [], op_attrs = []\<rparr>,
      Some \<lparr>op_name = kReturnOp,
                 op_operands = getResults ?s2 (fst (WrapOpInLaunch (length (ops s)) [] ?s1)),
                 op_result_types = [], op_attrs = []\<rparr>])"
    unfolding create_op_ops o2 o1 by simp
  have t: "getResultTypes ?s3 c = getResultTypes s c"
    by (rule getResultTypes_old[OF o3 Cons.prems(2)])
  show ?case
  proof (cases "core = core0")
    case True
    then show ?thesis using getResult_Inr[OF g] by simp
  next
    case False
    then have mem: "core \<in> set cores" using Cons.prems(3) by simp
    have l3: "c < length (ops ?s3)" unfolding o3 using Cons.prems(2) by simp
    have "1 + core < length (getResultTypes ?s3 c)"
      by (rule Cons.IH[OF rec l3 mem])
    then show ?thesis by (simp only: t)
  qed
qed

lemma Rewrite_parallel_fails:
  assumes r: "Rewrite ext L devices s = Some (Inr (), s')"
    and lf: "get_op s L = Some lf"
    and marker: "getStringAttr lf kTpuReplicateAttr = Some replicate_attr"
    and cores: "getIntegerAttr lf kNumCoresPerReplicaAttr = Some n"
  shows "\<not> 1 < to_int32 n"
proof
  assume par: "1 < to_int32 n"
  let ?s0 = "s\<lparr>ip := BeforeOp L\<rparr>"
  from Rewrite_success[OF r lf marker] cores
  obtain R and a :: TPUDeviceAssignment and cl s1 block1 s2 s3 where
    b: "BuildCompileOp ext L R (to_int32 n) (da_compilation_device a)
              (da_xla_device_assignment a) ?s0 = Some (Inr cl, s1)"
    and red: "redirect_compilation_results (filter (has_name s1 kCompilationResultOp) block1)
                cl s1 = (Inr (), s2)"
    and asr: "BuildTPUCompileSucceededAssertOp cl (da_compilation_device a) s2 = (Inr (), s3)"
    and be: "build_execution ext L (to_int32 n) (da_execution_devices a)
               (getParentReplicate s L) cl s3 = (Inr (), s')"
    by auto
  have lf0: "get_op ?s0 L = Some lf" using lf by simp
  from BuildCompileOp_success[OF b lf0] obtain pre C where
    o1: "ops s1 = pre @
      [Some C,
       Some \<lparr>op_name = kLaunchOp, op_operands = [],
             op_result_types = [string_tensor_type, string_tensor_type],
             op_attrs = [(kDeviceAttr, StringAttr (da_compilation_device a))]\<rparr>,
       Some \<lparr>op_name = kReturnOp,
             op_operands = results_of (length pre) [string_tensor_type, string_tensor_type],
             op_result_types = [], op_attrs = []\<rparr>]"
    and cl: "cl = Suc (length pre)"
    apply (elim exE conjE)
    subgoal premises p for metadata txt_metadata txt_module
      by (rule that[of "ops s @ map (\<lambda>v. Some \<lparr>op_name = kShapeOp, op_operands = [v],
                      op_result_types = [shape_op_type], op_attrs = []\<rparr>)
        (filter (\<lambda>v. \<not> IsFullyDefined (arg_shape_of (val_type v))) (op_operands lf))"])
         (simp_all add: p)
    done
  have t1: "getResultTypes s1 cl = [string_tensor_type, string_tensor_type]"
    and l1: "cl < length (ops s1)"
    by (simp_all add: getResultTypes_def get_op_def o1 cl nth_append)
  from redirect_compilation_results_result[OF red] obtain f where
    o2: "ops s2 = map (map_option (map_operands f)) (ops s1)" by blast
  have t2: "getResultTypes s2 cl = [string_tensor_type, string_tensor_type]"
    using getResultTypes_mapped[OF o2] t1 by simp
  have l2: "cl < length (ops s2)" using l1 o2 by simp
  from BuildTPUCompileSucceededAssertOp_result[OF asr, of L] obtain xs where
    o3: "ops s3 = ops s2 @ xs" by blast
  have t3: "getResultTypes s3 cl = [string_tensor_type, string_tensor_type]"
    using getResultTypes_old[OF o3 l2] t2 by simp
  have l3: "cl < length (ops s3)" using l2 o3 by simp
  let ?pd = "\<lparr>op_name = kParallelExecuteOp, op_operands = [],
              op_result_types =
                concat (replicate (nat (to_int32 n)) (getResultTypes s3 L)),
              op_attrs = []\<rparr>"
  let ?s4 = "snd (create_op ?pd (nat (to_int32 n)) s3)"
  let ?loop = "parallel_regions_loop [0..<nat (to_int32 n)] (length (ops s3)) cl L
             (ExtractInputsForLogicalDevices ext (to_int32 n) ?s4 L) ?s4"
  have "fst ?loop = Inr ()"
    using be par
    by (auto simp: build_execution_def BuildParallelExecuteOp_def case_prod_unfold
          split: sum.splits if_splits prod.splits)
  then have loop: "?loop = (Inr (), snd ?loop)"
    by (simp add: prod_eq_iff)
  have o4: "ops ?s4 = ops s3 @ [Some ?pd]" by simp
  have "1 \<in> set [0..<nat (to_int32 n)]" using par by auto
  from parallel_regions_loop_results[OF loop _ this]
  have "1 + 1 < length (getResultTypes ?s4 cl)" using l3 by simp
  moreover have "getResultTypes ?s4 cl = getResultTypes s3 cl"
    by (rule getResultTypes_old[OF o4 l3])
  ultimately show False using t3 by simp
qed

lemma parallel_regions_loop_second:
  assumes "c < length (ops s)" "getResultTypes s c = [t0, t1]"
  shows "\<exists>s'. parallel_regions_loop (0 # 1 # cores) p c L il s =
           (Inl (InvalidResultNumber c 2), s')"
proof -
  let ?s0 = "s\<lparr>ip := EndOfBlock p 0\<rparr>"
  let ?program = "OpResult c 1 t1"
  have g: "getResult s c 1 = Inr ?program"
    by (simp add: getResult_def assms(2))
  let ?d = "\<lparr>op_name = kExecuteOp, op_operands = il ! 0 @ [?program],
            op_result_types = getResultTypes ?s0 L, op_attrs = []\<rparr>"
  let ?s1 = "snd (create_op ?d 0 ?s0)"
  let ?s2 = "snd (WrapOpInLaunch (length (ops s)) [] ?s1)"
  let ?s3 = "snd (create_op \<lparr>op_name = kReturnOp,
                 op_operands = getResults ?s2 (fst (WrapOpInLaunch (length (ops s)) [] ?s1)),
                 op_result_types = [], op_attrs = []\<rparr> 0 ?s2)"
  have step: "parallel_regions_loop (0 # 1 # cores) p c L il s =
      parallel_regions_loop (1 # cores) p c L il ?s3"
    by (subst parallel_regions_loop.simps(2))
       (simp add: g BuildExecuteOp_def case_prod_unfold
          del: One_nat_def parallel_regions_loop.simps)
  have o1: "ops ?s1 = ops s @ [Some ?d]" by simp
  have o2: "ops ?s2 = ops ?s1 @
     [Some \<lparr>op_name = kLaunchOp, op_operands = [],
            op_result_types = getResultTypes ?s1 (length (ops s)),
            op_attrs = [(kDeviceAttr, StringAttr [])]\<rparr>,
      Some \<lparr>op_name = kReturnOp,
            op_operands = results_of (length (ops s)) (getResultTypes ?s1 (length (ops s))),
            op_result_types = [], op_attrs = []\<rparr>]"
    by (rule WrapOpInLaunch_ops) simp
  have o3: "ops ?s3 = ops s @ ([Some ?d] @
     [Some \<lparr>op_name = kLaunchOp, op_operands = [],
            op_result_types = getResultTypes ?s1 (length (ops s)),
            op_attrs = [(kDeviceAttr, StringAttr [])]\<rparr>,
      Some \<lparr>op_name = kReturnOp,
            op_operands = results_of (length (ops s)) (getResultTypes ?s1 (length (ops s))),
            op_result_types = [], op_attrs = []\<rparr>,
      Some \<lparr>op_name = kReturnOp,
                 op_operands = getResults ?s2 (fst (WrapOpInLaunch (length (ops s)) [] ?s1)),
                 op_result_types = [], op_attrs = []\<rparr>])"
    unfolding create_op_ops o2 o1 by simp
  have t: "getResultTypes ?s3 c = [t0, t1]"
    using getResultTypes_old[OF o3 assms(1)] assms(2) by simp
  have "getResult ?s3 c (1 + 1) = Inl (InvalidResultNumber c 2)"
    unfolding getResult_def t by simp
  then have "parallel_regions_loop (1 # cores) p c L il ?s3 =
      (Inl (InvalidResultNumber c 2), ?s3\<lparr>ip := EndOfBlock p 1\<rparr>)"
    by (simp del: One_nat_def)
  with step show ?thesis by simp
qed

section \<open>Running the pass on the module\<close>

text \<open>The names of the operations and attributes are distinct.\<close>

lemma attr_names_distinct:
  "distinct [kNumCoresPerReplicaAttr, kStepMarkerLocationAttr, kPaddingMapAttr, kDeviceAttr,
     kDevicesAttr, kVersionsAttr, kTpuReplicateAttr, kSymNameAttr, kFuncAttr, kMetadataAttr,
     kNumDynamicShapesAttr, kMlirModuleAttr, kReplicateNAttr, ex_input_sharding_attr,
     ex_output_sharding_attr, ex_callee_attr]"
  by (simp add: k_defs ex_defs)

lemma op_names_distinct:
  "distinct [kLaunchFuncOp, kLaunchOp, kReturnOp, kReplicateOp, kParallelExecuteOp, kShapeOp,
     kCompileOp, kCompileSucceededAssertOp, kExecuteOp, kCompilationResultOp, kFuncOp,
     kModuleOp, ex_call_op, ex_some_op, ex_return_op]"
  by (simp add: k_defs ex_defs)

lemmas names_neq = attr_names_distinct[simplified] op_names_distinct[simplified]
  attr_names_distinct[THEN distinct_rev[THEN iffD2], simplified]
  op_names_distinct[THEN distinct_rev[THEN iffD2], simplified]

lemma ex_proj:
  "op_name (ex_launch_func os sh n) = kLaunchFuncOp"
  "op_operands (ex_launch_func os sh n) = os"
  "op_result_types (ex_launch_func os sh n) = [ex_f32 [2]]"
  "op_attrs (ex_launch_func os sh n) =
        [(kTpuReplicateAttr, StringAttr ''cluster0''),
         (kNumCoresPerReplicaAttr, IntegerAttr n),
         (kStepMarkerLocationAttr, StringAttr []),
         (kPaddingMapAttr, ArrayAttr []),
         (ex_input_sharding_attr, ArrayAttr sh),
         (ex_output_sharding_attr, ArrayAttr [StringAttr ''o0'']),
         (kFuncAttr, FlatSymbolRefAttr ''tpu_func'')]"
  "op_name (ex_func f) = kFuncOp" "op_operands (ex_func f) = []"
  "op_result_types (ex_func f) = []" "op_attrs (ex_func f) = [(kSymNameAttr, StringAttr f)]"
  "op_name (ex_call f) = ex_call_op" "op_operands (ex_call f) = []"
  "op_result_types (ex_call f) = []" "op_attrs (ex_call f) = [(ex_callee_attr, FlatSymbolRefAttr f)]"
  "op_name ex_module = kModuleOp" "op_operands ex_module = []"
  "op_result_types ex_module = []" "op_attrs ex_module = [(kVersionsAttr, StringAttr ''producer 27'')]"
  "op_name ex_placeholder = kCompilationResultOp" "op_operands ex_placeholder = []"
  "op_result_types ex_placeholder = [string_tensor_type]"
  "op_attrs ex_placeholder = [(kTpuReplicateAttr, StringAttr ''cluster1'')]"
  "op_name ex_user = ex_some_op"
  "op_result_types ex_user = []" "op_attrs ex_user = []"
  "op_name ex_return = ex_return_op" "op_operands ex_return = []"
  "op_result_types ex_return = []" "op_attrs ex_return = []"
  "op_name ex_replicate = kReplicateOp" "op_operands ex_replicate = []"
  "op_result_types ex_replicate = [ex_f32 [2], ex_f32 [2]]"
  "op_attrs ex_replicate = [(kReplicateNAttr, IntegerAttr 2)]"
  by (simp_all add: ex_defs)

lemma ex_map_operands:
  "map_operands f (ex_func n) = ex_func n"
  "map_operands f (ex_call n) = ex_call n"
  "map_operands f ex_module = ex_module"
  "map_operands f ex_placeholder = ex_placeholder"
  "map_operands f ex_return = ex_return"
  "map_operands f ex_replicate = ex_replicate"
  by (simp_all add: map_operands_def ex_defs)

lemma ex_types:
  "ex_convert (ex_f32 sh) = Inr (DT_VALUE 1)"
  "arg_shape_of (ex_f32 sh) = \<lparr>shape_dim = sh, unknown_rank = False\<rparr>"
  by (simp_all add: ex_defs arg_shape_of_def)

lemma ex_ext_proj:
  "kInputShardingAttr ex_ext = ex_input_sharding_attr"
  "kOutputShardingAttr ex_ext = ex_output_sharding_attr"
  "tpu_compile_metadata_debug ex_ext = False"
  "ConvertToDataType ex_ext = ex_convert"
  "StepMarkerLocation_Parse ex_ext = (\<lambda>v. if v = ''STEP_MARK_AT_ENTRY'' then Some STEP_MARK_AT_ENTRY
               else if v = ''STEP_MARK_AT_TOP_LEVEL_WHILE_LOOP'' then Some (STEP_MARK_OTHER 1)
               else None)"
  "PaddingMap_ParseFromString ex_ext = (\<lambda>v. if v = ''bad'' then None else Some (PaddingMap v))"
  "OpSharding_ParseFromString ex_ext = (\<lambda>v. if v = ''bad'' then None else Some (OpSharding v))"
  "DebugString ex_ext = (\<lambda>m. ''metadata'')"
  "SerializeToString ex_ext = (\<lambda>m. ''metadata'')"
  "print_module ex_ext = (\<lambda>m. concat (map cloned_name (dm_funcs m)))"
  "GetDevicesFromOp ex_ext = (\<lambda>s. Some [''/device:CPU:0'', ''/device:TPU:0'', ''/device:TPU:1''])"
  "GetTPUCompilationAndExecutionDevices ex_ext = (\<lambda>devices num_replicas num_cores.
           Inr \<lparr>da_compilation_device = ''/device:CPU:0'',
                da_execution_devices =
                  map (\<lambda>r. replicate (nat num_cores) (''/device:TPU:'' @ to_string r))
                      [0..<nat num_replicas],
                da_xla_device_assignment = None\<rparr>)"
  "ExtractInputsForLogicalDevices ex_ext = (\<lambda>num_cores s launch_func. replicate (nat num_cores) (getOperands s launch_func))"
  "GetDeviceAliasForLogicalCore ex_ext = (\<lambda>core. ''TPU_REPLICATED_CORE_0'')"
  by (simp_all add: ex_ext_def)

lemmas ex_state_defs = ex_proj ex_map_operands ex_types ex_ext_proj
  ex_operands_def ex_shardings_def ex_funcs_def
  ex_func_trees_def ex_user_def ex_state_def ex_replicated_state_def 

lemmas model_defs = Rewrite_def build_execution_def BuildCompileOp_def
  SetMetadataProtoFromLaunchFuncOp_def SetMetadataProtoStepMarkerLocation_def
  SetMetadataProtoPaddingMap_def SetMetadataProtoRetvals_def SetMetadataProtoArgs_def
  SetOpSharding_def arg_kind_of_def IsFullyDefined_def empty_metadata_def
  EncapsulateFuncAndSerialize_def EncapsulateFunc_def clone_referenced.simps
  unique_symbol_name.simps symbol_table_insert_def rename_entry_def referenced_funcs_def
  getSymbolUses_def lookupFunc_def module_body_def getName_def List.map_filter_def
  WrapOpInLaunch_def create_op_def moveBefore_def BuildExecuteOp_def
  BuildParallelExecuteOp_def RemapOutputsOfParallelExecute_def
  AssignDevicesToReplicatedExecute_def BuildTPUCompileSucceededAssertOp_def
  getOperands_def getParentReplicate_def num_replicas_of_def getParentOp_def getBlock_def
  get_op_def has_name_def getResultTypes_def results_of_def getResults_def getResult_def
  replaceAllUsesWith_def replaceAllUsesWithOp_def setAttr_def erase_def subst_val_def
  map_operands_def append_in_region_def 
  to_int32_1 to_string.simps runOnModule_def

lemmas ex_stage_defs = ex_shape_op_def ex_compile_op_def ex_launch_def ex_device_return_def
  ex_assert_op_def ex_execute_op_def ex_user_of_def ex_compile_ops_def ex_assert_ops_def
  ex_execute_ops_def ex_compile_tree_def ex_assert_tree_def ex_execute_tree_def
  ex_module_with_def ex_compiled_def ex_redirected_def ex_asserted_def ex_rewritten_def

lemma ex_state_ip:
  "(ex_state launch)\<lparr>ip := BeforeOp 3\<rparr> =
   ex_module_with (Some launch) ex_user [] [OpNode 2 [], OpNode 3 [], OpNode 4 [], OpNode 5 []]"
  by (simp add: ex_state_def ex_module_with_def)

lemma ex_stage_compile_any:
  "BuildCompileOp ex_ext 3 r c ''/device:CPU:0'' None
     (ex_module_with (Some (ex_launch_func ex_operands ex_shardings m)) ex_user []
        [OpNode 2 [], OpNode 3 [], OpNode 4 [], OpNode 5 []]) =
   Some (Inr 14, ex_compiled (ex_launch_func ex_operands ex_shardings m))"
  by (simp add: model_defs attr_defs ex_state_defs names_neq ex_stage_defs shape_op_type_def
        string_tensor_type_def
      del: create_op_fst create_op_ops create_op_ip WrapOpInLaunch_fst WrapOpInLaunch_ip
        moveBefore_ops moveBefore_ip)


lemma fully_defined_type:
  "IsFullyDefined (arg_shape_of t) \<longleftrightarrow>
     (case t of RankedTensorType shape e \<Rightarrow> \<not> list_ex (\<lambda>d. d < 0) shape
      | UnrankedTensorType e \<Rightarrow> False | OtherType e \<Rightarrow> False)"
  by (auto simp: IsFullyDefined_def arg_shape_of_def list_all_iff list_ex_iff not_less
        split: mtype.splits)

lemma ex_types_unranked:
  "ex_convert (UnrankedTensorType ''f32'') = Inr (DT_VALUE 1)"
  "arg_shape_of (UnrankedTensorType e) = \<lparr>shape_dim = [], unknown_rank = True\<rparr>"
  by (simp_all add: ex_defs arg_shape_of_def)

lemma ex_stage_compile_unranked:
  "BuildCompileOp ex_ext 3 1 1 ''/device:CPU:0'' None
     ((ex_state ex_unranked_launch_func)\<lparr>ip := BeforeOp 3\<rparr>) =
   Some (Inr 15, ex_compiled_unranked)"
  by (simp add: model_defs attr_defs ex_state_defs names_neq ex_stage_defs shape_op_type_def
        string_tensor_type_def ex_unranked_launch_func_def ex_shape_probe_def
        ex_compile_unranked_def ex_compiled_unranked_def ex_operands3_def ex_shardings3_def
        ex_types_unranked
      del: create_op_fst create_op_ops create_op_ip WrapOpInLaunch_fst WrapOpInLaunch_ip
        moveBefore_ops moveBefore_ip)

lemma ex_no_replicate: "getParentReplicate (ex_state l) 3 = None"
  by (simp add: getParentReplicate_def getParentOp_def ex_state_def ex_func_trees_def
        has_name_def get_op_def ex_funcs_def ex_proj names_neq)


lemma ex_block: "getBlock (ex_compiled l) 3 = Some [2, 12, 14, 3, 4, 5]"
  by (simp add: getBlock_def ex_stage_defs ex_func_trees_def)

lemma ex_placeholders:
  "filter (has_name (ex_compiled l) kCompilationResultOp) [2, 12, 14, 3, 4, 5] =
     (if op_name l = kCompilationResultOp then [2, 3] else [2])"
  by (simp add: has_name_def get_op_def ex_stage_defs ex_funcs_def ex_proj names_neq ex_user_def)

lemma ex_stage_redirect:
  "redirect_compilation_results [2] 14 (ex_compiled (ex_launch_func ex_operands sh n)) =
     (Inr (), ex_redirected (ex_launch_func ex_operands sh n))"
  by (simp add: getResult_def getResultTypes_def get_op_def replaceAllUsesWith_def
        subst_val_def ex_stage_defs ex_funcs_def ex_proj ex_map_operands ex_user_def
        map_operands_def string_tensor_type_def shape_op_type_def ex_launch_func_def
        ex_operands_def)

lemma ex_stage_assert:
  "BuildTPUCompileSucceededAssertOp 14 ''/device:CPU:0'' (ex_redirected l) =
     (Inr (), ex_asserted l)"
  by (simp add: BuildTPUCompileSucceededAssertOp_def getResult_def getResultTypes_def get_op_def
        WrapOpInLaunch_def create_op_def moveBefore_def getResults_def results_of_def
        ex_stage_defs ex_funcs_def ex_func_trees_def append_in_region_def
      del: create_op_fst create_op_ops create_op_ip WrapOpInLaunch_fst WrapOpInLaunch_ip
        moveBefore_ops moveBefore_ip)




lemmas ex_replicated_defs = ex_replicated_with_def ex_replicate_assigned_def
  ex_replicated_rewritten_def

lemma ex_replicated_ip:
  "ex_replicated_state\<lparr>ip := BeforeOp 3\<rparr> =
   ex_replicated_with (Some (ex_launch_func ex_operands ex_shardings 1)) ex_user ex_replicate []
     [OpNode 2 [], OpNode 3 [], OpNode 4 []]"
  by (simp add: ex_replicated_state_def ex_replicated_with_def)

lemma ex_replicated_compile:
  "BuildCompileOp ex_ext 3 2 1 ''/device:CPU:0'' None
     (ex_replicated_with (Some (ex_launch_func ex_operands ex_shardings 1)) ex_user ex_replicate []
        [OpNode 2 [], OpNode 3 [], OpNode 4 []]) =
   Some (Inr 14,
     ex_replicated_with (Some (ex_launch_func ex_operands ex_shardings 1)) ex_user ex_replicate
       ex_compile_ops (OpNode 2 [] # ex_compile_tree @ [OpNode 3 [], OpNode 4 []]))"
  by (simp add: model_defs attr_defs ex_state_defs names_neq ex_stage_defs shape_op_type_def
        string_tensor_type_def ex_replicated_defs
      del: create_op_fst create_op_ops create_op_ip WrapOpInLaunch_fst WrapOpInLaunch_ip
        moveBefore_ops moveBefore_ip)

lemma ex_replicated_parent: "getParentReplicate ex_replicated_state 3 = Some 5"
  by (simp add: getParentReplicate_def getParentOp_def ex_replicated_state_def ex_func_trees_def
        has_name_def get_op_def ex_funcs_def ex_proj names_neq)

lemma ex_replicated_devices:
  "GetTPUCompilationAndExecutionDevices ex_ext devices 2 1 =
     Inr \<lparr>da_compilation_device = ''/device:CPU:0'',
          da_execution_devices = [[''/device:TPU:0''], [''/device:TPU:1'']],
          da_xla_device_assignment = None\<rparr>"
  by (simp add: ex_ext_proj to_string.simps upt_rec numeral_2_eq_2)

lemma ex_replicated_block:
  "getBlock (ex_replicated_with l u r c
      (OpNode 2 [] # ex_compile_tree @ [OpNode 3 [], OpNode 4 []])) 3 = Some [2, 12, 14, 3, 4]"
  by (simp add: getBlock_def ex_stage_defs ex_func_trees_def ex_replicated_defs)

lemma ex_replicated_placeholders:
  "filter (has_name (ex_replicated_with (Some (ex_launch_func os sh n)) ex_user ex_replicate
       ex_compile_ops b) kCompilationResultOp) [2, 12, 14, 3, 4] = [2]"
  by (simp add: has_name_def get_op_def ex_stage_defs ex_funcs_def ex_proj names_neq ex_user_def
        ex_replicated_defs)

lemma ex_replicated_redirect:
  "redirect_compilation_results [2] 14
     (ex_replicated_with (Some (ex_launch_func ex_operands ex_shardings 1)) ex_user ex_replicate
        ex_compile_ops b) =
     (Inr (), ex_replicated_with (Some (ex_launch_func ex_operands ex_shardings 1))
        (ex_user_of (OpResult 3 0 (ex_f32 [2])) (OpResult 14 0 string_tensor_type)) ex_replicate
        ex_compile_ops b)"
  by (simp add: getResult_def getResultTypes_def get_op_def replaceAllUsesWith_def
        subst_val_def ex_stage_defs ex_funcs_def ex_proj ex_map_operands ex_user_def
        map_operands_def string_tensor_type_def shape_op_type_def ex_launch_func_def
        ex_operands_def ex_replicated_defs ex_replicate_def)

lemma ex_replicated_assert:
  "BuildTPUCompileSucceededAssertOp 14 ''/device:CPU:0''
     (ex_replicated_with l u r ex_compile_ops
        (OpNode 2 [] # ex_compile_tree @ [OpNode 3 [], OpNode 4 []])) =
     (Inr (), ex_replicated_with l u r (ex_compile_ops @ ex_assert_ops)
        (OpNode 2 [] # ex_compile_tree @ ex_assert_tree @ [OpNode 3 [], OpNode 4 []]))"
  by (simp add: BuildTPUCompileSucceededAssertOp_def getResult_def getResultTypes_def get_op_def
        WrapOpInLaunch_def create_op_def moveBefore_def getResults_def results_of_def
        ex_stage_defs ex_funcs_def ex_func_trees_def append_in_region_def ex_replicated_defs
      del: create_op_fst create_op_ops create_op_ip WrapOpInLaunch_fst WrapOpInLaunch_ip
        moveBefore_ops moveBefore_ip)

lemma ex_replicated_execute:
  "build_execution ex_ext 3 1 [[''/device:TPU:0''], [''/device:TPU:1'']] (Some 5) 14
     (ex_replicated_with (Some (ex_launch_func ex_operands ex_shardings 1))
        (ex_user_of (OpResult 3 0 (ex_f32 [2])) (OpResult 14 0 string_tensor_type)) ex_replicate
        (ex_compile_ops @ ex_assert_ops)
        (OpNode 2 [] # ex_compile_tree @ ex_assert_tree @ [OpNode 3 [], OpNode 4 []])) =
   (Inr (), ex_replicated_rewritten)"
proof -
  let ?lf = "ex_launch_func ex_operands ex_shardings 1"
  let ?u = "ex_user_of (OpResult 3 0 (ex_f32 [2])) (OpResult 14 0 string_tensor_type)"
  let ?s3 = "ex_replicated_with (Some ?lf) ?u ex_replicate (ex_compile_ops @ ex_assert_ops)
        (OpNode 2 [] # ex_compile_tree @ ex_assert_tree @ [OpNode 3 [], OpNode 4 []])"
  let ?s4 = "ex_replicated_with (Some ?lf) ?u ex_replicate
       (ex_compile_ops @ ex_assert_ops @ [Some ex_execute_op])
       (OpNode 2 [] # ex_compile_tree @ ex_assert_tree @
        [OpNode 19 [], OpNode 3 [], OpNode 4 []])"
  let ?s4' = "ex_replicated_with (Some ?lf) ?u ex_replicate_assigned
       (ex_compile_ops @ ex_assert_ops @ [Some ex_execute_op])
       (OpNode 2 [] # ex_compile_tree @ ex_assert_tree @
        [OpNode 19 [], OpNode 3 [], OpNode 4 []])"
  let ?s5 = "ex_replicated_with (Some ?lf) ?u ex_replicate_assigned
       (ex_compile_ops @ ex_assert_ops @ ex_execute_ops ''TPU_REPLICATED_CORE_0'')
       (OpNode 2 [] # ex_compile_tree @ ex_assert_tree @ ex_execute_tree @
        [OpNode 3 [], OpNode 4 []])"
  let ?s6 = "ex_replicated_with (Some ?lf)
       (ex_user_of (OpResult 20 0 (ex_f32 [2])) (OpResult 14 0 string_tensor_type))
       ex_replicate_assigned
       (ex_compile_ops @ ex_assert_ops @ ex_execute_ops ''TPU_REPLICATED_CORE_0'')
       (OpNode 2 [] # ex_compile_tree @ ex_assert_tree @ ex_execute_tree @
        [OpNode 3 [], OpNode 4 []])"
  have lt: "\<not> (1::int) < 1" by simp
  have g: "getResult ?s3 14 1 = Inr (OpResult 14 1 string_tensor_type)"
    by (simp add: getResult_def getResultTypes_def get_op_def ex_stage_defs ex_funcs_def
          ex_replicated_defs)
  have o: "getOperands ?s3 3 = ex_operands"
    by (simp add: getOperands_def get_op_def ex_stage_defs ex_funcs_def ex_proj
          ex_replicated_defs)
  have b: "BuildExecuteOp (ex_operands @ [OpResult 14 1 string_tensor_type]) 3 ?s3 = (19, ?s4)"
    by (simp add: BuildExecuteOp_def create_op_def getResultTypes_def get_op_def
          ex_stage_defs ex_funcs_def ex_func_trees_def ex_proj ex_replicated_defs
        del: create_op_fst create_op_ops create_op_ip)
  have f: "fronts [[''/device:TPU:0''], [''/device:TPU:1'']] =
             Inr [''/device:TPU:0'', ''/device:TPU:1'']"
    by simp
  have al: "GetDeviceAliasForLogicalCore ex_ext 0 = ''TPU_REPLICATED_CORE_0''"
    by (simp add: ex_ext_proj)
  have sa: "setAttr 5 kDevicesAttr
              (DictionaryAttr [(''TPU_REPLICATED_CORE_0'',
                 ArrayAttr (map StringAttr [''/device:TPU:0'', ''/device:TPU:1'']))]) ?s4 = ?s4'"
    by (simp add: setAttr_def get_op_def ex_replicated_defs ex_funcs_def ex_stage_defs
          ex_replicate_def names_neq)
  have w: "WrapOpInLaunch 19 ''TPU_REPLICATED_CORE_0'' ?s4' = (20, ?s5)"
    by (simp add: WrapOpInLaunch_def create_op_def moveBefore_def getResults_def results_of_def
          getResultTypes_def get_op_def append_in_region_def
          ex_stage_defs ex_funcs_def ex_func_trees_def ex_replicated_with_def
        del: create_op_fst create_op_ops create_op_ip WrapOpInLaunch_fst WrapOpInLaunch_ip
          moveBefore_ops moveBefore_ip)
  have r: "replaceAllUsesWithOp 3 20 ?s5 = ?s6"
    by (simp add: replaceAllUsesWithOp_def replaceAllUsesWith_def getResults_def results_of_def
          getResultTypes_def get_op_def subst_val_def map_operands_def
          ex_stage_defs ex_funcs_def ex_func_trees_def ex_proj ex_operands_def
          ex_module_def ex_func_def ex_call_def ex_placeholder_def ex_return_def
          ex_launch_func_def ex_replicated_defs)
  have e: "erase 3 ?s6 = ex_replicated_rewritten"
    by (simp add: erase_def ex_stage_defs ex_funcs_def ex_func_trees_def ex_replicated_defs)
  show ?thesis
    by (simp only: build_execution_def lt if_False g sum.case o b prod.case
          AssignDevicesToReplicatedExecute_def option.case f al sa w r e)
qed

lemma ex_replicated_rewrite:
  "Rewrite ex_ext 3 devices ex_replicated_state = Some (Inr (), ex_replicated_rewritten)"
proof -
  let ?lf = "ex_launch_func ex_operands ex_shardings 1"
  let ?s = ex_replicated_state
  let ?a = "\<lparr>da_compilation_device = ''/device:CPU:0'',
          da_execution_devices = [[''/device:TPU:0''], [''/device:TPU:1'']],
          da_xla_device_assignment = None\<rparr>"
  let ?b = "OpNode 2 [] # ex_compile_tree @ [OpNode 3 [], OpNode 4 []]"
  have 1: "get_op ?s 3 = Some ?lf" by (simp add: get_op_def ex_replicated_state_def)
  have 2: "getStringAttr ?lf kTpuReplicateAttr = Some ''cluster0''"
    by (simp add: getStringAttr_def ex_proj names_neq)
  have 3: "num_replicas_of ?s (getParentReplicate ?s 3) = Inr 2"
    unfolding ex_replicated_parent
    by (simp add: num_replicas_of_def get_op_def ex_replicated_state_def
          getIntegerAttr_def ex_proj to_int32_1)
  have 4: "getIntegerAttr ?lf kNumCoresPerReplicaAttr = Some 1"
    by (simp add: getIntegerAttr_def ex_proj names_neq)
  have 5: "GetTPUCompilationAndExecutionDevices ex_ext devices 2 (to_int32 1) = Inr ?a"
    by (simp add: ex_replicated_devices to_int32_1)
  have 6: "BuildCompileOp ex_ext 3 2 (to_int32 1) (da_compilation_device ?a)
           (da_xla_device_assignment ?a) (?s\<lparr>ip := BeforeOp 3\<rparr>) =
           Some (Inr 14, ex_replicated_with (Some ?lf) ex_user ex_replicate ex_compile_ops ?b)"
    unfolding ex_replicated_ip using ex_replicated_compile by (simp add: to_int32_1)
  have 7: "getBlock (ex_replicated_with (Some ?lf) ex_user ex_replicate ex_compile_ops ?b) 3 =
             Some [2, 12, 14, 3, 4]" by (rule ex_replicated_block)
  have 8: "redirect_compilation_results
             (filter (has_name (ex_replicated_with (Some ?lf) ex_user ex_replicate
                 ex_compile_ops ?b) kCompilationResultOp) [2, 12, 14, 3, 4])
             14 (ex_replicated_with (Some ?lf) ex_user ex_replicate ex_compile_ops ?b) =
           (Inr (), ex_replicated_with (Some ?lf)
              (ex_user_of (OpResult 3 0 (ex_f32 [2])) (OpResult 14 0 string_tensor_type))
              ex_replicate ex_compile_ops ?b)"
    unfolding ex_replicated_placeholders by (rule ex_replicated_redirect)
  have 9: "BuildTPUCompileSucceededAssertOp 14 (da_compilation_device ?a)
             (ex_replicated_with (Some ?lf)
              (ex_user_of (OpResult 3 0 (ex_f32 [2])) (OpResult 14 0 string_tensor_type))
              ex_replicate ex_compile_ops ?b) =
           (Inr (), ex_replicated_with (Some ?lf)
              (ex_user_of (OpResult 3 0 (ex_f32 [2])) (OpResult 14 0 string_tensor_type))
              ex_replicate (ex_compile_ops @ ex_assert_ops)
              (OpNode 2 [] # ex_compile_tree @ ex_assert_tree @ [OpNode 3 [], OpNode 4 []]))"
    using ex_replicated_assert by simp
  show ?thesis
    unfolding Rewrite_steps[OF 1 2 3 4 5 6 7 8 9]
    using ex_replicated_execute by (simp add: ex_replicated_parent to_int32_1)
qed

lemma ex_replicated_well_formed:
  "allocated ex_replicated_state" "attached ex_replicated_state 3"
  by (simp_all add: allocated_def attached_def ex_replicated_state_def ex_func_trees_def
        ex_funcs_def)

section \<open>The rewrite: properties\<close>

text \<open>
  Claim C9. A launch function without the string attribute \<^verbatim>\<open>_tpu_replicate\<close>:
  \<^verbatim>\<open>Rewrite\<close> succeeds and the program (every operation, the tree of operations and the
  builder) is the one it was given.
\<close>

theorem rewrite_skips_unmarked:
  "get_op s launch_func = Some lf \<Longrightarrow> getStringAttr lf kTpuReplicateAttr = None \<Longrightarrow>
   Rewrite ext launch_func devices s = Some (Inr (), s)"
  by (simp add: Rewrite_def)

theorem rewrite_skips_unmarked_witness:
  "get_op (ex_state ex_unmarked_launch_func) 3 = Some ex_unmarked_launch_func \<and>
   getStringAttr ex_unmarked_launch_func kTpuReplicateAttr = None \<and>
   Rewrite ex_ext 3 [] (ex_state ex_unmarked_launch_func) =
     Some (Inr (), ex_state ex_unmarked_launch_func)"
proof -
  have h1: "get_op (ex_state ex_unmarked_launch_func) 3 = Some ex_unmarked_launch_func"
    by (simp add: get_op_def ex_state_def)
  have h2: "getStringAttr ex_unmarked_launch_func kTpuReplicateAttr = None"
    by (simp add: attr_defs ex_defs k_defs)
  show ?thesis using h1 h2 rewrite_skips_unmarked [OF h1 h2, of ex_ext "[]"] by simp
qed

text \<open>
  Claim C5. A launch function that passes the checks before the arguments (replication
  marker, number of cores, device assignment, step-marker location, padding map) and
  whose input-sharding array has a length other than its number of operands:
  \<^verbatim>\<open>SetMetadataProtoArgs\<close> fails with the length-mismatch error that names the attribute,
  the number of operands and the length of the array; \<^verbatim>\<open>Rewrite\<close> fails with that error,
  and so does the pass once the launch functions before this one are rewritten; the
  operations and the tree of the program are left as they were, the launch function
  among them.
\<close>

theorem input_sharding_length_mismatch:
  assumes "get_op s launch_func = Some lf"
    and "getStringAttr lf kTpuReplicateAttr = Some cluster"
    and "num_replicas_of s (getParentReplicate s launch_func) = Inr num_replicas"
    and "getIntegerAttr lf kNumCoresPerReplicaAttr = Some num_cores"
    and "GetTPUCompilationAndExecutionDevices ext devices num_replicas (to_int32 num_cores)
           = Inr tpu_device_assignment"
    and "getStringAttr lf kStepMarkerLocationAttr = Some location"
    and "location = [] \<or> StepMarkerLocation_Parse ext location \<noteq> None"
    and "getArrayAttr lf kPaddingMapAttr = Some padding_map"
    and "padding_map_loop ext 0 padding_map [] = Inr paddings"
    and "getArrayAttr lf (kInputShardingAttr ext) = Some input_shardings"
    and "length input_shardings \<noteq> length (op_operands lf)"
    and "GetDevicesFromOp ext s0 = Some devices"
    and "filter (has_name s0 kLaunchFuncOp) (walk (root s0)) = pre @ launch_func # rest"
    and "rewrite_walk ext devices pre s0 = Some (Inr (), s)"
  shows "SetMetadataProtoArgs ext lf md =
           Inl (BadArrayAttrLength (kInputShardingAttr ext) (length (op_operands lf))
                  (length input_shardings)) \<and>
         Rewrite ext launch_func devices s =
           Some (Inl (BadArrayAttrLength (kInputShardingAttr ext) (length (op_operands lf))
                        (length input_shardings)),
                 s\<lparr>ip := BeforeOp launch_func\<rparr>) \<and>
         runOnModule ext s0 =
           Some (Inl (BadArrayAttrLength (kInputShardingAttr ext) (length (op_operands lf))
                        (length input_shardings)),
                 s\<lparr>ip := BeforeOp launch_func\<rparr>) \<and>
         get_op (s\<lparr>ip := BeforeOp launch_func\<rparr>) launch_func = Some lf \<and>
         root (s\<lparr>ip := BeforeOp launch_func\<rparr>) = root s"
proof -
  let ?e = "BadArrayAttrLength (kInputShardingAttr ext) (length (op_operands lf))
              (length input_shardings)"
  have args: "\<And>m. SetMetadataProtoArgs ext lf m = Inl ?e"
    using assms(10,11) by (simp add: SetMetadataProtoArgs_def)
  have step: "\<And>m. \<exists>m1. SetMetadataProtoStepMarkerLocation ext lf m = Inr m1 \<and>
                 md_padding_maps m1 = md_padding_maps m"
    using assms(6,7) by (auto simp: SetMetadataProtoStepMarkerLocation_def)
  have pad: "\<And>m. md_padding_maps m = [] \<Longrightarrow> \<exists>m2. SetMetadataProtoPaddingMap ext lf m = Inr m2"
    using assms(8,9) by (simp add: SetMetadataProtoPaddingMap_def)
  have md: "SetMetadataProtoFromLaunchFuncOp ext lf num_replicas (to_int32 num_cores)
              (da_xla_device_assignment tpu_device_assignment) empty_metadata = Inl ?e"
  proof -
    obtain m1 where m1: "SetMetadataProtoStepMarkerLocation ext lf
           (empty_metadata\<lparr>md_num_replicas := num_replicas,
                            md_num_cores_per_replica := to_int32 num_cores\<rparr>) = Inr m1"
        "md_padding_maps m1 = []"
      using step[of "empty_metadata\<lparr>md_num_replicas := num_replicas,
                            md_num_cores_per_replica := to_int32 num_cores\<rparr>"]
      by (auto simp: empty_metadata_def)
    obtain m2 where m2: "SetMetadataProtoPaddingMap ext lf m1 = Inr m2"
      using pad[OF m1(2)] by blast
    show ?thesis
      by (simp add: SetMetadataProtoFromLaunchFuncOp_def m1(1) m2 args)
  qed
  have get: "get_op (s\<lparr>ip := BeforeOp launch_func\<rparr>) launch_func = Some lf"
    using assms(1) by simp
  have build: "BuildCompileOp ext launch_func num_replicas (to_int32 num_cores)
             (da_compilation_device tpu_device_assignment)
             (da_xla_device_assignment tpu_device_assignment)
             (s\<lparr>ip := BeforeOp launch_func\<rparr>) = Some (Inl ?e, s\<lparr>ip := BeforeOp launch_func\<rparr>)"
    using assms(1) by (simp add: BuildCompileOp_def md)
  have rw: "Rewrite ext launch_func devices s = Some (Inl ?e, s\<lparr>ip := BeforeOp launch_func\<rparr>)"
    using assms(1-5) by (simp add: Rewrite_def build)
  have "rewrite_walk ext devices (pre @ launch_func # rest) s0
          = Some (Inl ?e, s\<lparr>ip := BeforeOp launch_func\<rparr>)"
    using rewrite_walk_append[OF assms(14)] rw by simp
  then have run: "runOnModule ext s0 = Some (Inl ?e, s\<lparr>ip := BeforeOp launch_func\<rparr>)"
    using assms(12,13) by (simp add: runOnModule_def)
  show ?thesis using args rw run get by simp
qed

theorem input_sharding_length_mismatch_witness:
  "get_op (ex_state ex_mismatch_launch_func) 3 = Some ex_mismatch_launch_func \<and>
   getArrayAttr ex_mismatch_launch_func (kInputShardingAttr ex_ext) = Some ex_shardings \<and>
   length ex_shardings = 2 \<and> length (op_operands ex_mismatch_launch_func) = 3 \<and>
   filter (has_name (ex_state ex_mismatch_launch_func) kLaunchFuncOp)
     (walk (root (ex_state ex_mismatch_launch_func))) = [3] \<and>
   Rewrite ex_ext 3 [''/device:CPU:0'', ''/device:TPU:0'', ''/device:TPU:1'']
       (ex_state ex_mismatch_launch_func) =
     Some (Inl (BadArrayAttrLength ''input_sharding_configuration'' 3 2),
           (ex_state ex_mismatch_launch_func)\<lparr>ip := BeforeOp 3\<rparr>) \<and>
   runOnModule ex_ext (ex_state ex_mismatch_launch_func) =
     Some (Inl (BadArrayAttrLength ''input_sharding_configuration'' 3 2),
           (ex_state ex_mismatch_launch_func)\<lparr>ip := BeforeOp 3\<rparr>) \<and>
   get_op ((ex_state ex_mismatch_launch_func)\<lparr>ip := BeforeOp 3\<rparr>) 3 = Some ex_mismatch_launch_func"
proof -
  let ?s = "ex_state ex_mismatch_launch_func"
  let ?devices = "[''/device:CPU:0'', ''/device:TPU:0'', ''/device:TPU:1'']"
  have h1: "get_op ?s 3 = Some ex_mismatch_launch_func"
    by (simp add: get_op_def ex_state_def)
  have h2: "getStringAttr ex_mismatch_launch_func kTpuReplicateAttr = Some ''cluster0''"
    by (simp add: attr_defs ex_defs k_defs ex_mismatch_launch_func_def)
  have h3: "num_replicas_of ?s (getParentReplicate ?s 3) = Inr 1"
    by (simp add: num_replicas_of_def getParentReplicate_def getParentOp_def has_name_def
          get_op_def ex_state_def ex_func_trees_def ex_func_def k_defs)
  have h4: "getIntegerAttr ex_mismatch_launch_func kNumCoresPerReplicaAttr = Some 1"
    by (simp add: attr_defs ex_defs k_defs ex_mismatch_launch_func_def)
  have h5: "GetTPUCompilationAndExecutionDevices ex_ext ?devices 1 (to_int32 1) =
     Inr \<lparr>da_compilation_device = ''/device:CPU:0'',
          da_execution_devices = [[''/device:TPU:0'']],
          da_xla_device_assignment = None\<rparr>"
    by (simp add: ex_ext_def to_int32_1 to_string.simps)
  have h6: "getStringAttr ex_mismatch_launch_func kStepMarkerLocationAttr = Some []"
    by (simp add: attr_defs ex_defs k_defs ex_mismatch_launch_func_def)
  have h7: "[] = ([]::string) \<or> StepMarkerLocation_Parse ex_ext [] \<noteq> None" by simp
  have h8: "getArrayAttr ex_mismatch_launch_func kPaddingMapAttr = Some []"
    by (simp add: attr_defs ex_defs k_defs ex_mismatch_launch_func_def)
  have h9: "padding_map_loop ex_ext 0 [] [] = Inr []" by simp
  have h10: "getArrayAttr ex_mismatch_launch_func (kInputShardingAttr ex_ext) = Some ex_shardings"
    by (simp add: attr_defs ex_defs k_defs ex_mismatch_launch_func_def)
  have h11: "length ex_shardings \<noteq> length (op_operands ex_mismatch_launch_func)"
    by (simp add: ex_defs ex_mismatch_launch_func_def)
  have h12: "GetDevicesFromOp ex_ext ?s = Some ?devices" by (simp add: ex_ext_def)
  have h13: "filter (has_name ?s kLaunchFuncOp) (walk (root ?s)) = [] @ 3 # []"
    by (simp add: has_name_def get_op_def ex_defs k_defs ex_mismatch_launch_func_def)
  have h14: "rewrite_walk ex_ext ?devices [] ?s = Some (Inr (), ?s)" by simp
  have l: "length ex_shardings = 2" "length (op_operands ex_mismatch_launch_func) = 3"
     "kInputShardingAttr ex_ext = ''input_sharding_configuration''"
    by (simp_all add: ex_defs ex_mismatch_launch_func_def)
  show ?thesis
    using input_sharding_length_mismatch [OF h1 h2 h3 h4 h5 h6 h7 h8 h9 h10 h11 h12 h13 h14]
      h1 h10 h13 l
    by simp
qed

text \<open>
  Claim C3. The operands of a launch function whose shape is not statically fully defined
  are those whose type is not a ranked tensor type, or is one with a dynamic (negative)
  dimension. When \<^verbatim>\<open>BuildCompileOp\<close> succeeds, it has created one \<^verbatim>\<open>tf.Shape\<close>
  operation per such operand, in the order of the operands, and nothing for the other
  operands; the one \<^verbatim>\<open>tf._TPUCompileMlir\<close> operation it has created takes result 0 of
  each of them, in that order, and nothing else; its attribute \<^verbatim>\<open>NumDynamicShapes\<close> is
  the number of its operands; and it has exactly two results, both string tensors (the
  compilation status and the program key). The only other operations created are the
  launch that wraps the compile operation and its return.
\<close>

theorem compile_op_dynamic_shapes:
  assumes "BuildCompileOp ext launch_func num_replicas num_cores_per_replica
             compilation_device xla_device_assignment s = Some (Inr launch, s')"
    and "get_op s launch_func = Some lf"
    and "dyn = filter (\<lambda>v. case val_type v of
                               RankedTensorType shape e \<Rightarrow> list_ex (\<lambda>d. d < 0) shape
                             | UnrankedTensorType e \<Rightarrow> True
                             | OtherType e \<Rightarrow> True) (op_operands lf)"
  shows "\<exists>compile_op.
     length (ops s') = length (ops s) + length dyn + 3 \<and>
     filter (has_name s' kCompileOp) [length (ops s)..<length (ops s')] =
       [length (ops s) + length dyn] \<and>
     get_op s' (length (ops s) + length dyn) = Some compile_op \<and>
     op_operands compile_op =
       map (\<lambda>j. OpResult (length (ops s) + j) 0 shape_op_type) [0..<length dyn] \<and>
     map (get_op s') [length (ops s)..<length (ops s) + length dyn] =
       map (\<lambda>v. Some \<lparr>op_name = kShapeOp, op_operands = [v],
                        op_result_types = [shape_op_type], op_attrs = []\<rparr>) dyn \<and>
     getIntegerAttr compile_op kNumDynamicShapesAttr = Some (int (length (op_operands compile_op))) \<and>
     op_result_types compile_op = [string_tensor_type, string_tensor_type] \<and>
     getResults s' (length (ops s) + length dyn) =
       [OpResult (length (ops s) + length dyn) 0 string_tensor_type,
        OpResult (length (ops s) + length dyn) 1 string_tensor_type]"
proof -
  let ?n = "length (ops s)"
  let ?k = "length dyn"
  let ?mk = "\<lambda>v. Some \<lparr>op_name = kShapeOp, op_operands = [v],
                        op_result_types = [shape_op_type], op_attrs = []\<rparr>"
  have dyn: "dyn = filter (\<lambda>v. \<not> IsFullyDefined (arg_shape_of (val_type v))) (op_operands lf)"
    unfolding assms(3)
    by (rule filter_cong) (auto simp: fully_defined_type split: mtype.splits)
  from BuildCompileOp_success[OF assms(1,2)] obtain metadata txt_metadata txt_module where
    o: "ops s' = ops s @ map ?mk dyn @
      [Some \<lparr>op_name = kCompileOp,
             op_operands = map (\<lambda>j. OpResult (?n + j) 0 shape_op_type) [0..<?k],
             op_result_types = [string_tensor_type, string_tensor_type],
             op_attrs =
               [(kMetadataAttr, StringAttr txt_metadata),
                (kNumDynamicShapesAttr, IntegerAttr (int ?k)),
                (kMlirModuleAttr, StringAttr txt_module)]\<rparr>,
       Some \<lparr>op_name = kLaunchOp, op_operands = [],
             op_result_types = [string_tensor_type, string_tensor_type],
             op_attrs = [(kDeviceAttr, StringAttr compilation_device)]\<rparr>,
       Some \<lparr>op_name = kReturnOp,
             op_operands = results_of (?n + ?k) [string_tensor_type, string_tensor_type],
             op_result_types = [], op_attrs = []\<rparr>]"
    unfolding dyn by blast
  let ?c = "\<lparr>op_name = kCompileOp,
             op_operands = map (\<lambda>j. OpResult (?n + j) 0 shape_op_type) [0..<?k],
             op_result_types = [string_tensor_type, string_tensor_type],
             op_attrs =
               [(kMetadataAttr, StringAttr txt_metadata),
                (kNumDynamicShapesAttr, IntegerAttr (int ?k)),
                (kMlirModuleAttr, StringAttr txt_module)]\<rparr>"
  have len: "length (ops s') = ?n + ?k + 3" using o by simp
  have shape: "get_op s' (?n + j) = ?mk (dyn ! j)" if "j < ?k" for j
    using that by (simp add: get_op_def o nth_append)
  have c: "get_op s' (?n + ?k) = Some ?c"
    by (simp add: get_op_def o nth_append)
  have l: "get_op s' (Suc (?n + ?k)) = Some \<lparr>op_name = kLaunchOp, op_operands = [],
             op_result_types = [string_tensor_type, string_tensor_type],
             op_attrs = [(kDeviceAttr, StringAttr compilation_device)]\<rparr>"
    by (simp add: get_op_def o nth_append)
  have r: "get_op s' (Suc (Suc (?n + ?k))) = Some \<lparr>op_name = kReturnOp,
             op_operands = results_of (?n + ?k) [string_tensor_type, string_tensor_type],
             op_result_types = [], op_attrs = []\<rparr>"
    by (simp add: get_op_def o nth_append)
  have split: "[?n..<length (ops s')] =
      [?n..<?n + ?k] @ [?n + ?k, Suc (?n + ?k), Suc (Suc (?n + ?k))]"
  proof -
    have "[?n..<?n + ?k + 3] = [?n..<?n + ?k] @ [?n + ?k..<?n + ?k + 3]"
      by (rule upt_add_eq_append) simp
    moreover have "[?n + ?k..<?n + ?k + 3] = [?n + ?k, Suc (?n + ?k), Suc (Suc (?n + ?k))]"
      by (simp add: upt_rec numeral_3_eq_3)
    ultimately show ?thesis by (simp add: len)
  qed
  have none: "filter (has_name s' kCompileOp) [?n..<?n + ?k] = []"
  proof (rule filter_upt_names, intro allI impI)
    fix i assume i: "?n \<le> i \<and> i < ?n + ?k"
    then have "get_op s' (?n + (i - ?n)) = ?mk (dyn ! (i - ?n))"
      by (intro shape) arith
    with i show "\<not> has_name s' kCompileOp i"
      by (simp add: has_name_def k_defs)
  qed
  have f: "filter (has_name s' kCompileOp) [?n..<length (ops s')] = [?n + ?k]"
    unfolding split filter_append none
    by (simp add: has_name_def c l r k_defs)
  have m: "map (get_op s') [?n..<?n + ?k] = map ?mk dyn"
    by (rule nth_equalityI) (simp_all add: shape)
  have g: "getResults s' (?n + ?k) =
       [OpResult (?n + ?k) 0 string_tensor_type, OpResult (?n + ?k) 1 string_tensor_type]"
    by (simp add: getResults_def getResultTypes_def c results_of_def)
  show ?thesis
    using len f c m g by (simp add: getIntegerAttr_def k_defs)
qed

theorem compile_op_dynamic_shapes_witness:
  "BuildCompileOp ex_ext 3 1 1 ''/device:CPU:0'' None
     ((ex_state ex_unranked_launch_func)\<lparr>ip := BeforeOp 3\<rparr>) =
     Some (Inr 15, ex_compiled_unranked) \<and>
   get_op ((ex_state ex_unranked_launch_func)\<lparr>ip := BeforeOp 3\<rparr>) 3 =
     Some ex_unranked_launch_func \<and>
   op_operands ex_unranked_launch_func =
     [BlockArgument 1 0 (RankedTensorType [- 1, 4] ''f32''),
      BlockArgument 1 1 (RankedTensorType [2] ''f32''),
      BlockArgument 1 2 (UnrankedTensorType ''f32'')] \<and>
   filter (\<lambda>v. case val_type v of
                   RankedTensorType shape e \<Rightarrow> list_ex (\<lambda>d. d < 0) shape
                 | UnrankedTensorType e \<Rightarrow> True
                 | OtherType e \<Rightarrow> True) (op_operands ex_unranked_launch_func) =
     [BlockArgument 1 0 (RankedTensorType [- 1, 4] ''f32''),
      BlockArgument 1 2 (UnrankedTensorType ''f32'')] \<and>
   length (ops ex_compiled_unranked) = 17 \<and>
   filter (has_name ex_compiled_unranked kCompileOp) [12..<17] = [14] \<and>
   get_op ex_compiled_unranked 14 = Some ex_compile_unranked \<and>
   op_operands ex_compile_unranked =
     [OpResult 12 0 shape_op_type, OpResult 13 0 shape_op_type] \<and>
   get_op ex_compiled_unranked 12 =
     Some (ex_shape_probe (BlockArgument 1 0 (RankedTensorType [- 1, 4] ''f32''))) \<and>
   get_op ex_compiled_unranked 13 =
     Some (ex_shape_probe (BlockArgument 1 2 (UnrankedTensorType ''f32''))) \<and>
   getIntegerAttr ex_compile_unranked kNumDynamicShapesAttr = Some 2 \<and>
   op_result_types ex_compile_unranked = [string_tensor_type, string_tensor_type]"
proof -
  let ?lf = "ex_unranked_launch_func"
  let ?s = "(ex_state ?lf)\<lparr>ip := BeforeOp 3\<rparr>"
  have b: "BuildCompileOp ex_ext 3 1 1 ''/device:CPU:0'' None ?s =
      Some (Inr 15, ex_compiled_unranked)"
    by (rule ex_stage_compile_unranked)
  have g: "get_op ?s 3 = Some ?lf"
    by (simp add: get_op_def ex_state_def)
  have os: "op_operands ?lf =
     [BlockArgument 1 0 (RankedTensorType [- 1, 4] ''f32''),
      BlockArgument 1 1 (RankedTensorType [2] ''f32''),
      BlockArgument 1 2 (UnrankedTensorType ''f32'')]"
    by (simp add: ex_unranked_launch_func_def ex_proj ex_operands3_def ex_operands_def ex_f32_def)
  have d: "[BlockArgument 1 0 (RankedTensorType [- 1, 4] ''f32''),
            BlockArgument 1 2 (UnrankedTensorType ''f32'')] =
      filter (\<lambda>v. case val_type v of
                   RankedTensorType shape e \<Rightarrow> list_ex (\<lambda>d. d < 0) shape
                 | UnrankedTensorType e \<Rightarrow> True
                 | OtherType e \<Rightarrow> True) (op_operands ?lf)"
    unfolding os by simp
  have n: "length (ops ?s) = 12"
    by (simp add: ex_state_def ex_funcs_def)
  have c: "get_op ex_compiled_unranked 14 = Some ex_compile_unranked"
    by (simp add: get_op_def ex_funcs_def ex_compiled_unranked_def)
  have l: "length [BlockArgument 1 0 (RankedTensorType [- 1, 4] ''f32''),
                   BlockArgument 1 2 (UnrankedTensorType ''f32'')] = 2"
    by simp
  from compile_op_dynamic_shapes [OF b g d, unfolded n l] obtain compile_op where
    t: "length (ops ex_compiled_unranked) = 12 + 2 + 3"
      "filter (has_name ex_compiled_unranked kCompileOp)
         [12..<length (ops ex_compiled_unranked)] = [12 + 2]"
      "get_op ex_compiled_unranked (12 + 2) = Some compile_op"
      "op_operands compile_op = map (\<lambda>j. OpResult (12 + j) 0 shape_op_type) [0..<2]"
      "map (get_op ex_compiled_unranked) [12..<12 + 2] =
         map (\<lambda>v. Some \<lparr>op_name = kShapeOp, op_operands = [v],
                          op_result_types = [shape_op_type], op_attrs = []\<rparr>)
           [BlockArgument 1 0 (RankedTensorType [- 1, 4] ''f32''),
            BlockArgument 1 2 (UnrankedTensorType ''f32'')]"
      "getIntegerAttr compile_op kNumDynamicShapesAttr = Some (int (length (op_operands compile_op)))"
      "op_result_types compile_op = [string_tensor_type, string_tensor_type]"
    by blast
  have e: "compile_op = ex_compile_unranked" using t(3) c by simp
  have t1: "length (ops ex_compiled_unranked) = 17" using t(1) by simp
  have t2: "filter (has_name ex_compiled_unranked kCompileOp) [12..<17] = [14]"
    using t(2) unfolding t1 by (simp del: upt_rec_numeral)
  have t4: "op_operands ex_compile_unranked =
      [OpResult 12 0 shape_op_type, OpResult 13 0 shape_op_type]"
    using t(4) unfolding e by (simp add: upt_rec numeral_2_eq_2)
  have t5: "get_op ex_compiled_unranked 12 =
       Some (ex_shape_probe (BlockArgument 1 0 (RankedTensorType [- 1, 4] ''f32'')))"
    "get_op ex_compiled_unranked 13 =
       Some (ex_shape_probe (BlockArgument 1 2 (UnrankedTensorType ''f32'')))"
    using t(5) by (simp_all add: ex_shape_probe_def)
  have t6: "getIntegerAttr ex_compile_unranked kNumDynamicShapesAttr = Some 2"
    using t(6) unfolding e t4 by simp
  have t7: "op_result_types ex_compile_unranked = [string_tensor_type, string_tensor_type]"
    using t(7) unfolding e .
  show ?thesis
    by (intro conjI) (fact b g os d[symmetric] t1 t2 c t4 t5 t6 t7)+
qed



text \<open>
  Claim C7. Let \<^verbatim>\<open>Rewrite\<close> succeed on a launch function \<open>L\<close> with
  \<^verbatim>\<open>num_cores_per_replica\<close> 1 whose parent is a \<^verbatim>\<open>tf_device.replicate\<close> operation with
  \<open>n = replicas\<close>, and let the device resolver, which is not part of the sources at
  hand, return one row of execution devices per replica. Afterwards the attribute
  \<^verbatim>\<open>devices\<close> of the replicate operation maps the alias of logical core 0 to as many
  device names as there are replicas, the name of replica \<open>i\<close> being the first device of
  row \<open>i\<close>; its other attributes are unchanged; and the launch that wraps the execute
  operation has that alias as its device.
\<close>

theorem replicate_devices:
  assumes r: "Rewrite ext L devices s = Some (Inr (), s')"
    and lf: "get_op s L = Some lf" and name: "op_name lf = kLaunchFuncOp"
    and marker: "getStringAttr lf kTpuReplicateAttr = Some replicate_attr"
    and cores: "getIntegerAttr lf kNumCoresPerReplicaAttr = Some n" "to_int32 n = 1"
    and rep: "getParentReplicate s L = Some rep"
    and rd: "get_op s rep = Some rd" "getIntegerAttr rd kReplicateNAttr = Some replicas"
    and dev: "GetTPUCompilationAndExecutionDevices ext devices (to_int32 replicas) 1 = Inr a"
    and rows: "length (da_execution_devices a) = nat (to_int32 replicas)"
    and wf: "allocated s" "attached s L"
    and n0: "n0 = length (ops s)"
    and k: "k = length (filter (\<lambda>v. \<not> has_static_shape (val_type v)) (op_operands lf))"
  shows "\<exists>rd' device_names execute.
     get_op s' rep = Some rd' \<and>
     op_name rd' = kReplicateOp \<and>
     map_of (op_attrs rd') kDevicesAttr =
       Some (DictionaryAttr [(GetDeviceAliasForLogicalCore ext 0,
                              ArrayAttr (map StringAttr device_names))]) \<and>
     length device_names = nat (to_int32 replicas) \<and>
     (\<forall>i<nat (to_int32 replicas). device_names ! i = hd (da_execution_devices a ! i)) \<and>
     (\<forall>x. x \<noteq> kDevicesAttr \<longrightarrow> map_of (op_attrs rd') x = map_of (op_attrs rd) x) \<and>
     get_op s' (n0 + k + 6) = Some execute \<and> op_name execute = kExecuteOp \<and>
     get_op s' (n0 + k + 7) =
       Some \<lparr>op_name = kLaunchOp, op_operands = [], op_result_types = op_result_types lf,
             op_attrs = [(kDeviceAttr, StringAttr (GetDeviceAliasForLogicalCore ext 0))]\<rparr> \<and>
     root s' =
       remove_node L
         (insert_before L (wrapped (n0 + k + 6))
            (insert_before L (wrapped (n0 + k + 3))
               (insert_before L (wrapped (n0 + k))
                  (fold (\<lambda>i. insert_before L (OpNode i [])) [n0..<n0 + k] (root s)))))"
proof -
  let ?ts = "op_result_types lf"
  let ?mk = "\<lambda>v. Some \<lparr>op_name = kShapeOp, op_operands = [v],
                        op_result_types = [shape_op_type], op_attrs = []\<rparr>"
  let ?dyn = "filter (\<lambda>v. \<not> IsFullyDefined (arg_shape_of (val_type v))) (op_operands lf)"
  have k: "k = length ?dyn" unfolding k fully_defined_static ..
  have single: "\<not> 1 < to_int32 n" using cores(2) by simp
  have Ln: "L < n0" unfolding n0 by (rule attached_less[OF wf(1,2)])
  have nr: "num_replicas_of s (Some rep) = Inr (to_int32 replicas)"
    by (simp add: num_replicas_of_def rd)
  have repname: "op_name rd = kReplicateOp"
    using rep rd(1)
    by (auto simp: getParentReplicate_def has_name_def split: option.splits if_splits)
  have repL: "rep \<noteq> L" using repname name lf rd(1) by (auto simp: k_defs)
  from Rewrite_single[OF r lf marker cores(1) single wf(1,2), unfolded rep option.case nr
      cores(2) dev, folded n0 k]
  obtain R and a' :: TPUDeviceAssignment and block device upd txt_metadata txt_module where
    R: "(Inr (to_int32 replicas) :: error + int) = Inr R"
    and a': "GetTPUCompilationAndExecutionDevices ext devices R 1 = Inr a'"
    and repn: "rep < n0"
    and device: "device = GetDeviceAliasForLogicalCore ext 0"
    and upd: "upd = (\<lambda>xs. xs[rep := map_option (\<lambda>d. d\<lparr>op_attrs := setAttr_list kDevicesAttr
                   (DictionaryAttr
                      [(GetDeviceAliasForLogicalCore ext 0,
                        ArrayAttr (map StringAttr (map hd (da_execution_devices a'))))])
                   (op_attrs d)\<rparr>) (xs ! rep)])"
    and o: "ops s' =
       (map (map_option (map_operands (remap_results L (n0 + k + 7) ?ts)))
          (upd (map (map_option (map_operands
                  (redirect_placeholders s (filter (has_name s kCompilationResultOp) block)
                     (n0 + k + 1))))
                  (ops s @ map ?mk ?dyn @
                   [Some \<lparr>op_name = kCompileOp,
                          op_operands = map (\<lambda>j. OpResult (n0 + j) 0 shape_op_type) [0..<k],
                          op_result_types = [string_tensor_type, string_tensor_type],
                          op_attrs =
                            [(kMetadataAttr, StringAttr txt_metadata),
                             (kNumDynamicShapesAttr, IntegerAttr (int k)),
                             (kMlirModuleAttr, StringAttr txt_module)]\<rparr>,
                    Some \<lparr>op_name = kLaunchOp, op_operands = [],
                          op_result_types = [string_tensor_type, string_tensor_type],
                          op_attrs = [(kDeviceAttr, StringAttr (da_compilation_device a'))]\<rparr>,
                    Some \<lparr>op_name = kReturnOp,
                          op_operands = results_of (n0 + k)
                            [string_tensor_type, string_tensor_type],
                          op_result_types = [], op_attrs = []\<rparr>]) @
                [Some \<lparr>op_name = kCompileSucceededAssertOp,
                       op_operands = [OpResult (n0 + k + 1) 0 string_tensor_type],
                       op_result_types = [], op_attrs = []\<rparr>,
                 Some \<lparr>op_name = kLaunchOp, op_operands = [], op_result_types = [],
                       op_attrs = [(kDeviceAttr, StringAttr (da_compilation_device a'))]\<rparr>,
                 Some \<lparr>op_name = kReturnOp, op_operands = [], op_result_types = [],
                       op_attrs = []\<rparr>]) @
           [Some \<lparr>op_name = kExecuteOp,
                  op_operands =
                    map (redirect_placeholders s (filter (has_name s kCompilationResultOp) block)
                           (n0 + k + 1)) (op_operands lf) @
                    [OpResult (n0 + k + 1) 1 string_tensor_type],
                  op_result_types = ?ts, op_attrs = []\<rparr>,
            Some \<lparr>op_name = kLaunchOp, op_operands = [], op_result_types = ?ts,
                  op_attrs = [(kDeviceAttr, StringAttr device)]\<rparr>,
            Some \<lparr>op_name = kReturnOp,
                  op_operands = results_of (n0 + k + 6) ?ts,
                  op_result_types = [], op_attrs = []\<rparr>]))[L := None]"
    and rt: "root s' =
       remove_node L
         (insert_before L (wrapped (n0 + k + 6))
            (insert_before L (wrapped (n0 + k + 3))
               (insert_before L (wrapped (n0 + k))
                  (fold (\<lambda>i. insert_before L (OpNode i [])) [n0..<n0 + k] (root s)))))"
    apply (elim exE conjE)
    subgoal for R a' block device upd txt_metadata txt_module
      by (rule that[of R a' device upd block txt_metadata txt_module])
    done
  have aa: "a' = a" using R a' dev by simp
  let ?sP = "redirect_placeholders s (filter (has_name s kCompilationResultOp) block)
               (n0 + k + 1)"
  let ?sL = "remap_results L (n0 + k + 7) ?ts"
  let ?D = "DictionaryAttr [(GetDeviceAliasForLogicalCore ext 0,
                        ArrayAttr (map StringAttr (map hd (da_execution_devices a))))]"
  define pre where "pre = map (map_option (map_operands ?sP)) (map ?mk ?dyn @
                   [Some \<lparr>op_name = kCompileOp,
                          op_operands = map (\<lambda>j. OpResult (n0 + j) 0 shape_op_type) [0..<k],
                          op_result_types = [string_tensor_type, string_tensor_type],
                          op_attrs =
                            [(kMetadataAttr, StringAttr txt_metadata),
                             (kNumDynamicShapesAttr, IntegerAttr (int k)),
                             (kMlirModuleAttr, StringAttr txt_module)]\<rparr>,
                    Some \<lparr>op_name = kLaunchOp, op_operands = [],
                          op_result_types = [string_tensor_type, string_tensor_type],
                          op_attrs = [(kDeviceAttr, StringAttr (da_compilation_device a'))]\<rparr>,
                    Some \<lparr>op_name = kReturnOp,
                          op_operands = results_of (n0 + k)
                            [string_tensor_type, string_tensor_type],
                          op_result_types = [], op_attrs = []\<rparr>]) @
                [Some \<lparr>op_name = kCompileSucceededAssertOp,
                       op_operands = [OpResult (n0 + k + 1) 0 string_tensor_type],
                       op_result_types = [], op_attrs = []\<rparr>,
                 Some \<lparr>op_name = kLaunchOp, op_operands = [], op_result_types = [],
                       op_attrs = [(kDeviceAttr, StringAttr (da_compilation_device a'))]\<rparr>,
                 Some \<lparr>op_name = kReturnOp, op_operands = [], op_result_types = [],
                       op_attrs = []\<rparr>]"
  define post where "post =
           [Some \<lparr>op_name = kExecuteOp,
                  op_operands = map ?sP (op_operands lf) @
                    [OpResult (n0 + k + 1) 1 string_tensor_type],
                  op_result_types = ?ts, op_attrs = []\<rparr>,
            Some \<lparr>op_name = kLaunchOp, op_operands = [], op_result_types = ?ts,
                  op_attrs = [(kDeviceAttr, StringAttr device)]\<rparr>,
            Some \<lparr>op_name = kReturnOp,
                  op_operands = results_of (n0 + k + 6) ?ts,
                  op_result_types = [], op_attrs = []\<rparr>]"
  have o': "ops s' = (map (map_option (map_operands ?sL))
                       (upd (map (map_option (map_operands ?sP)) (ops s) @ pre) @ post))[L := None]"
    unfolding o pre_def post_def by simp
  have lp: "length pre = k + 6" "length post = 3" by (simp_all add: pre_def post_def k)
  have lu: "length (upd xs) = length xs" for xs by (simp add: upd)
  have len: "length (ops s') = n0 + k + 9" by (simp add: o' lp lu n0)
  have g_rep: "get_op s' rep =
      Some (map_operands ?sL ((map_operands ?sP rd)\<lparr>op_attrs :=
              setAttr_list kDevicesAttr ?D (op_attrs (map_operands ?sP rd))\<rparr>))"
    using repn repL rd(1)
    by (simp add: get_op_def len o' nth_append lu lp n0 upd aa)
  have g_e: "get_op s' (n0 + k + 6) = map_option (map_operands ?sL) (post ! 0)"
    using Ln by (simp add: get_op_def len o' nth_append lu lp n0)
  have g_w: "get_op s' (n0 + k + 7) = map_option (map_operands ?sL) (post ! 1)"
    using Ln by (simp add: get_op_def len o' nth_append lu lp n0)
  show ?thesis
    apply (rule exI[of _ "map_operands ?sL ((map_operands ?sP rd)\<lparr>op_attrs :=
              setAttr_list kDevicesAttr ?D (op_attrs (map_operands ?sP rd))\<rparr>)"])
    apply (rule exI[of _ "map hd (da_execution_devices a)"])
    apply (rule exI[of _ "map_operands ?sL \<lparr>op_name = kExecuteOp,
                  op_operands = map ?sP (op_operands lf) @
                    [OpResult (n0 + k + 1) 1 string_tensor_type],
                  op_result_types = ?ts, op_attrs = []\<rparr>"])
    using g_rep g_e g_w rt rows repname
    by (simp add: post_def map_of_setAttr_list device map_operands_def)
qed

theorem replicate_devices_witness:
  "Rewrite ex_ext 3 [''/device:CPU:0'', ''/device:TPU:0'', ''/device:TPU:1'']
     ex_replicated_state = Some (Inr (), ex_replicated_rewritten) \<and>
   get_op ex_replicated_state 3 = Some (ex_launch_func ex_operands ex_shardings 1) \<and>
   op_name (ex_launch_func ex_operands ex_shardings 1) = kLaunchFuncOp \<and>
   getStringAttr (ex_launch_func ex_operands ex_shardings 1) kTpuReplicateAttr =
     Some ''cluster0'' \<and>
   getIntegerAttr (ex_launch_func ex_operands ex_shardings 1) kNumCoresPerReplicaAttr = Some 1 \<and>
   to_int32 1 = 1 \<and>
   getParentReplicate ex_replicated_state 3 = Some 5 \<and>
   get_op ex_replicated_state 5 = Some ex_replicate \<and>
   getIntegerAttr ex_replicate kReplicateNAttr = Some 2 \<and>
   to_int32 2 = 2 \<and>
   GetTPUCompilationAndExecutionDevices ex_ext
     [''/device:CPU:0'', ''/device:TPU:0'', ''/device:TPU:1''] 2 1 =
     Inr \<lparr>da_compilation_device = ''/device:CPU:0'',
          da_execution_devices = [[''/device:TPU:0''], [''/device:TPU:1'']],
          da_xla_device_assignment = None\<rparr> \<and>
   allocated ex_replicated_state \<and> attached ex_replicated_state 3 \<and>
   get_op ex_replicated_rewritten 5 = Some ex_replicate_assigned \<and>
   map_of (op_attrs ex_replicate_assigned) kDevicesAttr =
     Some (DictionaryAttr
             [(''TPU_REPLICATED_CORE_0'',
               ArrayAttr [StringAttr ''/device:TPU:0'', StringAttr ''/device:TPU:1''])]) \<and>
   map_of (op_attrs ex_replicate_assigned) kReplicateNAttr = Some (IntegerAttr 2) \<and>
   map_option op_name (get_op ex_replicated_rewritten 19) = Some kExecuteOp \<and>
   get_op ex_replicated_rewritten 20 =
     Some \<lparr>op_name = kLaunchOp, op_operands = [],
           op_result_types = [RankedTensorType [2] ''f32''],
           op_attrs = [(kDeviceAttr, StringAttr ''TPU_REPLICATED_CORE_0'')]\<rparr> \<and>
   root ex_replicated_rewritten =
     OpNode 0
       [[OpNode 1
           [[OpNode 5
               [[OpNode 2 [], OpNode 12 [], OpNode 14 [[OpNode 13 [], OpNode 15 []]],
                 OpNode 17 [[OpNode 16 [], OpNode 18 []]],
                 OpNode 20 [[OpNode 19 [], OpNode 21 []]], OpNode 4 []]]]],
         OpNode 6 [[OpNode 7 []]], OpNode 8 [[OpNode 9 []]], OpNode 10 [[OpNode 11 []]]]]"
proof -
  let ?lf = "ex_launch_func ex_operands ex_shardings 1"
  let ?s = "ex_replicated_state"
  let ?a = "\<lparr>da_compilation_device = ''/device:CPU:0'',
          da_execution_devices = [[''/device:TPU:0''], [''/device:TPU:1'']],
          da_xla_device_assignment = None\<rparr>"
  have r: "Rewrite ex_ext 3 [''/device:CPU:0'', ''/device:TPU:0'', ''/device:TPU:1''] ?s =
     Some (Inr (), ex_replicated_rewritten)" by (rule ex_replicated_rewrite)
  have g: "get_op ?s 3 = Some ?lf" by (simp add: get_op_def ex_replicated_state_def)
  have nm: "op_name ?lf = kLaunchFuncOp" by (simp add: ex_proj)
  have mk: "getStringAttr ?lf kTpuReplicateAttr = Some ''cluster0''"
    by (simp add: getStringAttr_def ex_proj names_neq)
  have nc: "getIntegerAttr ?lf kNumCoresPerReplicaAttr = Some 1"
    by (simp add: getIntegerAttr_def ex_proj names_neq)
  have g5: "get_op ?s 5 = Some ex_replicate"
    by (simp add: get_op_def ex_replicated_state_def)
  have rn: "getIntegerAttr ex_replicate kReplicateNAttr = Some 2"
    by (simp add: getIntegerAttr_def ex_proj)
  have dv: "GetTPUCompilationAndExecutionDevices ex_ext
     [''/device:CPU:0'', ''/device:TPU:0'', ''/device:TPU:1''] (to_int32 2) 1 = Inr ?a"
    by (simp add: to_int32_1 ex_replicated_devices)
  have rows: "length (da_execution_devices ?a) = nat (to_int32 2)"
    by (simp add: to_int32_1)
  have n: "12 = length (ops ?s)" by (simp add: ex_replicated_state_def ex_funcs_def)
  have k: "1 = length (filter (\<lambda>v. \<not> has_static_shape (val_type v)) (op_operands ?lf))"
    by (simp add: ex_proj ex_operands_def ex_f32_def has_static_shape_def)
  have a5: "get_op ex_replicated_rewritten 5 = Some ex_replicate_assigned"
    by (simp add: get_op_def ex_replicated_rewritten_def ex_replicated_with_def)
  have rt: "root ex_replicated_rewritten =
     OpNode 0
       [[OpNode 1
           [[OpNode 5
               [[OpNode 2 [], OpNode 12 [], OpNode 14 [[OpNode 13 [], OpNode 15 []]],
                 OpNode 17 [[OpNode 16 [], OpNode 18 []]],
                 OpNode 20 [[OpNode 19 [], OpNode 21 []]], OpNode 4 []]]]],
         OpNode 6 [[OpNode 7 []]], OpNode 8 [[OpNode 9 []]], OpNode 10 [[OpNode 11 []]]]]"
    by (simp add: ex_stage_defs ex_func_trees_def ex_replicated_defs)
  from replicate_devices [OF r g nm mk nc to_int32_1(1) ex_replicated_parent g5 rn dv rows
      ex_replicated_well_formed n k]
  obtain rd' device_names execute where
    c: "get_op ex_replicated_rewritten 5 = Some rd'"
      "map_of (op_attrs rd') kDevicesAttr =
       Some (DictionaryAttr [(GetDeviceAliasForLogicalCore ex_ext 0,
                              ArrayAttr (map StringAttr device_names))])"
      "length device_names = nat (to_int32 2)"
      "\<forall>i<nat (to_int32 2). device_names ! i = hd (da_execution_devices ?a ! i)"
      "\<forall>x. x \<noteq> kDevicesAttr \<longrightarrow> map_of (op_attrs rd') x = map_of (op_attrs ex_replicate) x"
      "get_op ex_replicated_rewritten (12 + 1 + 6) = Some execute" "op_name execute = kExecuteOp"
      "get_op ex_replicated_rewritten (12 + 1 + 7) =
       Some \<lparr>op_name = kLaunchOp, op_operands = [], op_result_types = op_result_types ?lf,
             op_attrs = [(kDeviceAttr, StringAttr (GetDeviceAliasForLogicalCore ex_ext 0))]\<rparr>"
    by blast
  have e: "rd' = ex_replicate_assigned" using c(1) a5 by simp
  have dn: "device_names = [''/device:TPU:0'', ''/device:TPU:1'']"
    using c(3,4) by (auto simp: to_int32_1 list_eq_iff_nth_eq less_2_cases_iff nth_Cons')
  have c2: "map_of (op_attrs ex_replicate_assigned) kDevicesAttr =
     Some (DictionaryAttr
             [(''TPU_REPLICATED_CORE_0'',
               ArrayAttr [StringAttr ''/device:TPU:0'', StringAttr ''/device:TPU:1''])])"
    using c(2) unfolding e dn by (simp add: ex_ext_proj)
  have c5: "map_of (op_attrs ex_replicate_assigned) kReplicateNAttr = Some (IntegerAttr 2)"
    using c(5) unfolding e by (simp add: ex_proj names_neq)
  have c6: "map_option op_name (get_op ex_replicated_rewritten 19) = Some kExecuteOp"
    using c(6,7) by simp
  have c8: "get_op ex_replicated_rewritten 20 =
     Some \<lparr>op_name = kLaunchOp, op_operands = [],
           op_result_types = [RankedTensorType [2] ''f32''],
           op_attrs = [(kDeviceAttr, StringAttr ''TPU_REPLICATED_CORE_0'')]\<rparr>"
    using c(8) by (simp add: ex_proj ex_ext_proj ex_f32_def)
  show ?thesis
    using r g nm mk nc g5 rn dv[unfolded to_int32_1] ex_replicated_parent
      ex_replicated_well_formed a5 c2 c5 c6 c8 rt
    by (simp add: to_int32_1)
qed

text \<open>
  Claim C1, on a launch function with \<^verbatim>\<open>num_cores_per_replica\<close> 2.
  \<^verbatim>\<open>BuildCompileOp\<close> gives the compile operation, and the launch that wraps it, two
  results whatever the number of cores; \<^verbatim>\<open>BuildParallelExecuteOp\<close> asks that launch for
  result \<open>1 + core_id\<close>, so for the second core for result 2, which it does not have, and
  \<^verbatim>\<open>Rewrite\<close> stops there.
\<close>

theorem parallel_execute_result_missing:
  "BuildCompileOp ex_ext 3 1 2 ''/device:CPU:0'' None
     ((ex_state (ex_launch_func ex_operands ex_shardings 2))\<lparr>ip := BeforeOp 3\<rparr>) =
     Some (Inr 14, ex_compiled (ex_launch_func ex_operands ex_shardings 2)) \<and>
   map_option op_name (get_op (ex_compiled (ex_launch_func ex_operands ex_shardings 2)) 13) =
     Some kCompileOp \<and>
   getResultTypes (ex_compiled (ex_launch_func ex_operands ex_shardings 2)) 13 =
     [string_tensor_type, string_tensor_type] \<and>
   getResultTypes (ex_compiled (ex_launch_func ex_operands ex_shardings 2)) 14 =
     [string_tensor_type, string_tensor_type] \<and>
   (\<exists>s'. Rewrite ex_ext 3 [''/device:CPU:0'', ''/device:TPU:0'', ''/device:TPU:1'']
            (ex_state (ex_launch_func ex_operands ex_shardings 2)) =
          Some (Inl (InvalidResultNumber 14 2), s'))"
proof -
  let ?lf = "ex_launch_func ex_operands ex_shardings 2"
  let ?devices = "[''/device:CPU:0'', ''/device:TPU:0'', ''/device:TPU:1'']"
  let ?a = "\<lparr>da_compilation_device = ''/device:CPU:0'',
          da_execution_devices = [[''/device:TPU:0'', ''/device:TPU:0'']],
          da_xla_device_assignment = None\<rparr>"
  have c: "BuildCompileOp ex_ext 3 1 2 ''/device:CPU:0'' None
      ((ex_state ?lf)\<lparr>ip := BeforeOp 3\<rparr>) = Some (Inr 14, ex_compiled ?lf)"
    unfolding ex_state_ip by (rule ex_stage_compile_any)
  have nm: "map_option op_name (get_op (ex_compiled ?lf) 13) = Some kCompileOp"
    by (simp add: get_op_def ex_stage_defs ex_funcs_def)
  have t13: "getResultTypes (ex_compiled ?lf) 13 = [string_tensor_type, string_tensor_type]"
    by (simp add: getResultTypes_def get_op_def ex_stage_defs ex_funcs_def)
  have t14: "getResultTypes (ex_compiled ?lf) 14 = [string_tensor_type, string_tensor_type]"
    by (simp add: getResultTypes_def get_op_def ex_stage_defs ex_funcs_def)
  have 1: "get_op (ex_state ?lf) 3 = Some ?lf" by (simp add: get_op_def ex_state_def)
  have 2: "getStringAttr ?lf kTpuReplicateAttr = Some ''cluster0''"
    by (simp add: getStringAttr_def ex_proj names_neq)
  have 3: "num_replicas_of (ex_state ?lf) (getParentReplicate (ex_state ?lf) 3) = Inr 1"
    by (simp add: ex_no_replicate num_replicas_of_def)
  have 4: "getIntegerAttr ?lf kNumCoresPerReplicaAttr = Some 2"
    by (simp add: getIntegerAttr_def ex_proj names_neq)
  have 5: "GetTPUCompilationAndExecutionDevices ex_ext ?devices 1 (to_int32 2) = Inr ?a"
    by (simp add: ex_ext_proj to_string.simps to_int32_1 numeral_2_eq_2)
  have 6: "BuildCompileOp ex_ext 3 1 (to_int32 2) (da_compilation_device ?a)
           (da_xla_device_assignment ?a) ((ex_state ?lf)\<lparr>ip := BeforeOp 3\<rparr>) =
           Some (Inr 14, ex_compiled ?lf)"
    using c by (simp add: to_int32_1)
  have 7: "getBlock (ex_compiled ?lf) 3 = Some [2, 12, 14, 3, 4, 5]" by (rule ex_block)
  have 8: "redirect_compilation_results
             (filter (has_name (ex_compiled ?lf) kCompilationResultOp) [2, 12, 14, 3, 4, 5])
             14 (ex_compiled ?lf) = (Inr (), ex_redirected ?lf)"
    unfolding ex_placeholders using ex_stage_redirect by (simp add: ex_proj names_neq)
  have 9: "BuildTPUCompileSucceededAssertOp 14 (da_compilation_device ?a) (ex_redirected ?lf) =
             (Inr (), ex_asserted ?lf)"
    using ex_stage_assert by simp
  let ?pd = "\<lparr>op_name = kParallelExecuteOp, op_operands = [],
              op_result_types = concat (replicate (nat 2) (getResultTypes (ex_asserted ?lf) 3)),
              op_attrs = []\<rparr>"
  let ?s4 = "snd (create_op ?pd (nat 2) (ex_asserted ?lf))"
  have l: "length (ops (ex_asserted ?lf)) = 19"
    by (simp add: ex_stage_defs ex_funcs_def)
  have o4: "ops ?s4 = ops (ex_asserted ?lf) @ [Some ?pd]" by simp
  have l4: "14 < length (ops ?s4)" unfolding o4 by (simp add: l)
  have "getResultTypes (ex_asserted ?lf) 14 = [string_tensor_type, string_tensor_type]"
    by (simp add: getResultTypes_def get_op_def ex_stage_defs ex_funcs_def)
  then have t4: "getResultTypes ?s4 14 = [string_tensor_type, string_tensor_type]"
    using getResultTypes_old[OF o4, of 14] l by simp
  from parallel_regions_loop_second[OF l4 t4, of "[]" 19 3
      "ExtractInputsForLogicalDevices ex_ext 2 ?s4 3"]
  obtain s' where loop: "parallel_regions_loop [0, 1] 19 14 3
      (ExtractInputsForLogicalDevices ex_ext 2 ?s4 3) ?s4 = (Inl (InvalidResultNumber 14 2), s')"
    by blast
  have up: "[0..<nat 2] = [0, 1]" by (simp add: upt_rec)
  have len: "length (ExtractInputsForLogicalDevices ex_ext 2 ?s4 3) = nat 2"
    by (simp add: ex_ext_proj)
  have lt: "(1::int) < 2" by simp
  have f4: "fst (create_op ?pd (nat 2) (ex_asserted ?lf)) = 19" by (simp add: l)
  have bp: "BuildParallelExecuteOp ex_ext 2 14 3 (ex_asserted ?lf) =
      (Inl (InvalidResultNumber 14 2), s')"
    unfolding BuildParallelExecuteOp_def case_prod_unfold f4 len up loop by simp
  have be: "build_execution ex_ext 3 2 (da_execution_devices ?a) None 14 (ex_asserted ?lf) =
      (Inl (InvalidResultNumber 14 2), s')"
    unfolding build_execution_def bp using lt by simp
  have "Rewrite ex_ext 3 ?devices (ex_state ?lf) = Some (Inl (InvalidResultNumber 14 2), s')"
    unfolding Rewrite_steps[OF 1 2 3 4 5 6 7 8 9] ex_no_replicate to_int32_1 be ..
  then show ?thesis using c nm t13 t14 by blast
qed

end
